(* ===== verification/Prelude.thy ===== *)
theory Prelude
  imports Main
begin

text \<open>
  Shared vocabulary of the development: the JavaScript idioms the sources use
  (falsy strings and the \<open>||\<close> default, \<open>s.split(c)[0]\<close>, \<open>s.trim()\<close>
  with its equivalence to the standard's index form), a list
  helper for removing the task a scheduler resumes, the type names of the model,
  and the lemma collections the component theories feed.
\<close>

named_theorems js_simps "evaluation rules for the JavaScript idioms of the model"
named_theorems frame_simps "fields an operation of the model leaves unchanged"

type_synonym user_id = string
type_synonym js_string = string

subsection \<open>Falsy strings and the \<open>||\<close> default\<close>

text \<open>
  In JavaScript \<open>a || b\<close> yields \<open>a\<close> when it is truthy and \<open>b\<close> otherwise;
  for an optional string (\<open>undefined\<close>, \<open>null\<close> or a string) the falsy values
  are the missing value and the empty string.
\<close>

definition js_truthy :: "js_string option \<Rightarrow> bool" where
  "js_truthy v = (case v of None \<Rightarrow> False | Some s \<Rightarrow> s \<noteq> [])"

definition js_or :: "js_string option \<Rightarrow> js_string \<Rightarrow> js_string" where
  "js_or v d = (case v of None \<Rightarrow> d | Some s \<Rightarrow> if s \<noteq> [] then s else d)"

text \<open>\<open>s.split(c)[0]\<close>: the part of \<open>s\<close> before the first \<open>c\<close>, or all of it.\<close>

definition split_head :: "char \<Rightarrow> js_string \<Rightarrow> js_string" where
  "split_head c s = takeWhile (\<lambda>x. x \<noteq> c) s"

lemma js_or_None [simp, js_simps]: "js_or None d = d"
  by (simp add: js_or_def)

lemma js_or_Some [simp, js_simps]: "js_or (Some s) d = (if s \<noteq> [] then s else d)"
  by (simp add: js_or_def)

lemma js_truthy_simps [simp, js_simps]:
  "js_truthy None = False" "js_truthy (Some s) = (s \<noteq> [])"
  by (simp_all add: js_truthy_def)

lemma js_or_truthy: "js_or v d = (if js_truthy v then the v else d)"
  by (cases v) simp_all

lemma js_or_nonempty [intro]: "d \<noteq> [] \<Longrightarrow> js_or v d \<noteq> []"
  by (cases v) simp_all

lemma js_or_cases:
  "js_or v d = d \<or> (\<exists>s. v = Some s \<and> s \<noteq> [] \<and> js_or v d = s)"
  by (cases v) auto

lemma split_head_no_sep [simp]: "c \<notin> set (split_head c s)"
  by (induction s) (auto simp: split_head_def)

lemma split_head_rejoin: "split_head c s @ dropWhile (\<lambda>x. x \<noteq> c) s = s"
  by (simp add: split_head_def)

lemma split_head_no_sep_id: "c \<notin> set s \<Longrightarrow> split_head c s = s"
  by (induction s) (auto simp: split_head_def)

lemma split_head_Cons [simp, js_simps]:
  "split_head c [] = []"
  "split_head c (x # xs) = (if x = c then [] else x # split_head c xs)"
  by (simp_all add: split_head_def)

subsection \<open>\<open>String.prototype.trim\<close>\<close>

text \<open>
  \<open>trim\<close> removes the white space and line terminators at both ends. A \<open>char\<close>
  is one byte here, so the model covers those below 256 (tab, line feed, vertical
  tab, form feed, carriage return, space, no-break space U+00A0); the others
  JavaScript also removes (U+FEFF, U+2028, U+2029 and the other Unicode space
  separators) lie outside the model's characters.
\<close>

definition js_is_space :: "char \<Rightarrow> bool" where
  "js_is_space c \<longleftrightarrow> c \<in> {CHR '' '', CHR 0x09, CHR 0x0A, CHR 0x0B, CHR 0x0C, CHR 0x0D, CHR 0xA0}"

definition js_trim :: "js_string \<Rightarrow> js_string" where
  "js_trim s = rev (dropWhile js_is_space (rev (dropWhile js_is_space s)))"

text \<open>The index form of \<open>String.prototype.trim\<close> in the language standard: the
  substring between the first and the last character that is not white space, found
  by counting the leading and the trailing run of white space.\<close>

definition trim_ref :: "js_string \<Rightarrow> js_string" where
  "trim_ref s =
     (let i = length (takeWhile js_is_space s); j = length (takeWhile js_is_space (rev s))
      in take (length s - i - j) (drop i s))"

lemma ball_set_dropWhile: "(\<forall>x\<in>set (dropWhile P s). P x) = (\<forall>x\<in>set s. P x)"
  by (induction s) auto

lemma js_trim_empty_iff: "js_trim s = [] \<longleftrightarrow> (\<forall>c\<in>set s. js_is_space c)"
  by (simp add: js_trim_def dropWhile_eq_Nil_conv ball_set_dropWhile)

lemma js_trim_idem [simp]: "js_trim (js_trim s) = js_trim s"
  unfolding js_trim_def
  by (metis (no_types, lifting) ext Nil_is_rev_conv dropWhile_eq_Nil_conv
      dropWhile_eq_self_iff dropWhile_last hd_dropWhile last_rev rev_swap)

lemma js_trim_Nil [simp]: "js_trim [] = []"
  by (simp add: js_trim_def)

lemma rev_dropWhile_rev:
  "rev (dropWhile P (rev xs)) = take (length xs - length (takeWhile P (rev xs))) xs"
  by (simp add: dropWhile_eq_drop rev_drop)

lemma takeWhile_rev_drop:
  assumes "\<not> list_all P (drop i s)"
  shows "takeWhile P (rev (drop i s)) = takeWhile P (rev s)"
proof -
  have "rev s = rev (drop i s) @ rev (take i s)"
    by (metis append_take_drop_id rev_append)
  moreover obtain x where "x \<in> set (rev (drop i s))" "\<not> P x"
    using assms by (auto simp: list_all_iff)
  ultimately show ?thesis by (simp add: takeWhile_append1)
qed

text \<open>The model of \<open>trim\<close> (drop the white space in front, then behind) computes
  the standard's index form: the same substring, for every string.\<close>

theorem js_trim_refines_index_form: "js_trim s = trim_ref s"
proof (cases "list_all js_is_space (drop (length (takeWhile js_is_space s)) s)")
  case True
  then have sp: "\<forall>c\<in>set s. js_is_space c"
    by (simp add: dropWhile_eq_drop [symmetric] list_all_iff ball_set_dropWhile)
  then have d: "dropWhile js_is_space s = []" and t: "takeWhile js_is_space s = s"
    by (simp_all add: dropWhile_eq_Nil_conv takeWhile_eq_all_conv)
  from t have "length (takeWhile js_is_space s) = length s" by (rule arg_cong)
  then show ?thesis unfolding js_trim_def trim_ref_def Let_def d by simp
next
  case False
  then show ?thesis
    unfolding js_trim_def trim_ref_def Let_def dropWhile_eq_drop [of js_is_space s]
    by (simp add: rev_dropWhile_rev takeWhile_rev_drop)
qed

subsection \<open>Removing the resumed task\<close>

definition remove_nth :: "nat \<Rightarrow> 'a list \<Rightarrow> 'a list" where
  "remove_nth i xs = take i xs @ drop (Suc i) xs"

lemma remove_nth_Cons [simp]:
  "remove_nth 0 (x # xs) = xs"
  "remove_nth (Suc i) (x # xs) = x # remove_nth i xs"
  by (simp_all add: remove_nth_def)

lemma remove_nth_Nil [simp]: "remove_nth i [] = []"
  by (simp add: remove_nth_def)

lemma length_remove_nth [simp]:
  "i < length xs \<Longrightarrow> length (remove_nth i xs) = length xs - 1"
  by (simp add: remove_nth_def)

lemma set_remove_nth: "set (remove_nth i xs) \<subseteq> set xs"
proof -
  have "set (take i xs) \<subseteq> set xs" and "set (drop (Suc i) xs) \<subseteq> set xs"
    by (rule set_take_subset, rule set_drop_subset)
  then show ?thesis by (simp add: remove_nth_def)
qed

lemma sum_list_remove_nth:
  fixes f :: "'a \<Rightarrow> 'b::comm_monoid_add"
  shows "i < length xs \<Longrightarrow> sum_list (map f (remove_nth i xs)) + f (xs ! i) = sum_list (map f xs)"
proof (induction xs arbitrary: i)
  case (Cons x xs)
  show ?case
  proof (cases i)
    case (Suc j)
    with Cons.prems have "j < length xs" by simp
    with Cons.IH [OF this] Suc show ?thesis by (simp add: add.assoc)
  qed (simp add: add.commute)
qed simp

lemma length_filter_remove_nth:
  "i < length xs \<Longrightarrow>
     length (filter P (remove_nth i xs)) + (if P (xs ! i) then 1 else 0) = length (filter P xs)"
proof (induction xs arbitrary: i)
  case (Cons x xs)
  show ?case
  proof (cases i)
    case (Suc j)
    with Cons.prems have "j < length xs" by simp
    with Cons.IH [OF this] Suc show ?thesis by simp
  qed simp
qed simp

end
