(* ===== verification/Auth_Types.thy ===== *)
theory Auth_Types
  imports Prelude
begin

text \<open>
  The data of \<open>src/src/contexts/AuthContext.tsx\<close>: the application's \<open>User\<close>
  interface (lines 8--16), the part of the provider's user object the context reads,
  the derivation of an application user from a provider user in \<open>handleAuthUser\<close>
  (lines 135--143), the row \<open>createUserProfile\<close> inserts (lines 90--95), the
  error messages the actions throw, and the replies of the external provider at each
  \<open>await\<close>. Messages in Chinese in the source are constructors here, named after
  their meaning.
\<close>

datatype role = Role_admin | Role_user

record app_user =
  uid :: user_id
  email :: js_string
  username :: js_string
  role :: role
  created_at :: js_string
  updated_at :: js_string
  avatar_url :: "js_string option"

text \<open>
  The fields of the provider's \<open>SupabaseUser\<close> that \<open>handleAuthUser\<close> reads:
  \<open>id\<close>, \<open>email?\<close>, \<open>user_metadata?.username\<close>,
  \<open>user_metadata?.avatar_url\<close>, \<open>created_at\<close>, \<open>updated_at?\<close>.
\<close>

record sb_user =
  sb_id :: user_id
  sb_email :: "js_string option"
  meta_username :: "js_string option"
  meta_avatar_url :: "js_string option"
  sb_created_at :: js_string
  sb_updated_at :: "js_string option"

definition admin_email :: js_string where
  "admin_email = ''admin@test.edu.cn''"

definition infer_role :: "js_string option \<Rightarrow> role" where
  "infer_role e = (if e = Some admin_email then Role_admin else Role_user)"

definition to_app_user :: "sb_user \<Rightarrow> app_user" where
  "to_app_user au =
     \<lparr> uid = sb_id au,
       email = js_or (sb_email au) [],
       username = js_or (meta_username au)
                    (js_or (map_option (split_head CHR ''@'') (sb_email au)) ''User''),
       role = infer_role (sb_email au),
       created_at = sb_created_at au,
       updated_at = js_or (sb_updated_at au) (sb_created_at au),
       avatar_url = meta_avatar_url au \<rparr>"

text \<open>The object \<open>createUserProfile\<close> passes to \<open>insert\<close>.\<close>

record profile_row =
  row_id :: user_id
  row_email :: js_string
  row_username :: js_string
  row_role :: role

definition profile_insert_row :: "user_id \<Rightarrow> app_user \<Rightarrow> profile_row" where
  "profile_insert_row i u =
     \<lparr> row_id = i,
       row_email = email u,
       row_username = split_head CHR ''@'' (email u),
       row_role = (if email u = admin_email then Role_admin else Role_user) \<rparr>"

subsection \<open>Errors thrown to the caller\<close>

text \<open>
  \<open>Db_unavailable\<close> is the message of lines 160 and 195 (database connection
  unavailable), \<open>Bad_credentials\<close> the translation of line 175 (wrong e-mail or
  password); every other provider message is passed through.
\<close>

datatype err_msg = Db_unavailable | Bad_credentials | Provider_message js_string

definition sign_in_error :: "js_string \<Rightarrow> err_msg" where
  "sign_in_error m =
     (if m = ''Invalid login credentials'' then Bad_credentials else Provider_message m)"

datatype call_result = Returned | Threw err_msg

subsection \<open>Replies of the provider at each suspension point\<close>

text \<open>
  \<open>getSession\<close> and \<open>refreshSession\<close> answer an error, a session (whose
  \<open>user\<close> may be missing), or reject; the \<open>users\<close> table answers a row (or
  none), an error with its code (\<open>PGRST116\<close>: no row), or rejects;
  \<open>signInWithPassword\<close> and \<open>signUp\<close> answer an error message, a user (or
  none), or reject with a message; \<open>signOut\<close> answers an error or success.
\<close>

datatype session_reply = Session_error | Session_ok "sb_user option" | Session_throw

datatype db_reply = Db_data "app_user option" | Db_error js_string | Db_throw

datatype auth_reply = Auth_error js_string | Auth_ok "sb_user option" | Auth_throw js_string

datatype signout_reply = Signout_error js_string | Signout_ok

definition not_found_code :: js_string where
  "not_found_code = ''PGRST116''"

text \<open>A provider user whose sign-up metadata carries a username.\<close>

definition sample_meta_user :: sb_user where
  "sample_meta_user =
     \<lparr> sb_id = ''u-2'', sb_email = Some ''li.wei@test.edu.cn'', meta_username = Some ''Wei'',
       meta_avatar_url = None, sb_created_at = ''2025-02-01'', sb_updated_at = None \<rparr>"

text \<open>A well-formed identity, as \<open>handleAuthUser\<close> builds it: a non-empty username,
  the administrator role exactly for the administrator's e-mail, and a last-update
  time whenever there is a creation time.\<close>

definition wf_app_user :: "app_user \<Rightarrow> bool" where
  "wf_app_user u \<longleftrightarrow>
     username u \<noteq> [] \<and> (role u = Role_admin \<longleftrightarrow> email u = admin_email) \<and>
     (created_at u \<noteq> [] \<longrightarrow> updated_at u \<noteq> [])"

subsection \<open>Facts about the derived identity\<close>

lemma admin_email_nonempty [simp]: "admin_email \<noteq> []"
  by (simp add: admin_email_def)

lemma to_app_user_fields [simp]:
  "uid (to_app_user au) = sb_id au"
  "role (to_app_user au) = infer_role (sb_email au)"
  "avatar_url (to_app_user au) = meta_avatar_url au"
  "created_at (to_app_user au) = sb_created_at au"
  by (simp_all add: to_app_user_def)

lemma email_to_app_user_admin:
  "(email (to_app_user au) = admin_email) = (sb_email au = Some admin_email)"
  by (cases "sb_email au") (auto simp: to_app_user_def admin_email_def)

lemma infer_role_admin_iff: "(infer_role e = Role_admin) = (e = Some admin_email)"
  by (simp add: infer_role_def)

text \<open>C15: the role of the derived identity is \<open>admin\<close> exactly when the provider's
  e-mail is the fixed administrator address; every other e-mail, and a missing one,
  gives \<open>user\<close>.\<close>

theorem to_app_user_admin_iff:
  "(role (to_app_user au) = Role_admin) = (sb_email au = Some admin_email)"
  by (simp add: infer_role_admin_iff)

text \<open>The username of the derived identity is never empty: the metadata name,
  else the local part of the e-mail, else \<open>User\<close>.\<close>

theorem to_app_user_username_nonempty: "username (to_app_user au) \<noteq> []"
  by (simp add: to_app_user_def js_or_nonempty)

text \<open>The row \<open>createUserProfile\<close> inserts for an identity carries the role
  \<open>handleAuthUser\<close> derived for it: the two role inferences agree.\<close>

theorem insert_row_role_agrees:
  "row_role (profile_insert_row i (to_app_user au)) = role (to_app_user au)"
  by (simp add: profile_insert_row_def email_to_app_user_admin infer_role_def)

text \<open>For a provider user without a metadata username whose e-mail has a
  non-empty local part, the profile row \<open>createUserProfile\<close> inserts carries the
  username \<open>handleAuthUser\<close> derived: both are the e-mail's local part.\<close>

theorem insert_row_username_agrees:
  assumes "\<not> js_truthy (meta_username au)" and "sb_email au = Some e"
    and "split_head CHR ''@'' e \<noteq> []"
  shows "row_username (profile_insert_row i (to_app_user au)) = username (to_app_user au)"
proof -
  have "e \<noteq> []" using assms(3) by auto
  then have "email (to_app_user au) = e" using assms(2) by (simp add: to_app_user_def)
  moreover have "username (to_app_user au) = split_head CHR ''@'' e"
    using assms by (simp add: to_app_user_def js_or_truthy)
  ultimately show ?thesis by (simp add: profile_insert_row_def)
qed

theorem insert_row_username_agrees_witness:
  "\<not> js_truthy (meta_username (sample_meta_user\<lparr>meta_username := None\<rparr>)) \<and>
   row_username (profile_insert_row ''u-2'' (to_app_user (sample_meta_user\<lparr>meta_username := None\<rparr>))) =
     username (to_app_user (sample_meta_user\<lparr>meta_username := None\<rparr>)) \<and>
   username (to_app_user (sample_meta_user\<lparr>meta_username := None\<rparr>)) = ''li.wei''"
proof -
  let ?au = "sample_meta_user\<lparr>meta_username := None\<rparr>"
  have h: "\<not> js_truthy (meta_username ?au)" "sb_email ?au = Some ''li.wei@test.edu.cn''"
    "split_head CHR ''@'' ''li.wei@test.edu.cn'' \<noteq> []"
    by (simp_all add: sample_meta_user_def)
  have u: "username (to_app_user ?au) = ''li.wei''"
    by (simp add: sample_meta_user_def to_app_user_def)
  show ?thesis using h u insert_row_username_agrees [OF h, of "''u-2''"] by simp
qed

text \<open>C33: when the sign-up metadata carries a username, the identity uses it but the
  inserted profile row does not: \<open>createUserProfile\<close> stores the local part of the
  identity's e-mail, so the two disagree whenever the chosen name is not that local
  part.\<close>

theorem insert_row_username_ignores_metadata:
  assumes "meta_username au = Some n" and "n \<noteq> []"
  shows "username (to_app_user au) = n \<and>
         row_username (profile_insert_row i (to_app_user au)) =
           split_head CHR ''@'' (js_or (sb_email au) [])"
  using assms by (simp add: to_app_user_def profile_insert_row_def)

theorem insert_row_username_ignores_metadata_witness:
  "meta_username sample_meta_user = Some ''Wei'' \<and> ''Wei'' \<noteq> [] \<and>
   username (to_app_user sample_meta_user) = ''Wei'' \<and>
   row_username (profile_insert_row (sb_id sample_meta_user) (to_app_user sample_meta_user)) =
     ''li.wei''"
proof -
  have h: "meta_username sample_meta_user = Some ''Wei''" "''Wei'' \<noteq> []"
    by (simp_all add: sample_meta_user_def)
  have e: "split_head CHR ''@'' (js_or (sb_email sample_meta_user) []) = ''li.wei''"
    by (simp add: sample_meta_user_def)
  show ?thesis
    using h e insert_row_username_ignores_metadata [OF h, of "sb_id sample_meta_user"] by simp
qed

lemma wf_to_app_user [simp]: "wf_app_user (to_app_user au)"
proof -
  have "updated_at (to_app_user au) = js_or (sb_updated_at au) (sb_created_at au)"
    by (simp add: to_app_user_def)
  then have "created_at (to_app_user au) \<noteq> [] \<longrightarrow> updated_at (to_app_user au) \<noteq> []"
    by (auto simp: js_or_nonempty)
  then show ?thesis
    by (simp add: wf_app_user_def to_app_user_username_nonempty infer_role_admin_iff
        email_to_app_user_admin)
qed

end
