(* ===== verification/Auth_State.thy ===== *)
theory Auth_State
  imports Auth_Types
begin

text \<open>
  The state of \<open>AuthProvider\<close> (\<open>src/src/contexts/AuthContext.tsx\<close>) and one
  definition per handler. The React state (\<open>user\<close>, \<open>profile\<close>,
  \<open>loading\<close>, \<open>isLoading\<close>, \<open>isAuthenticated\<close>, lines 37--41) and the
  refs (\<open>mountedRef\<close>, \<open>initializingRef\<close>, \<open>sessionCheckedRef\<close>, lines
  43--45) are fields of one record; so are whether the provider client exists
  (\<open>supabase\<close> is not null), whether the auth-event subscription is live, the
  \<open>user\<close> captured by the closures of the mount effect, the pending work, the
  profile rows sent to the \<open>users\<close> table and the results the action promises
  settled with.

  Each async function is cut at its \<open>await\<close>s on the provider: the part before
  the first one is a definition that updates the state and appends a \<open>task\<close>
  (the suspended continuation); the part after it is a \<open>_resume\<close> definition that
  takes the provider's reply. A \<open>setTimeout\<close> callback is a task too. Awaiting
  \<open>handleAuthUser\<close>, which has no suspension point of its own, is not a
  suspension point of the model. A closure reads the \<open>user\<close> of the render that
  created it, so tasks carry that value.
\<close>

datatype task =
    T_check_session "app_user option"
  | T_timer user_id "app_user option"
  | T_fetch user_id "app_user option"
  | T_create user_id
  | T_refresh "app_user option"
  | T_sign_in "app_user option"
  | T_sign_up "app_user option"
  | T_sign_out

record auth_sys =
  configured :: bool
  user :: "app_user option"
  profile :: "app_user option"
  loading :: bool
  is_loading :: bool
  is_authenticated :: bool
  mounted_ref :: bool
  initializing_ref :: bool
  session_checked_ref :: bool
  subscribed :: bool
  effect_user :: "app_user option"
  tasks :: "task list"
  inserts :: "profile_row list"
  results :: "call_result list"

definition init_sys :: "bool \<Rightarrow> auth_sys" where
  "init_sys c =
     \<lparr> configured = c, user = None, profile = None, loading = True, is_loading = False,
       is_authenticated = False, mounted_ref = True, initializing_ref = False,
       session_checked_ref = False, subscribed = False, effect_user = None,
       tasks = [], inserts = [], results = [] \<rparr>"

definition observable ::
  "auth_sys \<Rightarrow> app_user option \<times> app_user option \<times> bool \<times> bool \<times> bool" where
  "observable s = (user s, profile s, loading s, is_loading s, is_authenticated s)"

definition spawn :: "task \<Rightarrow> auth_sys \<Rightarrow> auth_sys" where
  "spawn t s = s\<lparr>tasks := tasks s @ [t]\<rparr>"

definition finish :: "call_result \<Rightarrow> auth_sys \<Rightarrow> auth_sys" where
  "finish r s = s\<lparr>results := results s @ [r]\<rparr>"

subsection \<open>\<open>handleAuthUser\<close>\<close>

definition handle_auth_user :: "app_user option \<Rightarrow> sb_user \<Rightarrow> auth_sys \<Rightarrow> auth_sys" where
  "handle_auth_user c au s =
     (if \<not> mounted_ref s then s
      else spawn (T_timer (sb_id au) c)
             (s\<lparr>user := Some (to_app_user au), is_authenticated := True\<rparr>))"

subsection \<open>\<open>fetchProfile\<close> and \<open>createUserProfile\<close>\<close>

definition fetch_profile :: "app_user option \<Rightarrow> user_id \<Rightarrow> auth_sys \<Rightarrow> auth_sys" where
  "fetch_profile c i s =
     (if i = [] \<or> \<not> mounted_ref s \<or> \<not> configured s then s
      else spawn (T_fetch i c) (s\<lparr>is_loading := True\<rparr>))"

definition fetch_profile_finally :: "auth_sys \<Rightarrow> auth_sys" where
  "fetch_profile_finally s = (if mounted_ref s then s\<lparr>is_loading := False\<rparr> else s)"

text \<open>
  \<open>createUserProfile\<close> is awaited by \<open>fetchProfile\<close> only, whose code after
  that \<open>await\<close> is its \<open>finally\<close> block: the model runs that block where
  \<open>createUserProfile\<close> returns, at once on its early return, or when the insert is
  answered.
\<close>

definition create_user_profile :: "app_user option \<Rightarrow> user_id \<Rightarrow> auth_sys \<Rightarrow> auth_sys" where
  "create_user_profile c i s =
     (case c of
        None \<Rightarrow> fetch_profile_finally s
      | Some u \<Rightarrow>
          if \<not> configured s then fetch_profile_finally s
          else spawn (T_create i) (s\<lparr>inserts := inserts s @ [profile_insert_row i u]\<rparr>))"

fun fetch_profile_resume ::
  "app_user option \<Rightarrow> user_id \<Rightarrow> db_reply \<Rightarrow> auth_sys \<Rightarrow> auth_sys" where
  "fetch_profile_resume c i (Db_error code) s =
     (if code = not_found_code then create_user_profile c i s else fetch_profile_finally s)"
| "fetch_profile_resume c i (Db_data d) s =
     fetch_profile_finally
       (case d of
          None \<Rightarrow> s
        | Some p \<Rightarrow> if mounted_ref s then s\<lparr>profile := Some p\<rparr> else s)"
| "fetch_profile_resume c i Db_throw s = fetch_profile_finally s"

fun create_profile_resume :: "db_reply \<Rightarrow> auth_sys \<Rightarrow> auth_sys" where
  "create_profile_resume (Db_data (Some p)) s =
     fetch_profile_finally (if mounted_ref s then s\<lparr>profile := Some p\<rparr> else s)"
| "create_profile_resume (Db_data None) s = fetch_profile_finally s"
| "create_profile_resume (Db_error e) s = fetch_profile_finally s"
| "create_profile_resume Db_throw s = fetch_profile_finally s"

subsection \<open>\<open>refreshSession\<close>\<close>

definition refresh_session :: "app_user option \<Rightarrow> auth_sys \<Rightarrow> auth_sys" where
  "refresh_session c s =
     (if \<not> configured s then finish Returned s else spawn (T_refresh c) s)"

fun refresh_session_resume ::
  "app_user option \<Rightarrow> session_reply \<Rightarrow> auth_sys \<Rightarrow> auth_sys" where
  "refresh_session_resume c Session_error s = finish Returned s"
| "refresh_session_resume c (Session_ok (Some au)) s =
     finish Returned (if mounted_ref s then handle_auth_user c au s else s)"
| "refresh_session_resume c (Session_ok None) s = finish Returned s"
| "refresh_session_resume c Session_throw s = finish Returned s"

subsection \<open>The actions \<open>signIn\<close>, \<open>signUp\<close>, \<open>signOut\<close>\<close>

definition action_finally :: "auth_sys \<Rightarrow> auth_sys" where
  "action_finally s = (if mounted_ref s then s\<lparr>loading := False\<rparr> else s)"

definition clear_session :: "auth_sys \<Rightarrow> auth_sys" where
  "clear_session s =
     (if mounted_ref s then s\<lparr>user := None, profile := None, is_authenticated := False\<rparr>
      else s)"

definition sign_in :: "app_user option \<Rightarrow> auth_sys \<Rightarrow> auth_sys" where
  "sign_in c s =
     (if \<not> configured s then finish (Threw Db_unavailable) s
      else spawn (T_sign_in c) (s\<lparr>loading := True\<rparr>))"

fun sign_in_resume :: "app_user option \<Rightarrow> auth_reply \<Rightarrow> auth_sys \<Rightarrow> auth_sys" where
  "sign_in_resume c (Auth_error m) s = finish (Threw (sign_in_error m)) (action_finally s)"
| "sign_in_resume c (Auth_ok (Some au)) s =
     finish Returned (action_finally (handle_auth_user c au s))"
| "sign_in_resume c (Auth_ok None) s = finish Returned (action_finally s)"
| "sign_in_resume c (Auth_throw m) s = finish (Threw (Provider_message m)) (action_finally s)"

definition sign_up :: "app_user option \<Rightarrow> auth_sys \<Rightarrow> auth_sys" where
  "sign_up c s =
     (if \<not> configured s then finish (Threw Db_unavailable) s
      else spawn (T_sign_up c) (s\<lparr>loading := True\<rparr>))"

fun sign_up_resume :: "app_user option \<Rightarrow> auth_reply \<Rightarrow> auth_sys \<Rightarrow> auth_sys" where
  "sign_up_resume c (Auth_error m) s = finish (Threw (Provider_message m)) (action_finally s)"
| "sign_up_resume c (Auth_ok (Some au)) s =
     finish Returned (action_finally (handle_auth_user c au s))"
| "sign_up_resume c (Auth_ok None) s = finish Returned (action_finally s)"
| "sign_up_resume c (Auth_throw m) s = finish (Threw (Provider_message m)) (action_finally s)"

definition sign_out :: "auth_sys \<Rightarrow> auth_sys" where
  "sign_out s =
     (if \<not> configured s then finish Returned s
      else spawn T_sign_out (s\<lparr>loading := True\<rparr>))"

fun sign_out_resume :: "signout_reply \<Rightarrow> auth_sys \<Rightarrow> auth_sys" where
  "sign_out_resume (Signout_error m) s = finish (Threw (Provider_message m)) (action_finally s)"
| "sign_out_resume Signout_ok s = finish Returned (action_finally (clear_session s))"

subsection \<open>The mount effect: \<open>checkSession\<close> and the auth-event subscription\<close>

definition check_session_finally :: "auth_sys \<Rightarrow> auth_sys" where
  "check_session_finally s =
     (if mounted_ref s then s\<lparr>session_checked_ref := True, loading := False\<rparr> else s)"

definition check_session :: "app_user option \<Rightarrow> auth_sys \<Rightarrow> auth_sys" where
  "check_session c s =
     (if \<not> configured s
      then check_session_finally (s\<lparr>is_authenticated := False, loading := False\<rparr>)
      else spawn (T_check_session c) s)"

fun check_session_resume :: "app_user option \<Rightarrow> session_reply \<Rightarrow> auth_sys \<Rightarrow> auth_sys" where
  "check_session_resume c Session_error s = check_session_finally s"
| "check_session_resume c (Session_ok (Some au)) s =
     check_session_finally (handle_auth_user c au s)"
| "check_session_resume c (Session_ok None) s =
     check_session_finally (s\<lparr>is_authenticated := False\<rparr>)"
| "check_session_resume c Session_throw s =
     check_session_finally (s\<lparr>is_authenticated := False\<rparr>)"

definition mount :: "auth_sys \<Rightarrow> auth_sys" where
  "mount s =
     (if \<not> configured s \<or> initializing_ref s then s
      else (check_session (user s) (s\<lparr>initializing_ref := True, effect_user := user s\<rparr>))
             \<lparr>subscribed := True\<rparr>)"

datatype auth_event =
    Initial_session | Signed_in | Signed_out | Token_refreshed | Other_event js_string

text \<open>The \<open>SIGNED_IN\<close> and \<open>TOKEN_REFRESHED\<close> branches are the same code.\<close>

definition session_user_event :: "sb_user option \<Rightarrow> auth_sys \<Rightarrow> auth_sys" where
  "session_user_event sess s =
     (case sess of
        None \<Rightarrow> s
      | Some au \<Rightarrow> if mounted_ref s then handle_auth_user (effect_user s) au s else s)"

definition on_auth_state_change :: "auth_event \<Rightarrow> sb_user option \<Rightarrow> auth_sys \<Rightarrow> auth_sys" where
  "on_auth_state_change ev sess s =
     (if \<not> session_checked_ref s \<and> ev \<noteq> Initial_session then s
      else
        let s' = (case ev of
                    Signed_in \<Rightarrow> session_user_event sess s
                  | Signed_out \<Rightarrow> clear_session s
                  | Token_refreshed \<Rightarrow> session_user_event sess s
                  | _ \<Rightarrow> s)
        in if mounted_ref s' \<and> session_checked_ref s' then s'\<lparr>loading := False\<rparr> else s')"

subsection \<open>Unmount and the raw setters\<close>

definition unmount :: "auth_sys \<Rightarrow> auth_sys" where
  "unmount s = s\<lparr>subscribed := False, initializing_ref := False, mounted_ref := False\<rparr>"

definition set_user :: "app_user option \<Rightarrow> auth_sys \<Rightarrow> auth_sys" where
  "set_user u s = s\<lparr>user := u\<rparr>"

definition set_profile :: "app_user option \<Rightarrow> auth_sys \<Rightarrow> auth_sys" where
  "set_profile p s = s\<lparr>profile := p\<rparr>"

subsection \<open>\<open>useAuth\<close>\<close>

text \<open>The hook returns the context value, or throws outside an \<open>AuthProvider\<close>
  (lines 378--384); \<open>None\<close> is the \<open>undefined\<close> default of the context.\<close>

datatype hook_error = Outside_provider

definition use_auth :: "auth_sys option \<Rightarrow> hook_error + auth_sys" where
  "use_auth ctx = (case ctx of None \<Rightarrow> Inl Outside_provider | Some s \<Rightarrow> Inr s)"

subsection \<open>Sample inputs\<close>

text \<open>A provider user and states used by the witnesses below.\<close>

definition sample_sb_user :: sb_user where
  "sample_sb_user =
     \<lparr> sb_id = ''u-1'', sb_email = Some ''reader@test.edu.cn'', meta_username = None,
       meta_avatar_url = None, sb_created_at = ''2025-01-01'', sb_updated_at = None \<rparr>"

definition booted_sys :: auth_sys where
  "booted_sys = (init_sys True)\<lparr>session_checked_ref := True, loading := False,
     initializing_ref := True, subscribed := True\<rparr>"

subsection \<open>Per-operation lemmas\<close>

lemmas op_defs = spawn_def finish_def handle_auth_user_def fetch_profile_finally_def
  action_finally_def clear_session_def check_session_finally_def create_user_profile_def
  session_user_event_def

lemma booted_sys_simps [simp]:
  "mounted_ref booted_sys" "session_checked_ref booted_sys" "configured booted_sys"
  "user booted_sys = None" "\<not> is_authenticated booted_sys" "results booted_sys = []"
  by (simp_all add: booted_sys_def init_sys_def)

lemma handle_auth_user_unmounted: "\<not> mounted_ref s \<Longrightarrow> handle_auth_user c au s = s"
  by (simp add: handle_auth_user_def)

lemma handle_auth_user_mounted:
  "mounted_ref s \<Longrightarrow>
     user (handle_auth_user c au s) = Some (to_app_user au) \<and> is_authenticated (handle_auth_user c au s)"
  by (simp add: op_defs)

lemma handle_auth_user_frame [simp, frame_simps]:
  "mounted_ref (handle_auth_user c au s) = mounted_ref s"
  "configured (handle_auth_user c au s) = configured s"
  "session_checked_ref (handle_auth_user c au s) = session_checked_ref s"
  "profile (handle_auth_user c au s) = profile s"
  "loading (handle_auth_user c au s) = loading s"
  "inserts (handle_auth_user c au s) = inserts s"
  "results (handle_auth_user c au s) = results s"
  by (simp_all add: op_defs)

lemma fetch_profile_unmounted: "\<not> mounted_ref s \<Longrightarrow> fetch_profile c i s = s"
  by (simp add: fetch_profile_def)

lemma fetch_profile_resume_frame [frame_simps]:
  "user (fetch_profile_resume c i r s) = user s"
  "is_authenticated (fetch_profile_resume c i r s) = is_authenticated s"
  "loading (fetch_profile_resume c i r s) = loading s"
  "mounted_ref (fetch_profile_resume c i r s) = mounted_ref s"
  by (cases r; auto simp: op_defs split: option.splits)+

lemma create_profile_resume_frame [frame_simps]:
  "user (create_profile_resume r s) = user s"
  "is_authenticated (create_profile_resume r s) = is_authenticated s"
  "loading (create_profile_resume r s) = loading s"
  "mounted_ref (create_profile_resume r s) = mounted_ref s"
  by (induction r s rule: create_profile_resume.induct; simp add: op_defs)+

lemma fetch_profile_resume_unmounted:
  "\<not> mounted_ref s \<Longrightarrow> observable (fetch_profile_resume c i r s) = observable s"
  by (cases r) (auto simp: op_defs observable_def split: option.splits)

lemma create_profile_resume_unmounted:
  "\<not> mounted_ref s \<Longrightarrow> observable (create_profile_resume r s) = observable s"
  by (induction r s rule: create_profile_resume.induct) (simp_all add: op_defs observable_def)

lemma sign_in_resume_releases: "mounted_ref s \<Longrightarrow> \<not> loading (sign_in_resume c r s)"
  by (induction c r s rule: sign_in_resume.induct) (simp_all add: op_defs)

lemma sign_up_resume_releases: "mounted_ref s \<Longrightarrow> \<not> loading (sign_up_resume c r s)"
  by (induction c r s rule: sign_up_resume.induct) (simp_all add: op_defs)

lemma sign_out_resume_releases: "mounted_ref s \<Longrightarrow> \<not> loading (sign_out_resume r s)"
  by (induction r s rule: sign_out_resume.induct) (simp_all add: op_defs)

subsection \<open>Properties of the handlers\<close>

text \<open>C2: an auth event that arrives before the initial session check has finished
  leaves the whole state unchanged, whatever the event and its session, the
  \<open>INITIAL_SESSION\<close> event included (it passes the guard but matches no branch,
  and \<open>loading\<close> is only released once the check has finished).\<close>

theorem on_auth_state_change_before_bootstrap:
  "\<not> session_checked_ref s \<Longrightarrow> on_auth_state_change ev sess s = s"
  by (cases ev) (simp_all add: on_auth_state_change_def)

theorem on_auth_state_change_before_bootstrap_witness:
  "\<not> session_checked_ref (init_sys True) \<and>
   on_auth_state_change Signed_in (Some sample_sb_user) (init_sys True) = init_sys True"
  using on_auth_state_change_before_bootstrap [of "init_sys True" Signed_in "Some sample_sb_user"]
  by (simp add: init_sys_def)

text \<open>After the initial check, a \<open>SIGNED_OUT\<close> event on a mounted provider
  clears the user, the profile and the authenticated flag and releases \<open>loading\<close>.\<close>

theorem signed_out_event_clears:
  assumes "session_checked_ref s" and "mounted_ref s"
  shows "user (on_auth_state_change Signed_out sess s) = None \<and>
         profile (on_auth_state_change Signed_out sess s) = None \<and>
         \<not> is_authenticated (on_auth_state_change Signed_out sess s) \<and>
         \<not> loading (on_auth_state_change Signed_out sess s)"
  using assms by (simp add: on_auth_state_change_def op_defs)

theorem signed_out_event_clears_witness:
  "session_checked_ref booted_sys \<and> mounted_ref booted_sys \<and>
   user (on_auth_state_change Signed_out None booted_sys) = None \<and>
   profile (on_auth_state_change Signed_out None booted_sys) = None \<and>
   \<not> is_authenticated (on_auth_state_change Signed_out None booted_sys) \<and>
   \<not> loading (on_auth_state_change Signed_out None booted_sys)"
  using signed_out_event_clears [of booted_sys None] by simp

text \<open>After the initial check, a \<open>TOKEN_REFRESHED\<close> event with a session on a
  mounted provider replaces the identity by the one derived from the session and
  leaves the provider authenticated, in one state update, with the profile kept.\<close>

theorem token_refreshed_updates_identity:
  assumes "session_checked_ref s" and "mounted_ref s"
  shows "user (on_auth_state_change Token_refreshed (Some au) s) = Some (to_app_user au) \<and>
         is_authenticated (on_auth_state_change Token_refreshed (Some au) s) \<and>
         profile (on_auth_state_change Token_refreshed (Some au) s) = profile s"
  using assms by (simp add: on_auth_state_change_def op_defs)

theorem token_refreshed_updates_identity_witness:
  "session_checked_ref booted_sys \<and> mounted_ref booted_sys \<and>
   user (on_auth_state_change Token_refreshed (Some sample_sb_user) booted_sys) =
     Some (to_app_user sample_sb_user) \<and>
   is_authenticated (on_auth_state_change Token_refreshed (Some sample_sb_user) booted_sys) \<and>
   profile (on_auth_state_change Token_refreshed (Some sample_sb_user) booted_sys) =
     profile booted_sys"
  using token_refreshed_updates_identity [of booted_sys sample_sb_user] by simp

text \<open>C3: whatever the \<open>users\<close> table answers to the profile query or to the
  insert, the identity and the authenticated flag are left as they were: a failed
  profile fetch never logs the user out.\<close>

theorem profile_fetch_keeps_authentication:
  "user (fetch_profile_resume c i r s) = user s \<and>
   is_authenticated (fetch_profile_resume c i r s) = is_authenticated s \<and>
   user (create_profile_resume r' s) = user s \<and>
   is_authenticated (create_profile_resume r' s) = is_authenticated s"
  by (simp add: frame_simps)

text \<open>C4: once the provider is unmounted, starting a profile fetch (the timer set
  by \<open>handleAuthUser\<close> firing late) and the arrival of any answer to a pending
  query or insert change none of the state the context exposes.\<close>

theorem unmounted_profile_work_silent:
  assumes "\<not> mounted_ref s"
  shows "observable (fetch_profile c i s) = observable s \<and>
         observable (fetch_profile_resume c i r s) = observable s \<and>
         observable (create_profile_resume r' s) = observable s"
  using assms
  by (simp add: fetch_profile_unmounted fetch_profile_resume_unmounted
      create_profile_resume_unmounted)

theorem unmounted_profile_work_silent_witness:
  "\<not> mounted_ref (unmount booted_sys) \<and>
   observable (fetch_profile None ''u-1'' (unmount booted_sys)) = observable (unmount booted_sys) \<and>
   observable (fetch_profile_resume None ''u-1'' (Db_data (Some (to_app_user sample_sb_user)))
     (unmount booted_sys)) = observable (unmount booted_sys) \<and>
   observable (create_profile_resume Db_throw (unmount booted_sys)) = observable (unmount booted_sys)"
  using unmounted_profile_work_silent [of "unmount booted_sys" None "''u-1''"
      "Db_data (Some (to_app_user sample_sb_user))" Db_throw]
  by (simp add: unmount_def)

text \<open>C5: when the initial session check is answered on a mounted provider, whatever
  the answer (an error, a session, none, a rejection), the check is marked finished
  and \<open>loading\<close> is released.\<close>

theorem check_session_resume_completes:
  "mounted_ref s \<Longrightarrow>
     session_checked_ref (check_session_resume c r s) \<and> \<not> loading (check_session_resume c r s)"
  by (induction c r s rule: check_session_resume.induct) (simp_all add: op_defs)

theorem check_session_resume_completes_witness:
  "mounted_ref (init_sys True) \<and>
   session_checked_ref (check_session_resume None Session_throw (init_sys True)) \<and>
   \<not> loading (check_session_resume None Session_throw (init_sys True))"
  using check_session_resume_completes [of "init_sys True" None Session_throw]
  by (simp add: init_sys_def)

text \<open>A sign-in rejected with the provider message \<open>Invalid login
  credentials\<close> settles the caller's promise with the translated message and leaves
  the identity and the authenticated flag unchanged.\<close>

theorem sign_in_invalid_credentials:
  "results (sign_in_resume c (Auth_error ''Invalid login credentials'') s) =
     results s @ [Threw Bad_credentials] \<and>
   user (sign_in_resume c (Auth_error ''Invalid login credentials'') s) = user s \<and>
   is_authenticated (sign_in_resume c (Auth_error ''Invalid login credentials'') s) =
     is_authenticated s"
  by (simp add: op_defs sign_in_error_def)

text \<open>A successful sign-in on a mounted provider sets the derived identity,
  authenticates, releases \<open>loading\<close> and resolves the caller's promise.\<close>

theorem sign_in_success_authenticates:
  assumes "mounted_ref s"
  shows "user (sign_in_resume c (Auth_ok (Some au)) s) = Some (to_app_user au) \<and>
         is_authenticated (sign_in_resume c (Auth_ok (Some au)) s) \<and>
         \<not> loading (sign_in_resume c (Auth_ok (Some au)) s) \<and>
         results (sign_in_resume c (Auth_ok (Some au)) s) = results s @ [Returned]"
  using assms by (simp add: op_defs)

theorem sign_in_success_authenticates_witness:
  "mounted_ref booted_sys \<and>
   user (sign_in_resume None (Auth_ok (Some sample_sb_user)) booted_sys) =
     Some (to_app_user sample_sb_user) \<and>
   is_authenticated (sign_in_resume None (Auth_ok (Some sample_sb_user)) booted_sys) \<and>
   \<not> loading (sign_in_resume None (Auth_ok (Some sample_sb_user)) booted_sys) \<and>
   results (sign_in_resume None (Auth_ok (Some sample_sb_user)) booted_sys) = [Returned]"
  using sign_in_success_authenticates [of booted_sys None sample_sb_user] by simp

text \<open>A successful sign-out on a mounted provider clears the user, the profile
  and the authenticated flag, releases \<open>loading\<close> and resolves the promise.\<close>

theorem sign_out_success_clears:
  assumes "mounted_ref s"
  shows "user (sign_out_resume Signout_ok s) = None \<and>
         profile (sign_out_resume Signout_ok s) = None \<and>
         \<not> is_authenticated (sign_out_resume Signout_ok s) \<and>
         \<not> loading (sign_out_resume Signout_ok s) \<and>
         results (sign_out_resume Signout_ok s) = results s @ [Returned]"
  using assms by (simp add: op_defs)

theorem sign_out_success_clears_witness:
  "mounted_ref booted_sys \<and>
   user (sign_out_resume Signout_ok booted_sys) = None \<and>
   profile (sign_out_resume Signout_ok booted_sys) = None \<and>
   \<not> is_authenticated (sign_out_resume Signout_ok booted_sys) \<and>
   \<not> loading (sign_out_resume Signout_ok booted_sys) \<and>
   results (sign_out_resume Signout_ok booted_sys) = [Returned]"
  using sign_out_success_clears [of booted_sys] by simp

text \<open>On a mounted provider every action releases \<open>loading\<close> in its
  \<open>finally\<close> block, on every answer of the provider: success, error and rejection.\<close>

theorem actions_release_loading:
  assumes "mounted_ref s"
  shows "\<not> loading (sign_in_resume c r s) \<and> \<not> loading (sign_up_resume c r s) \<and>
         \<not> loading (sign_out_resume r' s)"
  using assms sign_in_resume_releases sign_up_resume_releases sign_out_resume_releases
  by blast

theorem actions_release_loading_witness:
  "mounted_ref booted_sys \<and>
   \<not> loading (sign_in_resume None (Auth_throw ''network'') booted_sys) \<and>
   \<not> loading (sign_up_resume None (Auth_throw ''network'') booted_sys) \<and>
   \<not> loading (sign_out_resume (Signout_error ''network'') booted_sys)"
  using actions_release_loading [of booted_sys None "Auth_throw ''network''"
      "Signout_error ''network''"] by simp

text \<open>When the profile query answers ``no row'' (\<open>PGRST116\<close>) to a fetch
  whose closure holds a user, the row derived from that user is sent to the
  \<open>users\<close> table and the insert is awaited.\<close>

theorem not_found_with_user_inserts_row:
  "configured s \<Longrightarrow>
     fetch_profile_resume (Some u) i (Db_error not_found_code) s =
       spawn (T_create i) (s\<lparr>inserts := inserts s @ [profile_insert_row i u]\<rparr>)"
  by (simp add: create_user_profile_def)

theorem not_found_with_user_inserts_row_witness:
  "configured booted_sys \<and>
   fetch_profile_resume (Some (to_app_user sample_sb_user)) ''u-1'' (Db_error not_found_code)
     booted_sys =
   spawn (T_create ''u-1'')
     (booted_sys\<lparr>inserts := [profile_insert_row ''u-1'' (to_app_user sample_sb_user)]\<rparr>)"
  using not_found_with_user_inserts_row [of booted_sys "to_app_user sample_sb_user" "''u-1''"]
  by (simp add: booted_sys_def init_sys_def)

text \<open>When the closure of the fetch holds no user (the \<open>user\<close> of the render
  that created it was \<open>null\<close>), a ``no row'' answer sends no insert: the fetch
  ends at once with its \<open>finally\<close> block.\<close>

theorem not_found_without_user_no_insert:
  "fetch_profile_resume None i (Db_error not_found_code) s = fetch_profile_finally s"
  by (simp add: create_user_profile_def)

end
