(* ===== verification/Auth_Machine.thy ===== *)
theory Auth_Machine
  imports Auth_State
begin

text \<open>
  \<open>AuthProvider\<close> as a machine. Everything that can happen to the provider is an
  event: React mounting or unmounting it (running the effects of lines 267--358 or
  their cleanups), the provider pushing an auth event to the subscription, one pending
  task (a suspended \<open>await\<close> or a timer) resuming with the provider's reply, or a
  consumer calling one of the functions the context exposes (lines 360--373). The
  JavaScript event loop runs one of these at a time and chooses which pending task
  resumes next; the model leaves that choice to the event list, so every interleaving
  of replies is a run. A consumer's call uses the closures of the latest render, whose
  \<open>user\<close> is the current one.
\<close>

datatype reply =
    R_session session_reply
  | R_db db_reply
  | R_auth auth_reply
  | R_signout signout_reply
  | R_timer

text \<open>A task resumed with a reply of the wrong kind is no event of the program.\<close>

fun resume :: "task \<Rightarrow> reply \<Rightarrow> auth_sys \<Rightarrow> auth_sys option" where
  "resume (T_check_session c) (R_session r) s = Some (check_session_resume c r s)"
| "resume (T_timer i c) R_timer s = Some (fetch_profile c i s)"
| "resume (T_fetch i c) (R_db r) s = Some (fetch_profile_resume c i r s)"
| "resume (T_create i) (R_db r) s = Some (create_profile_resume r s)"
| "resume (T_refresh c) (R_session r) s = Some (refresh_session_resume c r s)"
| "resume (T_sign_in c) (R_auth r) s = Some (sign_in_resume c r s)"
| "resume (T_sign_up c) (R_auth r) s = Some (sign_up_resume c r s)"
| "resume T_sign_out (R_signout r) s = Some (sign_out_resume r s)"
| "resume _ _ _ = None"

datatype event =
    Mount
  | Unmount
  | Provider_event auth_event "sb_user option"
  | Resume nat reply
  | Call_sign_in
  | Call_sign_up
  | Call_sign_out
  | Call_refresh_session
  | Call_fetch_profile user_id
  | Call_set_user "app_user option"
  | Call_set_profile "app_user option"

fun step :: "auth_sys \<Rightarrow> event \<Rightarrow> auth_sys" where
  "step s Mount = mount s"
| "step s Unmount = unmount s"
| "step s (Provider_event ev sess) =
     (if subscribed s then on_auth_state_change ev sess s else s)"
| "step s (Resume i r) =
     (if i < length (tasks s)
      then (case resume (tasks s ! i) r (s\<lparr>tasks := remove_nth i (tasks s)\<rparr>) of
              None \<Rightarrow> s
            | Some s' \<Rightarrow> s')
      else s)"
| "step s Call_sign_in = sign_in (user s) s"
| "step s Call_sign_up = sign_up (user s) s"
| "step s Call_sign_out = sign_out s"
| "step s Call_refresh_session = refresh_session (user s) s"
| "step s (Call_fetch_profile i) = fetch_profile (user s) i s"
| "step s (Call_set_user u) = set_user u s"
| "step s (Call_set_profile p) = set_profile p s"

fun run :: "auth_sys \<Rightarrow> event list \<Rightarrow> auth_sys" where
  "run s [] = s"
| "run s (e # es) = run (step s e) es"

text \<open>
  The raw setters \<open>setUser\<close> and \<open>setProfile\<close> write the state directly; every
  other event goes through the context's own handlers. The managed events are the
  latter.
\<close>

fun managed :: "event \<Rightarrow> bool" where
  "managed (Call_set_user u) = False"
| "managed (Call_set_profile p) = False"
| "managed e = True"

text \<open>Events that no consumer issues: the bootstrap, the subscription and the replies.\<close>

fun internal :: "event \<Rightarrow> bool" where
  "internal Unmount = True"
| "internal (Provider_event ev sess) = True"
| "internal (Resume i r) = True"
| "internal e = False"

inductive reachable :: "bool \<Rightarrow> auth_sys \<Rightarrow> bool" for c :: bool where
  start: "reachable c (init_sys c)"
| step: "reachable c s \<Longrightarrow> managed e \<Longrightarrow> reachable c (step s e)"

fun provider_event :: "event \<Rightarrow> bool" where
  "provider_event (Provider_event ev sess) = True"
| "provider_event e = False"

fun task_closure :: "task \<Rightarrow> app_user option" where
  "task_closure (T_check_session c) = c"
| "task_closure (T_timer i c) = c"
| "task_closure (T_fetch i c) = c"
| "task_closure (T_create i) = None"
| "task_closure (T_refresh c) = c"
| "task_closure (T_sign_in c) = c"
| "task_closure (T_sign_up c) = c"
| "task_closure T_sign_out = None"

definition auth_inv :: "auth_sys \<Rightarrow> bool" where
  "auth_inv s \<longleftrightarrow> (is_authenticated s \<longrightarrow> user s \<noteq> None)"

definition unconf_inv :: "auth_sys \<Rightarrow> bool" where
  "unconf_inv s \<longleftrightarrow> \<not> configured s \<and> loading s \<and> \<not> is_authenticated s \<and> tasks s = [] \<and>
     \<not> subscribed s \<and> \<not> session_checked_ref s"

definition dead_inv :: "auth_sys \<Rightarrow> bool" where
  "dead_inv s \<longleftrightarrow> \<not> mounted_ref s \<and> user s = None \<and> loading s \<and> \<not> is_authenticated s"

definition stale_inv :: "auth_sys \<Rightarrow> bool" where
  "stale_inv s \<longleftrightarrow>
     effect_user s = None \<and> (\<forall>t\<in>set (tasks s). task_closure t = None) \<and> inserts s = []"

subsection \<open>Sample runs\<close>

definition boot_trace :: "event list" where
  "boot_trace = [Mount, Resume 0 (R_session (Session_ok (Some sample_sb_user)))]"

text \<open>A sign-in answered before the initial session check, which then finds no session.\<close>

definition race_trace :: "event list" where
  "race_trace =
     [Mount, Call_sign_in, Resume 1 (R_auth (Auth_ok (Some sample_sb_user))),
      Resume 0 (R_session (Session_ok None))]"

text \<open>The initial check finds a session, its timer fires, the profile query answers
  ``no row''.\<close>

definition lost_profile_trace :: "event list" where
  "lost_profile_trace =
     [Resume 0 (R_session (Session_ok (Some sample_sb_user))), Resume 0 R_timer,
      Resume 0 (R_db (Db_error not_found_code))]"

definition early_events :: "event list" where
  "early_events = [Provider_event Signed_out None, Provider_event Signed_in (Some sample_sb_user),
     Provider_event Token_refreshed (Some sample_sb_user)]"

definition remount_trace :: "event list" where
  "remount_trace =
     [Resume 0 (R_session (Session_ok (Some sample_sb_user))),
      Resume 0 (R_session (Session_ok (Some sample_sb_user)))]"

text \<open>A sign-in and a sign-out in flight together after the bootstrap; the sign-in is
  answered first.\<close>

definition overlap_trace :: "event list" where
  "overlap_trace =
     [Mount, Resume 0 (R_session (Session_ok None)), Call_sign_in, Call_sign_out,
      Resume 0 (R_auth (Auth_ok (Some sample_sb_user)))]"

text \<open>After a bootstrap that found a session, a consumer calls \<open>fetchProfile\<close> twice
  for the new user; both queries answer ``no row''.\<close>

definition double_fetch_trace :: "event list" where
  "double_fetch_trace =
     [Mount, Resume 0 (R_session (Session_ok (Some sample_sb_user))),
      Call_fetch_profile ''u-1'', Call_fetch_profile ''u-1'',
      Resume 1 (R_db (Db_error not_found_code)), Resume 1 (R_db (Db_error not_found_code))]"

text \<open>A session found at the bootstrap, its profile query sent, then a sign-out that
  is answered before the query is.\<close>

definition late_profile_trace :: "event list" where
  "late_profile_trace =
     [Mount, Resume 0 (R_session (Session_ok (Some sample_sb_user))), Resume 0 R_timer,
      Call_sign_out, Resume 1 (R_signout Signout_ok),
      Resume 0 (R_db (Db_data (Some (to_app_user sample_sb_user))))]"

subsection \<open>Runs\<close>

lemma run_append: "run s (xs @ ys) = run (run s xs) ys"
  by (induction xs arbitrary: s) simp_all

lemma reachable_run: "reachable c s \<Longrightarrow> \<forall>e\<in>set es. managed e \<Longrightarrow> reachable c (run s es)"
  by (induction es arbitrary: s) (auto intro: reachable.step)

lemma step_provider_event_unbooted:
  assumes "\<not> session_checked_ref s" and "provider_event e"
  shows "step s e = s"
proof (cases e rule: provider_event.cases)
  case (1 ev sess)
  then show ?thesis using assms(1)
    by (cases ev) (simp_all add: on_auth_state_change_def)
qed (use assms(2) in simp_all)

lemma run_provider_events_unbooted:
  "\<not> session_checked_ref s \<Longrightarrow> list_all provider_event es \<Longrightarrow> run s es = s"
  by (induction es) (simp_all add: step_provider_event_unbooted)

lemma step_provider_event_unsubscribed:
  "\<not> subscribed s \<Longrightarrow> provider_event e \<Longrightarrow> step s e = s"
  by (cases e rule: provider_event.cases) simp_all

lemma mount_init_unbooted: "\<not> session_checked_ref (mount (init_sys c))"
  by (simp add: mount_def check_session_def init_sys_def spawn_def)

subsection \<open>Invariant: an authenticated provider has a user\<close>

lemma auth_inv_simple [simp]:
  "auth_inv (spawn t s) = auth_inv s" "auth_inv (finish r s) = auth_inv s"
  "auth_inv (action_finally s) = auth_inv s" "auth_inv (check_session_finally s) = auth_inv s"
  "auth_inv (fetch_profile_finally s) = auth_inv s"
  "auth_inv (s\<lparr>is_authenticated := False\<rparr>)"
  "auth_inv (s\<lparr>tasks := ts\<rparr>) = auth_inv s"
  "auth_inv (s\<lparr>loading := b\<rparr>) = auth_inv s"
  "auth_inv (s\<lparr>is_loading := b\<rparr>) = auth_inv s"
  "auth_inv (init_sys c)"
  by (simp_all add: auth_inv_def op_defs init_sys_def)

lemma auth_inv_profile_resumes [simp]:
  "auth_inv (fetch_profile_resume c i r s) = auth_inv s"
  "auth_inv (create_profile_resume r s) = auth_inv s"
  by (simp_all add: auth_inv_def frame_simps)

lemma auth_inv_handle: "auth_inv s \<Longrightarrow> auth_inv (handle_auth_user c au s)"
  by (simp add: auth_inv_def op_defs)

lemma auth_inv_clear: "auth_inv s \<Longrightarrow> auth_inv (clear_session s)"
  by (simp add: auth_inv_def clear_session_def)

lemmas auth_inv_ops = auth_inv_handle auth_inv_clear

lemma resume_auth_inv: "resume t r s = Some s' \<Longrightarrow> auth_inv s \<Longrightarrow> auth_inv s'"
proof (induction t r s rule: resume.induct)
  case (1 c r s)
  then show ?case
    by (cases "(c, r, s)" rule: check_session_resume.cases) (auto intro: auth_inv_ops)
next
  case (2 i c s)
  then show ?case by (auto simp: fetch_profile_def)
next
  case (5 c r s)
  then show ?case
    by (cases "(c, r, s)" rule: refresh_session_resume.cases) (auto intro: auth_inv_ops)
next
  case (6 c r s)
  then show ?case by (cases "(c, r, s)" rule: sign_in_resume.cases) (auto intro: auth_inv_ops)
next
  case (7 c r s)
  then show ?case by (cases "(c, r, s)" rule: sign_up_resume.cases) (auto intro: auth_inv_ops)
next
  case (8 r s)
  then show ?case by (cases "(r, s)" rule: sign_out_resume.cases) (auto intro: auth_inv_ops)
qed auto

lemma auth_inv_auth_event: "auth_inv s \<Longrightarrow> auth_inv (on_auth_state_change ev sess s)"
  by (cases ev)
     (auto simp: on_auth_state_change_def session_user_event_def Let_def intro: auth_inv_ops
      split: option.splits)

lemma auth_inv_calls:
  "auth_inv s \<Longrightarrow> auth_inv (mount s)" "auth_inv s \<Longrightarrow> auth_inv (unmount s)"
  "auth_inv s \<Longrightarrow> auth_inv (sign_in c s)" "auth_inv s \<Longrightarrow> auth_inv (sign_up c s)"
  "auth_inv s \<Longrightarrow> auth_inv (sign_out s)" "auth_inv s \<Longrightarrow> auth_inv (refresh_session c s)"
  "auth_inv s \<Longrightarrow> auth_inv (fetch_profile c i s)"
  by (simp_all add: mount_def check_session_def unmount_def sign_in_def sign_up_def sign_out_def
      refresh_session_def fetch_profile_def auth_inv_def op_defs)

lemma step_auth_inv:
  assumes "auth_inv s" and "managed e"
  shows "auth_inv (step s e)"
proof (cases e)
  case (Resume i r)
  have "auth_inv (s\<lparr>tasks := remove_nth i (tasks s)\<rparr>)" using assms(1) by simp
  then show ?thesis
    using Resume assms(1) resume_auth_inv [of "tasks s ! i" r] by (auto split: option.splits)
qed (use assms in \<open>auto intro: auth_inv_auth_event auth_inv_calls\<close>)

lemma reachable_auth_inv: "reachable c s \<Longrightarrow> auth_inv s"
  by (induction rule: reachable.induct) (auto intro: step_auth_inv)

subsection \<open>Invariant of a provider with no backend\<close>

lemma step_unconf_inv: "unconf_inv s \<Longrightarrow> unconf_inv (step s e)"
  by (cases e) (simp_all add: unconf_inv_def mount_def unmount_def sign_in_def sign_up_def
      sign_out_def refresh_session_def fetch_profile_def set_user_def set_profile_def finish_def)

lemma run_unconf_inv: "unconf_inv s \<Longrightarrow> unconf_inv (run s es)"
  by (induction es arbitrary: s) (simp_all add: step_unconf_inv)

subsection \<open>Invariant of an unmounted provider\<close>

lemma dead_inv_simple [simp]:
  "dead_inv (spawn t s) = dead_inv s" "dead_inv (finish r s) = dead_inv s"
  "dead_inv (s\<lparr>tasks := ts\<rparr>) = dead_inv s"
  "dead_inv s \<Longrightarrow> dead_inv (s\<lparr>is_authenticated := False\<rparr>)"
  by (simp_all add: dead_inv_def op_defs)

lemma dead_inv_unmounted_ops [simp]:
  "dead_inv s \<Longrightarrow> handle_auth_user c au s = s" "dead_inv s \<Longrightarrow> clear_session s = s"
  "dead_inv s \<Longrightarrow> action_finally s = s" "dead_inv s \<Longrightarrow> check_session_finally s = s"
  "dead_inv s \<Longrightarrow> fetch_profile_finally s = s" "dead_inv s \<Longrightarrow> fetch_profile c i s = s"
  by (simp_all add: dead_inv_def op_defs fetch_profile_def)

lemma dead_inv_profile_resumes:
  "dead_inv s \<Longrightarrow> dead_inv (fetch_profile_resume c i r s)"
  "dead_inv s \<Longrightarrow> dead_inv (create_profile_resume r s)"
  by (simp_all add: dead_inv_def frame_simps)

lemma resume_dead_inv: "resume t r s = Some s' \<Longrightarrow> dead_inv s \<Longrightarrow> dead_inv s'"
proof (induction t r s rule: resume.induct)
  case (1 c r s)
  then show ?case by (cases "(c, r, s)" rule: check_session_resume.cases) auto
next
  case (5 c r s)
  then show ?case by (cases "(c, r, s)" rule: refresh_session_resume.cases) auto
next
  case (6 c r s)
  then show ?case by (cases "(c, r, s)" rule: sign_in_resume.cases) auto
next
  case (7 c r s)
  then show ?case by (cases "(c, r, s)" rule: sign_up_resume.cases) auto
next
  case (8 r s)
  then show ?case by (cases "(r, s)" rule: sign_out_resume.cases) auto
qed (auto intro: dead_inv_profile_resumes)

lemma dead_inv_auth_event: "dead_inv s \<Longrightarrow> on_auth_state_change ev sess s = s"
  by (cases ev) (auto simp: on_auth_state_change_def session_user_event_def Let_def dead_inv_def
      split: option.splits)

lemma dead_inv_calls:
  "dead_inv s \<Longrightarrow> dead_inv (mount s)" "dead_inv s \<Longrightarrow> dead_inv (unmount s)"
  "dead_inv s \<Longrightarrow> dead_inv (sign_in c s)" "dead_inv s \<Longrightarrow> dead_inv (sign_up c s)"
  "dead_inv s \<Longrightarrow> dead_inv (sign_out s)" "dead_inv s \<Longrightarrow> dead_inv (refresh_session c s)"
  by (simp_all add: mount_def check_session_def unmount_def sign_in_def sign_up_def sign_out_def
      refresh_session_def dead_inv_def op_defs)

lemma step_dead_inv:
  assumes "dead_inv s" and "managed e"
  shows "dead_inv (step s e)"
proof (cases e)
  case (Resume i r)
  have "dead_inv (s\<lparr>tasks := remove_nth i (tasks s)\<rparr>)" using assms(1) by simp
  then show ?thesis
    using Resume assms(1) resume_dead_inv [of "tasks s ! i" r] by (auto split: option.splits)
qed (use assms in \<open>auto simp: dead_inv_auth_event intro: dead_inv_calls\<close>)

lemma run_dead_inv: "dead_inv s \<Longrightarrow> \<forall>e\<in>set es. managed e \<Longrightarrow> dead_inv (run s es)"
  by (induction es arbitrary: s) (simp_all add: step_dead_inv)

subsection \<open>Invariant of closures that captured no user\<close>

lemma stale_inv_simple [simp]:
  "stale_inv (spawn t s) = (stale_inv s \<and> task_closure t = None)"
  "stale_inv (finish r s) = stale_inv s"
  "stale_inv (action_finally s) = stale_inv s" "stale_inv (check_session_finally s) = stale_inv s"
  "stale_inv (fetch_profile_finally s) = stale_inv s" "stale_inv (clear_session s) = stale_inv s"
  "stale_inv (s\<lparr>is_authenticated := b\<rparr>) = stale_inv s"
  "stale_inv (s\<lparr>loading := b\<rparr>) = stale_inv s"
  by (auto simp: stale_inv_def op_defs)

lemma stale_inv_handle: "stale_inv s \<Longrightarrow> stale_inv (handle_auth_user None au s)"
  by (simp add: handle_auth_user_def stale_inv_def spawn_def)

lemma stale_inv_remove: "stale_inv s \<Longrightarrow> stale_inv (s\<lparr>tasks := remove_nth i (tasks s)\<rparr>)"
  using set_remove_nth [of i "tasks s"] unfolding stale_inv_def by auto

lemma stale_inv_fetch: "stale_inv s \<Longrightarrow> stale_inv (fetch_profile None i s)"
  by (simp add: fetch_profile_def stale_inv_def spawn_def)

lemma stale_inv_fetch_resume: "stale_inv s \<Longrightarrow> stale_inv (fetch_profile_resume None i r s)"
  by (cases r) (auto simp: create_user_profile_def stale_inv_def op_defs split: option.splits)

lemma stale_inv_create_resume: "stale_inv s \<Longrightarrow> stale_inv (create_profile_resume r s)"
  by (induction r s rule: create_profile_resume.induct) (auto simp: stale_inv_def op_defs)

lemma resume_stale_inv:
  "resume t r s = Some s' \<Longrightarrow> task_closure t = None \<Longrightarrow> stale_inv s \<Longrightarrow> stale_inv s'"
proof (induction t r s rule: resume.induct)
  case (1 c r s)
  then show ?case
    by (cases "(c, r, s)" rule: check_session_resume.cases) (auto intro: stale_inv_handle)
next
  case (5 c r s)
  then show ?case
    by (cases "(c, r, s)" rule: refresh_session_resume.cases) (auto intro: stale_inv_handle)
next
  case (6 c r s)
  then show ?case
    by (cases "(c, r, s)" rule: sign_in_resume.cases) (auto intro: stale_inv_handle)
next
  case (7 c r s)
  then show ?case
    by (cases "(c, r, s)" rule: sign_up_resume.cases) (auto intro: stale_inv_handle)
next
  case (8 r s)
  then show ?case by (cases "(r, s)" rule: sign_out_resume.cases) auto
qed (auto intro: stale_inv_fetch stale_inv_fetch_resume stale_inv_create_resume)

lemma stale_inv_session_user_event: "stale_inv s \<Longrightarrow> stale_inv (session_user_event sess s)"
  using stale_inv_handle [of s]
  by (simp add: session_user_event_def stale_inv_def split: option.splits)

lemma stale_inv_auth_event: "stale_inv s \<Longrightarrow> stale_inv (on_auth_state_change ev sess s)"
  unfolding on_auth_state_change_def Let_def
  by (cases ev) (simp_all add: stale_inv_session_user_event)

lemma step_stale_inv:
  assumes "stale_inv s" and "internal e"
  shows "stale_inv (step s e)"
proof (cases e)
  case (Resume i r)
  show ?thesis
  proof (cases "i < length (tasks s)")
    case True
    then have "task_closure (tasks s ! i) = None" using assms(1) by (simp add: stale_inv_def)
    moreover have "stale_inv (s\<lparr>tasks := remove_nth i (tasks s)\<rparr>)"
      using assms(1) by (rule stale_inv_remove)
    ultimately show ?thesis
      using Resume True assms(1) resume_stale_inv [of "tasks s ! i" r]
      by (auto split: option.splits)
  qed (use Resume assms in simp)
next
  case (Provider_event ev sess)
  then show ?thesis using assms(1) by (simp add: stale_inv_auth_event)
qed (use assms in \<open>auto simp: unmount_def stale_inv_def\<close>)

lemma run_stale_inv: "stale_inv s \<Longrightarrow> \<forall>e\<in>set es. internal e \<Longrightarrow> stale_inv (run s es)"
  by (induction es arbitrary: s) (simp_all add: step_stale_inv)

lemma stale_inv_mount_init: "stale_inv (mount (init_sys c))"
  by (simp add: stale_inv_def init_sys_def mount_def check_session_def op_defs)

subsection \<open>Properties of whole runs\<close>

text \<open>C1: in every state the provider reaches through its own handlers (every event
  but the raw setters), under any interleaving of provider replies, auth events,
  mounts, unmounts and consumer calls, an authenticated provider has a user.\<close>

theorem reachable_authenticated_has_user:
  "reachable c s \<Longrightarrow> is_authenticated s \<Longrightarrow> user s \<noteq> None"
  using reachable_auth_inv by (auto simp: auth_inv_def)

theorem reachable_authenticated_has_user_witness:
  "reachable True (run (init_sys True) boot_trace) \<and>
   is_authenticated (run (init_sys True) boot_trace) \<and>
   user (run (init_sys True) boot_trace) \<noteq> None"
proof -
  have r: "reachable True (run (init_sys True) boot_trace)"
    by (rule reachable_run) (auto simp: boot_trace_def intro: reachable.start)
  have a: "is_authenticated (run (init_sys True) boot_trace)"
    by (simp add: boot_trace_def init_sys_def mount_def check_session_def op_defs)
  show ?thesis using r a reachable_authenticated_has_user [OF r a] by blast
qed

text \<open>C19: the converse the documentation states (\<open>isAuthenticated\<close> true iff there
  is a user) does not hold in the code: a sign-in answered before the initial session
  check, which then finds no session, leaves a reachable state with a user that is not
  authenticated, because the ``no session'' branch clears the flag and not the user.\<close>

theorem bootstrap_race_user_without_auth:
  "reachable True (run (init_sys True) race_trace) \<and>
   user (run (init_sys True) race_trace) \<noteq> None \<and>
   \<not> is_authenticated (run (init_sys True) race_trace)"
proof -
  have "reachable True (run (init_sys True) race_trace)"
    by (rule reachable_run) (auto simp: race_trace_def intro: reachable.start)
  moreover have "user (run (init_sys True) race_trace) \<noteq> None \<and>
      \<not> is_authenticated (run (init_sys True) race_trace)"
    by (simp add: race_trace_def init_sys_def mount_def check_session_def sign_in_def op_defs
        remove_nth_def)
  ultimately show ?thesis by blast
qed

text \<open>C16: with no provider client (\<open>supabase\<close> is null), whatever happens,
  \<open>loading\<close> stays true, the provider is never authenticated and the initial session
  check never finishes: the mount effect returns before \<open>checkSession\<close>, whose own
  branch for a missing client is unreachable.\<close>

theorem unconfigured_stays_loading:
  "loading (run (init_sys False) es) \<and> \<not> is_authenticated (run (init_sys False) es) \<and>
   \<not> session_checked_ref (run (init_sys False) es)"
proof -
  have "unconf_inv (init_sys False)" by (simp add: unconf_inv_def init_sys_def)
  then have "unconf_inv (run (init_sys False) es)" by (rule run_unconf_inv)
  then show ?thesis by (simp add: unconf_inv_def)
qed

text \<open>C17: after the mount, as long as no consumer calls the context, no profile row is
  ever sent to the \<open>users\<close> table, whatever the provider answers: the closures of
  the mount effect captured the \<open>user\<close> of the first render, \<open>null\<close>, so
  \<open>createUserProfile\<close> returns early even when the profile query answers ``no
  row''.\<close>

theorem bootstrap_never_creates_profile:
  "\<forall>e\<in>set es. internal e \<Longrightarrow> inserts (run (mount (init_sys c)) es) = []"
proof -
  assume "\<forall>e\<in>set es. internal e"
  with stale_inv_mount_init have "stale_inv (run (mount (init_sys c)) es)"
    by (rule run_stale_inv)
  then show ?thesis by (simp add: stale_inv_def)
qed

theorem bootstrap_never_creates_profile_witness:
  "list_all internal lost_profile_trace \<and>
   tasks (run (mount (init_sys True)) (butlast lost_profile_trace)) = [T_fetch ''u-1'' None] \<and>
   inserts (run (mount (init_sys True)) lost_profile_trace) = []"
proof -
  have h: "\<forall>e\<in>set lost_profile_trace. internal e" by (simp add: lost_profile_trace_def)
  have t: "tasks (run (mount (init_sys True)) (butlast lost_profile_trace)) = [T_fetch ''u-1'' None]"
    by (simp add: lost_profile_trace_def init_sys_def mount_def check_session_def op_defs
        fetch_profile_def sample_sb_user_def)
  show ?thesis using h t bootstrap_never_creates_profile [OF h, of True]
    by (simp add: list_all_iff)
qed

text \<open>C18: \<open>mountedRef\<close> is set to false by the unmount cleanup and never back to
  true, so after a mount, an unmount and a second mount of the same instance (what
  React's StrictMode does in development) no handler of the context ever applies a
  session: the user stays \<open>null\<close>, the provider unauthenticated and \<open>loading\<close>
  true, whatever the provider answers and the consumers call.\<close>

theorem remount_never_authenticates:
  assumes "\<forall>e\<in>set es. managed e"
  shows "user (run (run (init_sys True) [Mount, Unmount, Mount]) es) = None \<and>
         loading (run (run (init_sys True) [Mount, Unmount, Mount]) es) \<and>
         \<not> is_authenticated (run (run (init_sys True) [Mount, Unmount, Mount]) es)"
proof -
  have "dead_inv (run (init_sys True) [Mount, Unmount, Mount])"
    by (simp add: dead_inv_def init_sys_def mount_def check_session_def unmount_def spawn_def)
  then have "dead_inv (run (run (init_sys True) [Mount, Unmount, Mount]) es)"
    using assms by (rule run_dead_inv)
  then show ?thesis by (simp add: dead_inv_def)
qed

theorem remount_never_authenticates_witness:
  "list_all managed remount_trace \<and>
   length (tasks (run (init_sys True) [Mount, Unmount, Mount])) = 2 \<and>
   user (run (run (init_sys True) [Mount, Unmount, Mount]) remount_trace) = None \<and>
   loading (run (run (init_sys True) [Mount, Unmount, Mount]) remount_trace) \<and>
   \<not> is_authenticated (run (run (init_sys True) [Mount, Unmount, Mount]) remount_trace)"
proof -
  have h: "\<forall>e\<in>set remount_trace. managed e" by (simp add: remount_trace_def)
  have t: "length (tasks (run (init_sys True) [Mount, Unmount, Mount])) = 2"
    by (simp add: init_sys_def mount_def check_session_def unmount_def spawn_def)
  show ?thesis using h t remount_never_authenticates [OF h] by (simp add: list_all_iff)
qed

text \<open>Auth events pushed between the mount and the answer to the initial
  session check do not affect the run: whatever follows them, the run ends in the
  state it ends in without them (the design's ordering guarantee, over whole runs).\<close>

theorem early_events_do_not_affect_bootstrap:
  "list_all provider_event evs \<Longrightarrow>
     run (mount (init_sys c)) (evs @ es) = run (mount (init_sys c)) es"
  by (simp add: run_append run_provider_events_unbooted mount_init_unbooted)

theorem early_events_do_not_affect_bootstrap_witness:
  "list_all provider_event early_events \<and>
   run (mount (init_sys True)) (early_events @ [Resume 0 (R_session (Session_ok None))]) =
     run (mount (init_sys True)) [Resume 0 (R_session (Session_ok None))] \<and>
   user (run (mount (init_sys True)) (early_events @ [Resume 0 (R_session (Session_ok None))])) =
     None"
proof -
  have h: "list_all provider_event early_events" by (simp add: early_events_def)
  have u: "user (run (mount (init_sys True)) [Resume 0 (R_session (Session_ok None))]) = None"
    by (simp add: init_sys_def mount_def check_session_def op_defs)
  show ?thesis
    using h u early_events_do_not_affect_bootstrap [OF h, of True "[Resume 0 (R_session (Session_ok None))]"]
    by simp
qed

text \<open>After an unmount the subscription is gone: no sequence of auth events the
  provider pushes changes anything.\<close>

theorem unmounted_ignores_provider_events:
  "list_all provider_event es \<Longrightarrow> run (unmount s) es = unmount s"
proof (induction es)
  case Nil
  then show ?case by simp
next
  case (Cons e es)
  have "\<not> subscribed (unmount s)" by (simp add: unmount_def)
  with Cons show ?case by (simp add: step_provider_event_unsubscribed)
qed

theorem unmounted_ignores_provider_events_witness:
  "list_all provider_event early_events \<and>
   run (unmount booted_sys) early_events = unmount booted_sys"
proof -
  have h: "list_all provider_event early_events" by (simp add: early_events_def)
  show ?thesis using h unmounted_ignores_provider_events [OF h, of booted_sys] by simp
qed

text \<open>The raw setter \<open>setUser\<close> the context exposes writes the user alone:
  called with \<open>null\<close> on an authenticated provider it leaves the provider
  authenticated with no user, against the design's invariant.\<close>

theorem set_user_null_keeps_authenticated:
  "is_authenticated s \<Longrightarrow>
     is_authenticated (step s (Call_set_user None)) \<and> user (step s (Call_set_user None)) = None"
  by (simp add: set_user_def)

theorem set_user_null_keeps_authenticated_witness:
  "is_authenticated (run (init_sys True) boot_trace) \<and>
   is_authenticated (step (run (init_sys True) boot_trace) (Call_set_user None)) \<and>
   user (step (run (init_sys True) boot_trace) (Call_set_user None)) = None"
proof -
  have h: "is_authenticated (run (init_sys True) boot_trace)"
    by (simp add: boot_trace_def init_sys_def mount_def check_session_def op_defs)
  show ?thesis using h set_user_null_keeps_authenticated [OF h] by blast
qed

text \<open>C22: the design says an action holds \<open>loading\<close> for its whole duration; with
  two actions in flight, the first to settle releases it in its \<open>finally\<close> block
  while the other is still pending, on a reachable run.\<close>

theorem loading_released_while_action_pending:
  "reachable True (run (init_sys True) overlap_trace) \<and>
   T_sign_out \<in> set (tasks (run (init_sys True) overlap_trace)) \<and>
   \<not> loading (run (init_sys True) overlap_trace)"
proof -
  have "reachable True (run (init_sys True) overlap_trace)"
    by (rule reachable_run) (auto simp: overlap_trace_def intro: reachable.start)
  moreover have "T_sign_out \<in> set (tasks (run (init_sys True) overlap_trace)) \<and>
      \<not> loading (run (init_sys True) overlap_trace)"
    by (simp add: overlap_trace_def init_sys_def mount_def check_session_def sign_in_def
        sign_out_def op_defs)
  ultimately show ?thesis by blast
qed

text \<open>C23: the design leaves open whether two concurrent fetches of a new user's
  profile can both create it. They can: on a reachable run, two \<open>fetchProfile\<close>
  calls that both find no row send two insert requests for the same id (the code
  neither checks for a pending insert nor uses an upsert).\<close>

theorem concurrent_fetches_insert_twice:
  "reachable True (run (init_sys True) double_fetch_trace) \<and>
   map row_id (inserts (run (init_sys True) double_fetch_trace)) = [''u-1'', ''u-1'']"
proof -
  have "reachable True (run (init_sys True) double_fetch_trace)"
    by (rule reachable_run) (auto simp: double_fetch_trace_def intro: reachable.start)
  moreover have "map row_id (inserts (run (init_sys True) double_fetch_trace)) = [''u-1'', ''u-1'']"
    by (simp add: double_fetch_trace_def init_sys_def mount_def check_session_def fetch_profile_def
        op_defs sample_sb_user_def profile_insert_row_def not_found_code_def)
  ultimately show ?thesis by blast
qed

text \<open>C24: the design says a late response after a sign-out is discarded rather than
  resurrecting stale state; the code guards the profile's \<open>setProfile\<close> by
  \<open>mountedRef\<close> only, so on a reachable run a profile query answered after a
  successful sign-out sets the profile again: the provider ends with no user, not
  authenticated, and the signed-out user's profile.\<close>

theorem late_profile_after_sign_out:
  "reachable True (run (init_sys True) late_profile_trace) \<and>
   user (run (init_sys True) late_profile_trace) = None \<and>
   \<not> is_authenticated (run (init_sys True) late_profile_trace) \<and>
   profile (run (init_sys True) late_profile_trace) = Some (to_app_user sample_sb_user)"
proof -
  have "reachable True (run (init_sys True) late_profile_trace)"
    by (rule reachable_run) (auto simp: late_profile_trace_def intro: reachable.start)
  moreover have "user (run (init_sys True) late_profile_trace) = None \<and>
      \<not> is_authenticated (run (init_sys True) late_profile_trace) \<and>
      profile (run (init_sys True) late_profile_trace) = Some (to_app_user sample_sb_user)"
    by (simp add: late_profile_trace_def init_sys_def mount_def check_session_def fetch_profile_def
        sign_out_def op_defs sample_sb_user_def)
  ultimately show ?thesis by blast
qed

end
