(* ===== verification/Auth_Spec.thy ===== *)
theory Auth_Spec
  imports Auth_Machine
begin

text \<open>
  The contract of the authentication context as its design document states it: the
  abstract \<open>SessionState\<close> (identity, profile, authenticated flag, loading flag,
  bootstrap flag, and the liveness flag every mutation is guarded by), the
  Apply-Identity transition, the reconciler's event table and the bootstrap's outcome.
  The abstraction \<open>abs_state\<close> reads the abstract state off the model of the code;
  the lemmas below say where the handlers of \<open>AuthContext.tsx\<close> implement the
  contract and where they do more.
\<close>

record session_state =
  identity :: "app_user option"
  sprofile :: "app_user option"
  authenticated :: bool
  busy :: bool
  bootstrap_complete :: bool
  alive :: bool

definition abs_state :: "auth_sys \<Rightarrow> session_state" where
  "abs_state s =
     \<lparr> identity = user s, sprofile = profile s, authenticated = is_authenticated s,
       busy = loading s, bootstrap_complete = session_checked_ref s, alive = mounted_ref s \<rparr>"

fun recognised :: "auth_event \<Rightarrow> bool" where
  "recognised Signed_in = True"
| "recognised Signed_out = True"
| "recognised Token_refreshed = True"
| "recognised ev = False"

definition apply_identity :: "sb_user \<Rightarrow> session_state \<Rightarrow> session_state" where
  "apply_identity au v = v\<lparr>identity := Some (to_app_user au), authenticated := True\<rparr>"

text \<open>
  The reconciler's table: nothing after teardown; before the bootstrap only the
  initial-session event passes; a signed-in or token-refreshed event with a session
  applies the identity, a signed-out event clears identity, profile and flag; after
  a recognised event the loading flag is released; other events change nothing.
\<close>

definition spec_reconcile :: "auth_event \<Rightarrow> sb_user option \<Rightarrow> session_state \<Rightarrow> session_state" where
  "spec_reconcile ev sess v =
     (if \<not> alive v \<or> (\<not> bootstrap_complete v \<and> ev \<noteq> Initial_session) \<or> \<not> recognised ev then v
      else (case ev of
              Signed_out \<Rightarrow> v\<lparr>identity := None, sprofile := None, authenticated := False\<rparr>
            | _ \<Rightarrow> (case sess of None \<Rightarrow> v | Some au \<Rightarrow> apply_identity au v))
           \<lparr>busy := False\<rparr>)"

text \<open>
  The bootstrap's outcome: a session applies the identity; no session, an error and a
  failure all leave the provider logged out; in every case the bootstrap is complete
  and the loading flag released.
\<close>

definition spec_bootstrap :: "session_reply \<Rightarrow> session_state \<Rightarrow> session_state" where
  "spec_bootstrap r v =
     (if \<not> alive v then v
      else (case r of
              Session_ok (Some au) \<Rightarrow> apply_identity au v
            | _ \<Rightarrow> v\<lparr>authenticated := False\<rparr>)
           \<lparr>bootstrap_complete := True, busy := False\<rparr>)"

text \<open>
  The actions' contract (design section 4.5, which names sign-in, sign-up, sign-out and
  refresh): an action's answer is a success, with
  the user of the new session if there is one, or a failure with the message the
  caller receives. On success sign-in and sign-up apply the identity and sign-out
  clears it; on failure the state is left as it was and the message is thrown; in
  both cases the loading flag is released, and nothing is written to a provider
  that is gone.
\<close>

datatype action = Act_sign_in | Act_sign_up | Act_sign_out | Act_refresh_session

datatype provider_outcome = Success "sb_user option" | Failure err_msg

definition spec_action ::
  "action \<Rightarrow> provider_outcome \<Rightarrow> session_state \<Rightarrow> session_state \<times> call_result" where
  "spec_action act out v =
     (case out of
        Failure m \<Rightarrow> (if alive v then v\<lparr>busy := False\<rparr> else v, Threw m)
      | Success u \<Rightarrow>
          (if \<not> alive v then v
           else (case act of
                   Act_sign_out \<Rightarrow> v\<lparr>identity := None, sprofile := None, authenticated := False\<rparr>
                 | _ \<Rightarrow> (case u of None \<Rightarrow> v | Some au \<Rightarrow> apply_identity au v))
                \<lparr>busy := False\<rparr>,
           Returned))"

text \<open>
  How the code reads the provider's answer to an action: an answer with an
  \<open>error\<close> is a failure whose message sign-in translates (lines 173--176) and
  sign-up and sign-out pass on (lines 213--216, 243--246); a rejected call is a
  failure with the rejection's message (the \<open>catch\<close> blocks rethrow it).
\<close>

fun auth_outcome :: "action \<Rightarrow> auth_reply \<Rightarrow> provider_outcome" where
  "auth_outcome act (Auth_ok u) = Success u"
| "auth_outcome Act_sign_in (Auth_error m) = Failure (sign_in_error m)"
| "auth_outcome act (Auth_error m) = Failure (Provider_message m)"
| "auth_outcome act (Auth_throw m) = Failure (Provider_message m)"

fun signout_outcome :: "signout_reply \<Rightarrow> provider_outcome" where
  "signout_outcome Signout_ok = Success None"
| "signout_outcome (Signout_error m) = Failure (Provider_message m)"

subsection \<open>Lemmas\<close>

lemma abs_state_handle_auth_user:
  "mounted_ref s \<Longrightarrow> abs_state (handle_auth_user c au s) = apply_identity au (abs_state s)"
  by (simp add: abs_state_def apply_identity_def op_defs)

lemma abs_state_unmounted_event:
  "\<not> mounted_ref s \<Longrightarrow> on_auth_state_change ev sess s = s"
  by (cases ev)
     (simp_all add: on_auth_state_change_def session_user_event_def clear_session_def Let_def
      split: option.splits)

text \<open>C6: for the three events the design's table names, the code's reconciler
  implements the table exactly, on the abstract state: before and after the
  bootstrap, mounted or not, with or without a session.\<close>

theorem reconciler_refines_table:
  "recognised ev \<Longrightarrow>
     abs_state (on_auth_state_change ev sess s) = spec_reconcile ev sess (abs_state s)"
proof (cases "mounted_ref s")
  case False
  then show ?thesis by (simp add: abs_state_unmounted_event spec_reconcile_def abs_state_def)
next
  case True
  assume "recognised ev"
  then show ?thesis
    using True
    by (cases ev; cases sess)
       (simp_all add: on_auth_state_change_def spec_reconcile_def session_user_event_def
        abs_state_def apply_identity_def op_defs)
qed

theorem reconciler_refines_table_witness:
  "recognised Signed_out \<and>
   abs_state (on_auth_state_change Signed_out None booted_sys) =
     spec_reconcile Signed_out None (abs_state booted_sys)"
  using reconciler_refines_table [of Signed_out None booted_sys] by simp

text \<open>C12: for the other events (\<open>INITIAL_SESSION\<close> and the events the table does
  not name) the code does more than the table: after the bootstrap, on a mounted
  provider, it releases the loading flag, where the table leaves the state alone.\<close>

theorem reconciler_unrecognised_releases_loading:
  assumes "\<not> recognised ev" and "session_checked_ref s" and "mounted_ref s"
  shows "abs_state (on_auth_state_change ev sess s) =
           (spec_reconcile ev sess (abs_state s))\<lparr>busy := False\<rparr>"
  using assms
  by (cases ev) (simp_all add: on_auth_state_change_def spec_reconcile_def abs_state_def)

theorem reconciler_unrecognised_releases_loading_witness:
  "\<not> recognised Initial_session \<and> session_checked_ref (booted_sys\<lparr>loading := True\<rparr>) \<and>
   mounted_ref (booted_sys\<lparr>loading := True\<rparr>) \<and>
   abs_state (on_auth_state_change Initial_session None (booted_sys\<lparr>loading := True\<rparr>)) =
     (spec_reconcile Initial_session None (abs_state (booted_sys\<lparr>loading := True\<rparr>)))
       \<lparr>busy := False\<rparr> \<and>
   busy (spec_reconcile Initial_session None (abs_state (booted_sys\<lparr>loading := True\<rparr>)))"
proof -
  have h: "\<not> recognised Initial_session" "session_checked_ref (booted_sys\<lparr>loading := True\<rparr>)"
    "mounted_ref (booted_sys\<lparr>loading := True\<rparr>)" by simp_all
  have b: "busy (spec_reconcile Initial_session None (abs_state (booted_sys\<lparr>loading := True\<rparr>)))"
    by (simp add: spec_reconcile_def abs_state_def)
  show ?thesis using h b reconciler_unrecognised_releases_loading [OF h] by blast
qed

text \<open>C7: on a mounted provider that is not yet authenticated, the answer to the
  initial session check takes the abstract state where the design's bootstrap says,
  for every answer: the identity of a session, or logged out, with the bootstrap
  complete and the loading flag released.\<close>

theorem bootstrap_refines_spec:
  assumes "mounted_ref s" and "\<not> is_authenticated s"
  shows "abs_state (check_session_resume c r s) = spec_bootstrap r (abs_state s)"
  using assms
  by (induction c r s rule: check_session_resume.induct)
     (simp_all add: spec_bootstrap_def abs_state_def apply_identity_def op_defs)

theorem bootstrap_refines_spec_witness:
  "mounted_ref (init_sys True) \<and> \<not> is_authenticated (init_sys True) \<and>
   abs_state (check_session_resume None (Session_ok (Some sample_sb_user)) (init_sys True)) =
     spec_bootstrap (Session_ok (Some sample_sb_user)) (abs_state (init_sys True))"
proof -
  have h: "mounted_ref (init_sys True)" "\<not> is_authenticated (init_sys True)"
    by (simp_all add: init_sys_def)
  show ?thesis using h bootstrap_refines_spec [OF h] by blast
qed

text \<open>C13: the design says a failed session check leaves the provider logged out; the
  code's error branch (the provider answering with an \<open>error\<close>) only logs it, so a
  provider that a concurrent sign-in already authenticated stays authenticated, where
  the design's bootstrap logs it out.\<close>

theorem bootstrap_error_keeps_authentication:
  assumes "mounted_ref s" and "is_authenticated s"
  shows "authenticated (abs_state (check_session_resume c Session_error s)) \<and>
         \<not> authenticated (spec_bootstrap Session_error (abs_state s))"
  using assms by (simp add: spec_bootstrap_def abs_state_def op_defs)

theorem bootstrap_error_keeps_authentication_witness:
  "mounted_ref (booted_sys\<lparr>is_authenticated := True\<rparr>) \<and>
   is_authenticated (booted_sys\<lparr>is_authenticated := True\<rparr>) \<and>
   authenticated (abs_state (check_session_resume None Session_error
     (booted_sys\<lparr>is_authenticated := True\<rparr>))) \<and>
   \<not> authenticated (spec_bootstrap Session_error (abs_state (booted_sys\<lparr>is_authenticated := True\<rparr>)))"
proof -
  have h: "mounted_ref (booted_sys\<lparr>is_authenticated := True\<rparr>)"
    "is_authenticated (booted_sys\<lparr>is_authenticated := True\<rparr>)" by simp_all
  show ?thesis using h bootstrap_error_keeps_authentication [OF h] by blast
qed

text \<open>C8: the three actions implement the design's contract for every answer of the
  provider: the abstract state after the answer is the contract's, and the action
  settles exactly once, with the contract's result (resolved, or thrown with its
  message).\<close>

theorem actions_refine_contract:
  "abs_state (sign_in_resume c r s) = fst (spec_action Act_sign_in (auth_outcome Act_sign_in r) (abs_state s)) \<and>
   results (sign_in_resume c r s) =
     results s @ [snd (spec_action Act_sign_in (auth_outcome Act_sign_in r) (abs_state s))] \<and>
   abs_state (sign_up_resume c r s) = fst (spec_action Act_sign_up (auth_outcome Act_sign_up r) (abs_state s)) \<and>
   results (sign_up_resume c r s) =
     results s @ [snd (spec_action Act_sign_up (auth_outcome Act_sign_up r) (abs_state s))] \<and>
   abs_state (sign_out_resume r' s) = fst (spec_action Act_sign_out (signout_outcome r') (abs_state s)) \<and>
   results (sign_out_resume r' s) =
     results s @ [snd (spec_action Act_sign_out (signout_outcome r') (abs_state s))]"
proof (intro conjI)
  show "abs_state (sign_in_resume c r s) = fst (spec_action Act_sign_in (auth_outcome Act_sign_in r) (abs_state s))"
    by (cases "(c, r, s)" rule: sign_in_resume.cases)
       (auto simp: spec_action_def abs_state_def apply_identity_def op_defs split: option.splits)
  show "results (sign_in_resume c r s) =
      results s @ [snd (spec_action Act_sign_in (auth_outcome Act_sign_in r) (abs_state s))]"
    by (cases "(c, r, s)" rule: sign_in_resume.cases) (simp_all add: spec_action_def op_defs)
  show "abs_state (sign_up_resume c r s) = fst (spec_action Act_sign_up (auth_outcome Act_sign_up r) (abs_state s))"
    by (cases "(c, r, s)" rule: sign_up_resume.cases)
       (auto simp: spec_action_def abs_state_def apply_identity_def op_defs split: option.splits)
  show "results (sign_up_resume c r s) =
      results s @ [snd (spec_action Act_sign_up (auth_outcome Act_sign_up r) (abs_state s))]"
    by (cases "(c, r, s)" rule: sign_up_resume.cases) (simp_all add: spec_action_def op_defs)
  show "abs_state (sign_out_resume r' s) = fst (spec_action Act_sign_out (signout_outcome r') (abs_state s))"
    by (cases "(r', s)" rule: sign_out_resume.cases) (auto simp: spec_action_def abs_state_def op_defs)
  show "results (sign_out_resume r' s) =
      results s @ [snd (spec_action Act_sign_out (signout_outcome r') (abs_state s))]"
    by (cases "(r', s)" rule: sign_out_resume.cases) (simp_all add: spec_action_def op_defs)
qed

text \<open>C14: \<open>refreshSession\<close> is one of the design's actions, but it keeps none of the
  contract's failure rules: it never sets \<open>loading\<close>, and when the provider answers
  with an error or rejects it resolves normally, where the contract throws the
  failure's message to the caller.\<close>

theorem refresh_session_breaks_contract:
  "loading (refresh_session c s) = loading s \<and>
   results (refresh_session_resume c Session_error s) = results s @ [Returned] \<and>
   results (refresh_session_resume c Session_throw s) = results s @ [Returned] \<and>
   snd (spec_action Act_refresh_session (Failure m) v) = Threw m"
  by (simp add: refresh_session_def spec_action_def op_defs)

end
