(* ===== verification/Auth_Quiesce.thy ===== *)
theory Auth_Quiesce
  imports Auth_Machine
begin

text \<open>
  The pending work of \<open>AuthProvider\<close> runs out. Every suspended \<open>await\<close> and
  timer is a task; resuming one may start another (the session check's
  \<open>handleAuthUser\<close> starts the profile timer, the timer starts the profile query,
  the query's ``no row'' answer starts the insert), but never one of a later kind in
  the chain. Weighing a task by the length of the chain it can still start,
  every resume lowers the total weight of the pending tasks. So without new events
  from outside (mounts, pushed auth events, consumer calls), the provider's
  replies alone can only be answered finitely often, under any schedule of the
  event loop; \<open>drain_trace\<close> answers the oldest task first until none is left.
  Draining is also where the profile store is judged: with the table answering one
  row, the drained state holds that row.
\<close>

fun task_weight :: "task \<Rightarrow> nat" where
  "task_weight (T_check_session c) = 4"
| "task_weight (T_timer i c) = 3"
| "task_weight (T_fetch i c) = 2"
| "task_weight (T_create i) = 1"
| "task_weight (T_refresh c) = 4"
| "task_weight (T_sign_in c) = 4"
| "task_weight (T_sign_up c) = 4"
| "task_weight T_sign_out = 1"

definition pending_weight :: "auth_sys \<Rightarrow> nat" where
  "pending_weight s = sum_list (map task_weight (tasks s))"

text \<open>
  The provider's answers, one of the right kind for each task: the answer to a
  session query (\<open>getSession\<close>, \<open>refreshSession\<close>), to a database query or
  insert, to a sign-in or sign-up, and to a sign-out. Each may depend on the task.
\<close>

record answers =
  on_session :: "task \<Rightarrow> session_reply"
  on_db :: "task \<Rightarrow> db_reply"
  on_auth :: "task \<Rightarrow> auth_reply"
  on_signout :: signout_reply

fun answer :: "answers \<Rightarrow> task \<Rightarrow> reply" where
  "answer a (T_check_session c) = R_session (on_session a (T_check_session c))"
| "answer a (T_timer i c) = R_timer"
| "answer a (T_fetch i c) = R_db (on_db a (T_fetch i c))"
| "answer a (T_create i) = R_db (on_db a (T_create i))"
| "answer a (T_refresh c) = R_session (on_session a (T_refresh c))"
| "answer a (T_sign_in c) = R_auth (on_auth a (T_sign_in c))"
| "answer a (T_sign_up c) = R_auth (on_auth a (T_sign_up c))"
| "answer a T_sign_out = R_signout (on_signout a)"

fun profile_task :: "task \<Rightarrow> bool" where
  "profile_task (T_timer i c) = True"
| "profile_task (T_fetch i c) = True"
| "profile_task (T_create i) = True"
| "profile_task t = False"

definition settled :: "auth_sys \<Rightarrow> bool" where
  "settled s \<longleftrightarrow> session_checked_ref s \<and> \<not> loading s \<and> list_all profile_task (tasks s)"

text \<open>A pending task that will query or insert the profile row: a timer with a
  user id (the code's \<open>fetchProfile\<close> returns at once on an empty id), a query, an
  insert.\<close>

fun loads_profile :: "task \<Rightarrow> bool" where
  "loads_profile (T_timer i c) = (i \<noteq> [])"
| "loads_profile (T_fetch i c) = True"
| "loads_profile (T_create i) = True"
| "loads_profile t = False"

definition converging :: "app_user \<Rightarrow> auth_sys \<Rightarrow> bool" where
  "converging p s \<longleftrightarrow>
     mounted_ref s \<and> configured s \<and> list_all profile_task (tasks s) \<and>
     (profile s = Some p \<or> list_ex loads_profile (tasks s))"

text \<open>The calls whose promise the results log records, and the tasks that are the
  suspended part of such a call.\<close>

fun action_call :: "event \<Rightarrow> bool" where
  "action_call Call_sign_in = True"
| "action_call Call_sign_up = True"
| "action_call Call_sign_out = True"
| "action_call Call_refresh_session = True"
| "action_call e = False"

fun action_task :: "task \<Rightarrow> bool" where
  "action_task (T_refresh c) = True"
| "action_task (T_sign_in c) = True"
| "action_task (T_sign_up c) = True"
| "action_task T_sign_out = True"
| "action_task t = False"

definition unsettled :: "auth_sys \<Rightarrow> nat" where
  "unsettled s = length (filter action_task (tasks s))"

definition settled_count :: "auth_sys \<Rightarrow> nat" where
  "settled_count s = length (results s) + unsettled s"

text \<open>The event loop with no event from outside: the oldest pending task resumes with
  its answer, until none is left.\<close>

function drain_trace :: "answers \<Rightarrow> auth_sys \<Rightarrow> event list" where
  "drain_trace a s =
     (case tasks s of
        [] \<Rightarrow> []
      | t # ts \<Rightarrow> Resume 0 (answer a t) # drain_trace a (step s (Resume 0 (answer a t))))"
  by pat_completeness auto

definition drain :: "answers \<Rightarrow> auth_sys \<Rightarrow> auth_sys" where
  "drain a s = run s (drain_trace a s)"

subsection \<open>Every resume lowers the pending weight\<close>

lemma pending_weight_ops [simp]:
  "pending_weight (spawn t s) = pending_weight s + task_weight t"
  "pending_weight (finish r s) = pending_weight s"
  "pending_weight (action_finally s) = pending_weight s"
  "pending_weight (clear_session s) = pending_weight s"
  "pending_weight (check_session_finally s) = pending_weight s"
  "pending_weight (fetch_profile_finally s) = pending_weight s"
  "pending_weight (s\<lparr>is_authenticated := b\<rparr>) = pending_weight s"
  "pending_weight (s\<lparr>profile := p\<rparr>) = pending_weight s"
  "pending_weight (s\<lparr>user := u, is_authenticated := b\<rparr>) = pending_weight s"
  by (simp_all add: pending_weight_def op_defs)

lemma pending_weight_handle [simp]:
  "pending_weight (handle_auth_user c au s) < pending_weight s + 4"
  by (simp add: handle_auth_user_def pending_weight_def spawn_def)

lemma pending_weight_fetch [simp]: "pending_weight (fetch_profile c i s) < pending_weight s + 3"
  by (simp add: fetch_profile_def pending_weight_def spawn_def)

lemma pending_weight_fetch_resume [simp]:
  "pending_weight (fetch_profile_resume c i r s) < pending_weight s + 2"
  by (cases r) (auto simp: create_user_profile_def pending_weight_def spawn_def
      fetch_profile_finally_def split: option.splits)

lemma pending_weight_create_resume [simp]:
  "pending_weight (create_profile_resume r s) = pending_weight s"
  by (induction r s rule: create_profile_resume.induct) simp_all

lemma resume_pending_weight:
  "resume t r s = Some s' \<Longrightarrow> pending_weight s' < pending_weight s + task_weight t"
proof (induction t r s rule: resume.induct)
  case (1 c r s)
  then show ?case by (cases "(c, r, s)" rule: check_session_resume.cases) auto
next
  case (5 c r s)
  then show ?case by (cases "(c, r, s)" rule: refresh_session_resume.cases) auto
next
  case (6 c r s)
  then show ?case by (cases "(c, r, s)" rule: sign_in_resume.cases) auto
next
  case (7 c r s)
  then show ?case by (cases "(c, r, s)" rule: sign_up_resume.cases) auto
next
  case (8 r s)
  then show ?case by (cases "(r, s)" rule: sign_out_resume.cases) auto
next
  case (3 i c r s)
  then show ?case using pending_weight_fetch_resume [of c i r s] by simp
qed auto

lemma resume_answer_Some: "\<exists>s'. resume t (answer a t) s = Some s'"
  by (cases t) simp_all

lemma pending_weight_remove:
  "i < length (tasks s) \<Longrightarrow>
     pending_weight (s\<lparr>tasks := remove_nth i (tasks s)\<rparr>) + task_weight (tasks s ! i) =
     pending_weight s"
  by (simp add: pending_weight_def sum_list_remove_nth)

lemma step_resume_pending_weight:
  assumes "i < length (tasks s)"
    and "resume (tasks s ! i) r (s\<lparr>tasks := remove_nth i (tasks s)\<rparr>) = Some s'"
  shows "step s (Resume i r) = s'" and "pending_weight s' < pending_weight s"
proof -
  show "step s (Resume i r) = s'" using assms by simp
  have "pending_weight s' <
          pending_weight (s\<lparr>tasks := remove_nth i (tasks s)\<rparr>) + task_weight (tasks s ! i)"
    using assms(2) by (rule resume_pending_weight)
  then show "pending_weight s' < pending_weight s" using pending_weight_remove [OF assms(1)] by simp
qed

lemma step_answer_head:
  assumes "tasks s = t # ts"
  obtains s' where "resume t (answer a t) (s\<lparr>tasks := ts\<rparr>) = Some s'"
    and "step s (Resume 0 (answer a t)) = s'" and "pending_weight s' < pending_weight s"
proof -
  obtain s' where r: "resume t (answer a t) (s\<lparr>tasks := ts\<rparr>) = Some s'"
    using resume_answer_Some by blast
  have h: "0 < length (tasks s)" "resume (tasks s ! 0) (answer a t)
      (s\<lparr>tasks := remove_nth 0 (tasks s)\<rparr>) = Some s'" using assms r by simp_all
  have "step s (Resume 0 (answer a t)) = s'" "pending_weight s' < pending_weight s"
    using step_resume_pending_weight [OF h] by simp_all
  with r show ?thesis by (rule that)
qed

termination drain_trace
proof (relation "measure (\<lambda>(a, s). pending_weight s)")
  fix a t ts and s :: auth_sys
  assume "tasks s = t # ts"
  then obtain s' where "step s (Resume 0 (answer a t)) = s'" and "pending_weight s' < pending_weight s"
    by (rule step_answer_head)
  then show "((a, step s (Resume 0 (answer a t))), a, s) \<in> measure (\<lambda>(a, s). pending_weight s)"
    by simp
qed simp

declare drain_trace.simps [simp del]

lemma drain_trace_Nil: "tasks s = [] \<Longrightarrow> drain_trace a s = []"
  by (simp add: drain_trace.simps)

lemma drain_trace_Cons:
  "tasks s = t # ts \<Longrightarrow>
     drain_trace a s = Resume 0 (answer a t) # drain_trace a (step s (Resume 0 (answer a t)))"
  by (simp add: drain_trace.simps [of a s])

lemma drain_unfold:
  "drain a s = (case tasks s of [] \<Rightarrow> s | t # ts \<Rightarrow> drain a (step s (Resume 0 (answer a t))))"
  by (cases "tasks s") (simp_all add: drain_def drain_trace_Nil drain_trace_Cons)

theorem drain_empties_tasks: "tasks (drain a s) = []"
proof (induction a s rule: drain_trace.induct)
  case (1 a s)
  then show ?case by (cases "tasks s") (simp_all add: drain_unfold [of a s])
qed

theorem drain_trace_bound: "length (drain_trace a s) \<le> pending_weight s"
proof (induction a s rule: drain_trace.induct)
  case (1 a s)
  show ?case
  proof (cases "tasks s")
    case (Cons t ts)
    then obtain s' where "step s (Resume 0 (answer a t)) = s'" and "pending_weight s' < pending_weight s"
      by (rule step_answer_head)
    with "1.IH" [OF Cons] Cons show ?thesis by (simp add: drain_trace_Cons)
  qed (simp add: drain_trace_Nil)
qed

lemma settled_resume:
  "resume t r s = Some s' \<Longrightarrow> profile_task t \<Longrightarrow> settled s \<Longrightarrow> settled s'"
proof (induction t r s rule: resume.induct)
  case (2 i c s)
  then show ?case by (auto simp: fetch_profile_def settled_def spawn_def split: if_splits)
next
  case (3 i c r s)
  then show ?case
    by (cases r) (auto simp: settled_def op_defs split: option.splits if_splits)
next
  case (4 i r s)
  then show ?case
    by (cases "(r, s)" rule: create_profile_resume.cases) (auto simp: settled_def op_defs split: if_splits)
qed simp_all

lemma settled_drain: "settled s \<Longrightarrow> settled (drain a s)"
proof (induction a s rule: drain_trace.induct)
  case (1 a s)
  show ?case
  proof (cases "tasks s")
    case (Cons t ts)
    then obtain s' where r: "resume t (answer a t) (s\<lparr>tasks := ts\<rparr>) = Some s'"
      and st: "step s (Resume 0 (answer a t)) = s'" by (rule step_answer_head)
    have "profile_task t" "settled (s\<lparr>tasks := ts\<rparr>)" using "1.prems" Cons
      by (simp_all add: settled_def)
    with r have "settled s'" by (rule settled_resume)
    with "1.IH" [OF Cons] Cons st show ?thesis by (simp add: drain_unfold [of a s])
  qed (simp add: drain_unfold [of a s] "1.prems")
qed

lemma mount_init_tasks: "tasks (mount (init_sys True)) = [T_check_session None]"
  by (simp add: mount_def check_session_def init_sys_def spawn_def)

lemma settled_check_session_resume:
  "mounted_ref s \<Longrightarrow> tasks s = [] \<Longrightarrow> settled (check_session_resume c r s)"
  by (cases "(c, r, s)" rule: check_session_resume.cases) (simp_all add: settled_def op_defs)

subsection \<open>Properties\<close>

text \<open>C9: the pending work is well founded: every resume the program can take (a
  pending task answered with a reply of its kind) strictly lowers the total weight of
  the pending tasks, whichever task the event loop picks, so no schedule of replies
  alone keeps the provider busy forever.\<close>

theorem resume_lowers_pending_weight:
  "i < length (tasks s) \<Longrightarrow>
   resume (tasks s ! i) r (s\<lparr>tasks := remove_nth i (tasks s)\<rparr>) \<noteq> None \<Longrightarrow>
   pending_weight (step s (Resume i r)) < pending_weight s"
  using step_resume_pending_weight by blast

theorem resume_lowers_pending_weight_witness:
  "0 < length (tasks (mount (init_sys True))) \<and>
   resume (tasks (mount (init_sys True)) ! 0) (R_session (Session_ok None))
     ((mount (init_sys True))\<lparr>tasks := remove_nth 0 (tasks (mount (init_sys True)))\<rparr>) \<noteq> None \<and>
   pending_weight (step (mount (init_sys True)) (Resume 0 (R_session (Session_ok None)))) <
     pending_weight (mount (init_sys True))"
proof -
  have h: "0 < length (tasks (mount (init_sys True)))"
    "resume (tasks (mount (init_sys True)) ! 0) (R_session (Session_ok None))
       ((mount (init_sys True))\<lparr>tasks := remove_nth 0 (tasks (mount (init_sys True)))\<rparr>) \<noteq> None"
    by (simp_all add: mount_init_tasks)
  show ?thesis using h resume_lowers_pending_weight [OF h] by blast
qed

text \<open>With no event from outside, answering the oldest pending task first, whatever
  the provider answers, empties the queue of pending work after at most as many resumes
  as the pending weight: the event loop goes quiet.\<close>

theorem drain_quiesces:
  "tasks (drain a s) = [] \<and> length (drain_trace a s) \<le> pending_weight s"
  using drain_empties_tasks drain_trace_bound by blast

text \<open>C10: after the mount of a provider with a client, once the pending work has run
  out, whatever the provider answered to the session check, the profile query and the
  insert, the initial session check has finished and \<open>loading\<close> is released: the
  profile work that follows the bootstrap never sets \<open>loading\<close> again.\<close>

theorem bootstrap_settles:
  "session_checked_ref (drain a (mount (init_sys True))) \<and>
   \<not> loading (drain a (mount (init_sys True))) \<and> tasks (drain a (mount (init_sys True))) = []"
proof -
  let ?s = "mount (init_sys True)"
  let ?r = "on_session a (T_check_session None)"
  have "step ?s (Resume 0 (answer a (T_check_session None))) =
          check_session_resume None ?r (?s\<lparr>tasks := []\<rparr>)"
    by (simp add: mount_init_tasks)
  moreover have "settled (check_session_resume None ?r (?s\<lparr>tasks := []\<rparr>))"
    by (rule settled_check_session_resume) (simp_all add: mount_def check_session_def init_sys_def spawn_def)
  ultimately have "settled (drain a ?s)"
    using settled_drain by (simp add: drain_unfold [of a ?s] mount_init_tasks)
  then show ?thesis using drain_empties_tasks by (simp add: settled_def)
qed

subsection \<open>Every action call settles exactly once\<close>

lemma settled_count_ops [simp]:
  "settled_count (spawn t s) = settled_count s + (if action_task t then 1 else 0)"
  "settled_count (finish r s) = Suc (settled_count s)"
  "settled_count (action_finally s) = settled_count s"
  "settled_count (clear_session s) = settled_count s"
  "settled_count (check_session_finally s) = settled_count s"
  "settled_count (fetch_profile_finally s) = settled_count s"
  "settled_count (s\<lparr>is_authenticated := b\<rparr>) = settled_count s"
  "settled_count (s\<lparr>profile := p\<rparr>) = settled_count s"
  "settled_count (s\<lparr>loading := b\<rparr>) = settled_count s"
  by (simp_all add: settled_count_def unsettled_def op_defs)

lemma settled_count_handle [simp]: "settled_count (handle_auth_user c au s) = settled_count s"
  by (simp add: handle_auth_user_def settled_count_def unsettled_def spawn_def)

lemma settled_count_fetch [simp]: "settled_count (fetch_profile c i s) = settled_count s"
  by (simp add: fetch_profile_def settled_count_def unsettled_def spawn_def)

lemma settled_count_fetch_resume [simp]:
  "settled_count (fetch_profile_resume c i r s) = settled_count s"
  by (cases r) (auto simp: create_user_profile_def settled_count_def unsettled_def spawn_def
      fetch_profile_finally_def split: option.splits)

lemma settled_count_create_resume [simp]:
  "settled_count (create_profile_resume r s) = settled_count s"
  by (induction r s rule: create_profile_resume.induct) simp_all

lemma resume_settled_count:
  "resume t r s = Some s' \<Longrightarrow>
     settled_count s' = settled_count s + (if action_task t then 1 else 0)"
proof (induction t r s rule: resume.induct)
  case (1 c r s)
  then show ?case by (cases "(c, r, s)" rule: check_session_resume.cases) auto
next
  case (5 c r s)
  then show ?case by (cases "(c, r, s)" rule: refresh_session_resume.cases) auto
next
  case (6 c r s)
  then show ?case by (cases "(c, r, s)" rule: sign_in_resume.cases) auto
next
  case (7 c r s)
  then show ?case by (cases "(c, r, s)" rule: sign_up_resume.cases) auto
next
  case (8 r s)
  then show ?case by (cases "(r, s)" rule: sign_out_resume.cases) auto
qed auto

lemma settled_count_remove:
  "i < length (tasks s) \<Longrightarrow>
     settled_count (s\<lparr>tasks := remove_nth i (tasks s)\<rparr>) + (if action_task (tasks s ! i) then 1 else 0) =
     settled_count s"
  using length_filter_remove_nth [of i "tasks s" action_task]
  by (simp add: settled_count_def unsettled_def)

lemma step_settled_count:
  "settled_count (step s e) = settled_count s + (if action_call e then 1 else 0)"
proof (cases e)
  case (Resume i r)
  show ?thesis
  proof (cases "i < length (tasks s)")
    case True
    show ?thesis
    proof (cases "resume (tasks s ! i) r (s\<lparr>tasks := remove_nth i (tasks s)\<rparr>)")
      case (Some s')
      then have "settled_count s' =
          settled_count (s\<lparr>tasks := remove_nth i (tasks s)\<rparr>) + (if action_task (tasks s ! i) then 1 else 0)"
        by (rule resume_settled_count)
      with Some True Resume show ?thesis using settled_count_remove [OF True] by simp
    qed (use True Resume in simp)
  qed (use Resume in simp)
next
  case (Provider_event ev sess)
  then show ?thesis
    by (cases ev) (auto simp: on_auth_state_change_def session_user_event_def Let_def
        split: option.splits)
next
  case (Call_fetch_profile i)
  then show ?thesis by simp
qed (simp_all add: mount_def check_session_def unmount_def sign_in_def sign_up_def sign_out_def
    refresh_session_def set_user_def set_profile_def settled_count_def unsettled_def
    spawn_def finish_def)

lemma run_settled_count:
  "settled_count (run s es) = settled_count s + length (filter action_call es)"
  by (induction es arbitrary: s) (simp_all add: step_settled_count)

lemma drain_trace_no_calls: "filter action_call (drain_trace a s) = []"
proof (induction a s rule: drain_trace.induct)
  case (1 a s)
  then show ?case by (cases "tasks s") (simp_all add: drain_trace_Nil drain_trace_Cons)
qed

text \<open>Every call of \<open>signIn\<close>, \<open>signUp\<close>, \<open>signOut\<close> or \<open>refreshSession\<close>
  settles at most once: on every run, the settled results and the calls still
  suspended add up to the calls made; and once the pending work has been answered,
  whatever the answers, every call has settled exactly once.\<close>

theorem calls_settle_exactly_once:
  "length (results (run (init_sys c) es)) + unsettled (run (init_sys c) es) =
     length (filter action_call es) \<and>
   length (results (drain a (run (init_sys c) es))) = length (filter action_call es)"
proof
  have i: "settled_count (init_sys c) = 0" by (simp add: settled_count_def unsettled_def init_sys_def)
  then show "length (results (run (init_sys c) es)) + unsettled (run (init_sys c) es) =
      length (filter action_call es)"
    using run_settled_count [of "init_sys c" es] by (simp add: settled_count_def)
  have "settled_count (drain a (run (init_sys c) es)) = length (filter action_call es)"
    using i run_settled_count [of "run (init_sys c) es" "drain_trace a (run (init_sys c) es)"]
      run_settled_count [of "init_sys c" es]
    by (simp add: drain_def drain_trace_no_calls)
  then show "length (results (drain a (run (init_sys c) es))) = length (filter action_call es)"
    using drain_empties_tasks [of a "run (init_sys c) es"]
    by (simp add: settled_count_def unsettled_def)
qed

subsection \<open>The profile store converges\<close>

lemma converging_resume:
  assumes db: "\<forall>t. on_db a t = Db_data (Some p)" and c: "converging p s" and ts: "tasks s = t # ts"
    and r: "resume t (answer a t) (s\<lparr>tasks := ts\<rparr>) = Some s'"
  shows "converging p s'"
proof -
  have pt: "profile_task t" and rest: "list_all profile_task ts"
    and m: "mounted_ref s" "configured s"
    and old: "profile s = Some p \<or> loads_profile t \<or> list_ex loads_profile ts"
    using c ts by (auto simp: converging_def)
  show ?thesis
  proof (cases t)
    case (T_timer i c')
    with r have "s' = fetch_profile c' i (s\<lparr>tasks := ts\<rparr>)" by simp
    with m rest old T_timer show ?thesis
      by (auto simp: converging_def fetch_profile_def spawn_def)
  next
    case (T_fetch i c')
    with r db have "s' = fetch_profile_resume c' i (Db_data (Some p)) (s\<lparr>tasks := ts\<rparr>)" by simp
    with m rest show ?thesis by (simp add: converging_def fetch_profile_finally_def)
  next
    case (T_create i)
    with r db have "s' = create_profile_resume (Db_data (Some p)) (s\<lparr>tasks := ts\<rparr>)" by simp
    with m rest show ?thesis by (simp add: converging_def fetch_profile_finally_def)
  qed (use pt in simp_all)
qed

lemma converging_drain:
  "\<forall>t. on_db a t = Db_data (Some p) \<Longrightarrow> converging p s \<Longrightarrow> converging p (drain a s)"
proof (induction a s rule: drain_trace.induct)
  case (1 a s)
  show ?case
  proof (cases "tasks s")
    case (Cons t ts)
    then obtain s' where r: "resume t (answer a t) (s\<lparr>tasks := ts\<rparr>) = Some s'"
      and st: "step s (Resume 0 (answer a t)) = s'" by (rule step_answer_head)
    have "converging p s'" using "1.prems"(1,2) Cons r by (rule converging_resume)
    with "1.IH" [OF Cons "1.prems"(1)] st have "converging p (drain a s')" by simp
    with Cons st show ?thesis by (simp add: drain_unfold [of a s])
  qed (simp add: drain_unfold [of a s] "1.prems")
qed

text \<open>C11: the design says repeated profile fetches converge to the stored profile.
  If the \<open>users\<close> table answers every query and insert with the row \<open>p\<close>, then on a
  mounted provider whose pending work is profile work that will reach the table,
  answering it all loads \<open>p\<close>, whatever profile the state held before and whatever
  closures the timers captured.\<close>

theorem profile_store_converges:
  "\<forall>t. on_db a t = Db_data (Some p) \<Longrightarrow> mounted_ref s \<Longrightarrow> configured s \<Longrightarrow>
   list_all profile_task (tasks s) \<Longrightarrow> list_ex loads_profile (tasks s) \<Longrightarrow>
   profile (drain a s) = Some p"
proof -
  assume db: "\<forall>t. on_db a t = Db_data (Some p)" and h: "mounted_ref s" "configured s"
    "list_all profile_task (tasks s)" "list_ex loads_profile (tasks s)"
  then have "converging p s" by (simp add: converging_def)
  with db have "converging p (drain a s)" by (rule converging_drain)
  then show ?thesis using drain_empties_tasks [of a s] by (simp add: converging_def)
qed

definition row_answers :: answers where
  "row_answers =
     \<lparr> on_session = (\<lambda>t. Session_ok None), on_db = (\<lambda>t. Db_data (Some (to_app_user sample_sb_user))),
       on_auth = (\<lambda>t. Auth_ok None), on_signout = Signout_ok \<rparr>"

theorem profile_store_converges_witness:
  "(\<forall>t. on_db row_answers t = Db_data (Some (to_app_user sample_sb_user))) \<and>
   mounted_ref (run (init_sys True) boot_trace) \<and> configured (run (init_sys True) boot_trace) \<and>
   list_all profile_task (tasks (run (init_sys True) boot_trace)) \<and>
   list_ex loads_profile (tasks (run (init_sys True) boot_trace)) \<and>
   profile (drain row_answers (run (init_sys True) boot_trace)) = Some (to_app_user sample_sb_user)"
proof -
  have h: "\<forall>t. on_db row_answers t = Db_data (Some (to_app_user sample_sb_user))"
    "mounted_ref (run (init_sys True) boot_trace)" "configured (run (init_sys True) boot_trace)"
    "list_all profile_task (tasks (run (init_sys True) boot_trace))"
    "list_ex loads_profile (tasks (run (init_sys True) boot_trace))"
    by (simp_all add: row_answers_def boot_trace_def init_sys_def mount_def check_session_def op_defs
        sample_sb_user_def)
  show ?thesis using h profile_store_converges [OF h] by blast
qed

end
