(* ===== verification/Auth_Iff.thy ===== *)
theory Auth_Iff
  imports Auth_Machine
begin

text \<open>
  Where the design's invariant (\<open>isAuthenticated\<close> exactly when there is a user)
  holds. The run \<open>bootstrap_race_user_without_auth\<close> breaks it with a sign-in
  answered before the initial session check, and \<open>set_user_null_keeps_authenticated\<close>
  with the raw setter. A consumer that waits for the bootstrap before calling the
  context (\<open>polite_reachable\<close>: no call of an action or of \<open>fetchProfile\<close> while the
  initial session check is pending, and no raw setter) sees the invariant hold in
  every state of a mounted provider, under any interleaving of replies and auth events.
\<close>

fun consumer_call :: "event \<Rightarrow> bool" where
  "consumer_call Call_sign_in = True"
| "consumer_call Call_sign_up = True"
| "consumer_call Call_sign_out = True"
| "consumer_call Call_refresh_session = True"
| "consumer_call (Call_fetch_profile i) = True"
| "consumer_call e = False"

inductive polite_reachable :: "bool \<Rightarrow> auth_sys \<Rightarrow> bool" for c :: bool where
  start: "polite_reachable c (init_sys c)"
| step: "polite_reachable c s \<Longrightarrow> managed e \<Longrightarrow> (consumer_call e \<longrightarrow> session_checked_ref s) \<Longrightarrow>
           polite_reachable c (step s e)"

fun check_task :: "task \<Rightarrow> bool" where
  "check_task (T_check_session c) = True"
| "check_task t = False"

text \<open>The invariant of a mounted provider: before the mount effect ran nothing has
  happened; while the initial check is pending it is the only task and there is no
  user; once it has finished no check is pending; and the design's invariant.\<close>

definition polite_inv :: "auth_sys \<Rightarrow> bool" where
  "polite_inv s \<longleftrightarrow> mounted_ref s \<longrightarrow>
     (\<not> initializing_ref s \<longrightarrow>
        tasks s = [] \<and> \<not> session_checked_ref s \<and> user s = None \<and> \<not> is_authenticated s) \<and>
     (initializing_ref s \<and> \<not> session_checked_ref s \<longrightarrow>
        tasks s = [T_check_session None] \<and> user s = None \<and> \<not> is_authenticated s) \<and>
     (session_checked_ref s \<longrightarrow> initializing_ref s \<and> \<not> list_ex check_task (tasks s)) \<and>
     (is_authenticated s \<longleftrightarrow> user s \<noteq> None)"

text \<open>The run of \<open>race_trace\<close> with the sign-in called after the bootstrap instead
  of before it.\<close>

definition polite_trace :: "event list" where
  "polite_trace =
     [Mount, Resume 0 (R_session (Session_ok None)), Call_sign_in,
      Resume 0 (R_auth (Auth_ok (Some sample_sb_user)))]"

definition no_check :: "auth_sys \<Rightarrow> bool" where
  "no_check s \<longleftrightarrow> \<not> list_ex check_task (tasks s)"

definition auth_iff :: "auth_sys \<Rightarrow> bool" where
  "auth_iff s \<longleftrightarrow> (is_authenticated s \<longleftrightarrow> user s \<noteq> None)"

subsection \<open>Lemmas\<close>

lemma resume_frame:
  "resume t r s = Some s' \<Longrightarrow>
     mounted_ref s' = mounted_ref s \<and> initializing_ref s' = initializing_ref s \<and>
     (session_checked_ref s \<longrightarrow> session_checked_ref s')"
proof (induction t r s rule: resume.induct)
  case (1 c r s)
  then show ?case by (cases "(c, r, s)" rule: check_session_resume.cases) (auto simp: op_defs split: if_splits)
next
  case (2 i c s)
  then show ?case by (auto simp: fetch_profile_def spawn_def split: if_splits)
next
  case (3 i c r s)
  then show ?case by (cases r) (auto simp: op_defs split: option.splits if_splits)
next
  case (4 i r s)
  then show ?case by (cases "(r, s)" rule: create_profile_resume.cases) (auto simp: op_defs split: if_splits)
next
  case (5 c r s)
  then show ?case by (cases "(c, r, s)" rule: refresh_session_resume.cases) (auto simp: op_defs split: if_splits)
next
  case (6 c r s)
  then show ?case by (cases "(c, r, s)" rule: sign_in_resume.cases) (auto simp: op_defs split: if_splits)
next
  case (7 c r s)
  then show ?case by (cases "(c, r, s)" rule: sign_up_resume.cases) (auto simp: op_defs split: if_splits)
next
  case (8 r s)
  then show ?case by (cases "(r, s)" rule: sign_out_resume.cases) (auto simp: op_defs split: if_splits)
qed simp_all

lemma auth_iff_ops [simp]:
  "auth_iff (spawn t s) = auth_iff s" "auth_iff (finish r s) = auth_iff s"
  "auth_iff (action_finally s) = auth_iff s" "auth_iff (check_session_finally s) = auth_iff s"
  "auth_iff (fetch_profile_finally s) = auth_iff s"
  "auth_iff (s\<lparr>tasks := ts\<rparr>) = auth_iff s" "auth_iff (s\<lparr>loading := b\<rparr>) = auth_iff s"
  "auth_iff (s\<lparr>is_loading := b\<rparr>) = auth_iff s" "auth_iff (s\<lparr>profile := p\<rparr>) = auth_iff s"
  "auth_iff (s\<lparr>inserts := rs\<rparr>) = auth_iff s"
  by (simp_all add: auth_iff_def op_defs)

lemma auth_iff_handle_clear [simp]:
  "mounted_ref s \<Longrightarrow> auth_iff (handle_auth_user c au s)"
  "mounted_ref s \<Longrightarrow> auth_iff (clear_session s)"
  by (simp_all add: auth_iff_def op_defs)

lemma no_check_ops [simp]:
  "no_check (spawn t s) = (no_check s \<and> \<not> check_task t)" "no_check (finish r s) = no_check s"
  "no_check (action_finally s) = no_check s" "no_check (check_session_finally s) = no_check s"
  "no_check (fetch_profile_finally s) = no_check s" "no_check (clear_session s) = no_check s"
  "no_check (handle_auth_user c au s) = no_check s"
  "no_check (s\<lparr>loading := b\<rparr>) = no_check s" "no_check (s\<lparr>is_loading := b\<rparr>) = no_check s"
  "no_check (s\<lparr>profile := p\<rparr>) = no_check s" "no_check (s\<lparr>is_authenticated := b\<rparr>) = no_check s"
  "no_check (s\<lparr>inserts := rs\<rparr>) = no_check s"
  by (simp_all add: no_check_def op_defs)

lemma resume_after_check:
  "resume t r s = Some s' \<Longrightarrow> \<not> check_task t \<Longrightarrow> mounted_ref s \<Longrightarrow> no_check s \<Longrightarrow> auth_iff s \<Longrightarrow>
     no_check s' \<and> auth_iff s'"
proof (induction t r s rule: resume.induct)
  case (2 i c s)
  then show ?case by (auto simp: fetch_profile_def)
next
  case (3 i c r s)
  then show ?case
    by (cases r) (auto simp: create_user_profile_def auth_iff_def no_check_def op_defs
        split: option.splits if_splits)
next
  case (4 i r s)
  then show ?case by (cases "(r, s)" rule: create_profile_resume.cases) auto
next
  case (5 c r s)
  then show ?case by (cases "(c, r, s)" rule: refresh_session_resume.cases) auto
next
  case (6 c r s)
  then show ?case by (cases "(c, r, s)" rule: sign_in_resume.cases) auto
next
  case (7 c r s)
  then show ?case by (cases "(c, r, s)" rule: sign_up_resume.cases) auto
next
  case (8 r s)
  then show ?case by (cases "(r, s)" rule: sign_out_resume.cases) auto
qed simp_all

lemma polite_inv_intros:
  "\<not> mounted_ref s \<Longrightarrow> polite_inv s"
  "session_checked_ref s \<Longrightarrow> initializing_ref s \<Longrightarrow> no_check s \<Longrightarrow> auth_iff s \<Longrightarrow> polite_inv s"
  by (auto simp: polite_inv_def no_check_def auth_iff_def)

lemma auth_event_frame:
  "mounted_ref (on_auth_state_change ev sess s) = mounted_ref s"
  "initializing_ref (on_auth_state_change ev sess s) = initializing_ref s"
  "session_checked_ref (on_auth_state_change ev sess s) = session_checked_ref s"
  by (cases ev; auto simp: on_auth_state_change_def session_user_event_def Let_def op_defs
      split: option.splits)+

lemma auth_event_after_check:
  "mounted_ref s \<Longrightarrow> no_check s \<Longrightarrow> auth_iff s \<Longrightarrow>
     no_check (on_auth_state_change ev sess s) \<and> auth_iff (on_auth_state_change ev sess s)"
  by (cases ev) (auto simp: on_auth_state_change_def session_user_event_def Let_def
      split: option.splits)

lemma step_keeps_unmounted: "\<not> mounted_ref s \<Longrightarrow> \<not> mounted_ref (step s e)"
proof (cases e)
  case (Resume i r)
  assume "\<not> mounted_ref s"
  with Resume show ?thesis
    using resume_frame [of "tasks s ! i" r "s\<lparr>tasks := remove_nth i (tasks s)\<rparr>"]
    by (auto split: option.splits)
qed (simp_all add: auth_event_frame mount_def check_session_def unmount_def sign_in_def sign_up_def
    sign_out_def refresh_session_def fetch_profile_def set_user_def set_profile_def op_defs)

lemma check_session_resume_boot:
  "mounted_ref s \<Longrightarrow> initializing_ref s \<Longrightarrow> tasks s = [] \<Longrightarrow> user s = None \<Longrightarrow>
     \<not> is_authenticated s \<Longrightarrow> polite_inv (check_session_resume c r s)"
  by (cases "(c, r, s)" rule: check_session_resume.cases)
     (auto intro!: polite_inv_intros(2) simp: auth_iff_def no_check_def op_defs)

lemma step_polite_inv:
  assumes inv: "polite_inv s" and m: "managed e" and p: "consumer_call e \<longrightarrow> session_checked_ref s"
  shows "polite_inv (step s e)"
proof (cases "mounted_ref s")
  case False
  then show ?thesis by (intro polite_inv_intros(1) step_keeps_unmounted)
next
  case mnt: True
  consider (fresh) "\<not> initializing_ref s" | (booting) "initializing_ref s" "\<not> session_checked_ref s"
    | (booted) "session_checked_ref s" by blast
  then show ?thesis
  proof cases
    case fresh
    with inv mnt have st: "tasks s = []" "\<not> session_checked_ref s" "user s = None"
      "\<not> is_authenticated s" by (simp_all add: polite_inv_def)
    show ?thesis
    proof (cases e)
      case Mount
      with st fresh mnt show ?thesis by (simp add: polite_inv_def mount_def check_session_def spawn_def)
    next
      case Unmount
      then show ?thesis by (simp add: polite_inv_intros(1) unmount_def)
    next
      case (Provider_event ev sess)
      have "step s e = s" using st(2) Provider_event by (intro step_provider_event_unbooted) simp_all
      with inv show ?thesis by simp
    next
      case (Resume i r)
      with st(1) inv show ?thesis by simp
    qed (use m p st(2) in simp_all)
  next
    case booting
    with inv mnt have st: "tasks s = [T_check_session None]" "user s = None" "\<not> is_authenticated s"
      by (simp_all add: polite_inv_def)
    show ?thesis
    proof (cases e)
      case Mount
      with booting inv show ?thesis by (simp add: mount_def)
    next
      case Unmount
      then show ?thesis by (simp add: polite_inv_intros(1) unmount_def)
    next
      case (Provider_event ev sess)
      have "step s e = s" using booting(2) Provider_event by (intro step_provider_event_unbooted) simp_all
      with inv show ?thesis by simp
    next
      case (Resume i r)
      show ?thesis
      proof (cases "i = 0")
        case True
        have "polite_inv (check_session_resume None r' (s\<lparr>tasks := []\<rparr>))" for r'
          using mnt booting st by (intro check_session_resume_boot) simp_all
        with Resume True st inv show ?thesis by (cases r) simp_all
      qed (use Resume st inv in simp)
    qed (use m p booting(2) in simp_all)
  next
    case booted
    with inv mnt have st: "initializing_ref s" "no_check s" "auth_iff s"
      by (simp_all add: polite_inv_def no_check_def auth_iff_def)
    show ?thesis
    proof (cases e)
      case Mount
      with booted inv st show ?thesis by (simp add: mount_def)
    next
      case Unmount
      then show ?thesis by (simp add: polite_inv_intros(1) unmount_def)
    next
      case (Provider_event ev sess)
      then show ?thesis
        using auth_event_after_check [OF mnt st(2,3), of ev sess] booted st
        by (auto intro!: polite_inv_intros(2) simp: auth_event_frame)
    next
      case (Resume i r)
      show ?thesis
      proof (cases "i < length (tasks s)")
        case True
        let ?s0 = "s\<lparr>tasks := remove_nth i (tasks s)\<rparr>"
        have t: "\<not> check_task (tasks s ! i)"
          using st(2) True by (auto simp: no_check_def list_ex_iff)
        have s0: "no_check ?s0" "auth_iff ?s0" "mounted_ref ?s0"
          using st(2,3) mnt set_remove_nth [of i "tasks s"] by (auto simp: no_check_def list_ex_iff)
        show ?thesis
        proof (cases "resume (tasks s ! i) r ?s0")
          case (Some s')
          from resume_after_check [OF Some t s0(3) s0(1) s0(2)] resume_frame [OF Some]
          have "session_checked_ref s'" "initializing_ref s'" "no_check s'" "auth_iff s'"
            using booted st by simp_all
          then have "polite_inv s'" by (rule polite_inv_intros(2))
          with Resume True Some show ?thesis by simp
        qed (use Resume True inv in simp)
      qed (use Resume inv in simp)
    qed (use booted st mnt m in \<open>auto intro!: polite_inv_intros(2) simp: sign_in_def sign_up_def
        sign_out_def refresh_session_def fetch_profile_def set_user_def set_profile_def
        spawn_def finish_def no_check_def auth_iff_def\<close>)
  qed
qed

lemma polite_reachable_inv: "polite_reachable c s \<Longrightarrow> polite_inv s"
proof (induction rule: polite_reachable.induct)
  case start
  then show ?case by (simp add: polite_inv_def init_sys_def)
next
  case (step s e)
  then show ?case by (simp add: step_polite_inv)
qed

lemma polite_trace_reachable: "polite_reachable True (run (init_sys True) polite_trace)"
proof -
  let ?s1 = "step (init_sys True) Mount"
  let ?s2 = "step ?s1 (Resume 0 (R_session (Session_ok None)))"
  let ?s3 = "step ?s2 Call_sign_in"
  have r1: "polite_reachable True ?s1" by (rule polite_reachable.step [OF polite_reachable.start]) simp_all
  have r2: "polite_reachable True ?s2" by (rule polite_reachable.step [OF r1]) simp_all
  have "session_checked_ref ?s2" by (simp add: init_sys_def mount_def check_session_def op_defs)
  then have r3: "polite_reachable True ?s3" by (intro polite_reachable.step [OF r2]) simp_all
  have "polite_reachable True (step ?s3 (Resume 0 (R_auth (Auth_ok (Some sample_sb_user)))))"
    by (rule polite_reachable.step [OF r3]) simp_all
  then show ?thesis by (simp add: polite_trace_def)
qed

subsection \<open>Property\<close>

text \<open>C20: if no consumer calls an action or \<open>fetchProfile\<close> before the initial
  session check has finished, and the raw setters are not used, then in every state of
  the mounted provider \<open>isAuthenticated\<close> holds exactly when there is a user, under
  every interleaving of replies and pushed auth events: the design's invariant, which
  the sign-in race and the raw setter break, holds for such consumers.\<close>

theorem polite_consumers_keep_auth_iff:
  "polite_reachable c s \<Longrightarrow> mounted_ref s \<Longrightarrow> (is_authenticated s \<longleftrightarrow> user s \<noteq> None)"
  using polite_reachable_inv by (auto simp: polite_inv_def)

theorem polite_consumers_keep_auth_iff_witness:
  "polite_reachable True (run (init_sys True) polite_trace) \<and>
   mounted_ref (run (init_sys True) polite_trace) \<and>
   is_authenticated (run (init_sys True) polite_trace) \<and>
   user (run (init_sys True) polite_trace) \<noteq> None"
proof -
  have h: "polite_reachable True (run (init_sys True) polite_trace)" by (rule polite_trace_reachable)
  have m: "mounted_ref (run (init_sys True) polite_trace)"
    by (simp add: polite_trace_def init_sys_def mount_def check_session_def sign_in_def op_defs)
  have a: "is_authenticated (run (init_sys True) polite_trace)"
    by (simp add: polite_trace_def init_sys_def mount_def check_session_def sign_in_def op_defs)
  show ?thesis using h m a polite_consumers_keep_auth_iff [OF h m] by blast
qed

end
