(* ===== verification/Auth_Typing.thy ===== *)
theory Auth_Typing
  imports Auth_Machine
begin

text \<open>
  The identities the provider holds are well formed. Every \<open>User\<close> value the
  context stores (the \<open>user\<close> state) or captures in a closure (the mount effect's
  \<open>user\<close>, the \<open>user\<close> a pending task's closure reads) is built by
  \<open>handleAuthUser\<close>, so it is well formed in the sense of \<open>wf_app_user\<close>, in every
  state the provider reaches through its own handlers. The raw setter \<open>setUser\<close>
  accepts any value and is outside this guarantee.
\<close>

definition users_wf :: "auth_sys \<Rightarrow> bool" where
  "users_wf s \<longleftrightarrow>
     pred_option wf_app_user (user s) \<and> pred_option wf_app_user (effect_user s) \<and>
     list_all (\<lambda>t. pred_option wf_app_user (task_closure t)) (tasks s)"

subsection \<open>Lemmas\<close>

lemma users_wf_ops [simp]:
  "users_wf (spawn t s) = (users_wf s \<and> pred_option wf_app_user (task_closure t))"
  "users_wf (finish r s) = users_wf s" "users_wf (action_finally s) = users_wf s"
  "users_wf (check_session_finally s) = users_wf s" "users_wf (fetch_profile_finally s) = users_wf s"
  "users_wf s \<Longrightarrow> users_wf (clear_session s)"
  "users_wf (s\<lparr>is_authenticated := b\<rparr>) = users_wf s" "users_wf (s\<lparr>loading := b\<rparr>) = users_wf s"
  "users_wf (s\<lparr>is_loading := b\<rparr>) = users_wf s" "users_wf (s\<lparr>profile := p\<rparr>) = users_wf s"
  "users_wf (s\<lparr>inserts := rs\<rparr>) = users_wf s"
  by (auto simp: users_wf_def op_defs)

lemma users_wf_captured:
  "users_wf s \<Longrightarrow> pred_option wf_app_user (user s)"
  "users_wf s \<Longrightarrow> pred_option wf_app_user (effect_user s)"
  by (simp_all add: users_wf_def)

lemma users_wf_handle:
  "users_wf s \<Longrightarrow> pred_option wf_app_user c \<Longrightarrow> users_wf (handle_auth_user c au s)"
  by (simp add: handle_auth_user_def users_wf_def spawn_def)

lemma users_wf_fetch:
  "users_wf s \<Longrightarrow> pred_option wf_app_user c \<Longrightarrow> users_wf (fetch_profile c i s)"
  by (simp add: fetch_profile_def)

lemma users_wf_fetch_resume:
  "users_wf s \<Longrightarrow> users_wf (fetch_profile_resume c i r s)"
  by (cases r) (auto simp: create_user_profile_def split: option.splits)

lemma users_wf_create_resume: "users_wf s \<Longrightarrow> users_wf (create_profile_resume r s)"
  by (induction r s rule: create_profile_resume.induct) simp_all

lemma resume_users_wf:
  "resume t r s = Some s' \<Longrightarrow> pred_option wf_app_user (task_closure t) \<Longrightarrow> users_wf s \<Longrightarrow>
     users_wf s'"
proof (induction t r s rule: resume.induct)
  case (1 c r s)
  then show ?case
    by (cases "(c, r, s)" rule: check_session_resume.cases) (auto intro: users_wf_handle)
next
  case (2 i c s)
  then show ?case by (auto intro: users_wf_fetch)
next
  case (5 c r s)
  then show ?case
    by (cases "(c, r, s)" rule: refresh_session_resume.cases) (auto intro: users_wf_handle)
next
  case (6 c r s)
  then show ?case by (cases "(c, r, s)" rule: sign_in_resume.cases) (auto intro: users_wf_handle)
next
  case (7 c r s)
  then show ?case by (cases "(c, r, s)" rule: sign_up_resume.cases) (auto intro: users_wf_handle)
next
  case (8 r s)
  then show ?case by (cases "(r, s)" rule: sign_out_resume.cases) auto
qed (auto intro: users_wf_fetch_resume users_wf_create_resume)

lemma users_wf_remove: "users_wf s \<Longrightarrow> users_wf (s\<lparr>tasks := remove_nth i (tasks s)\<rparr>)"
  using set_remove_nth [of i "tasks s"] by (auto simp: users_wf_def list_all_iff)

lemma users_wf_auth_event: "users_wf s \<Longrightarrow> users_wf (on_auth_state_change ev sess s)"
  by (cases ev) (auto simp: on_auth_state_change_def session_user_event_def Let_def
      intro: users_wf_handle users_wf_captured split: option.splits)

lemma step_users_wf:
  assumes "users_wf s" and "managed e"
  shows "users_wf (step s e)"
proof (cases e)
  case (Resume i r)
  show ?thesis
  proof (cases "i < length (tasks s)")
    case True
    then have "pred_option wf_app_user (task_closure (tasks s ! i))"
      using assms(1) by (simp add: users_wf_def list_all_length)
    moreover have "users_wf (s\<lparr>tasks := remove_nth i (tasks s)\<rparr>)" using assms(1) by (rule users_wf_remove)
    ultimately show ?thesis
      using Resume True assms(1) resume_users_wf [of "tasks s ! i" r] by (auto split: option.splits)
  qed (use Resume assms in simp)
next
  case (Provider_event ev sess)
  then show ?thesis using assms(1) by (simp add: users_wf_auth_event)
next
  case (Call_fetch_profile i)
  then show ?thesis using assms(1) by (simp add: users_wf_fetch users_wf_captured)
qed (use assms in \<open>auto simp: mount_def check_session_def unmount_def sign_in_def sign_up_def
    sign_out_def refresh_session_def users_wf_def spawn_def finish_def\<close>)

lemma reachable_users_wf: "reachable c s \<Longrightarrow> users_wf s"
proof (induction rule: reachable.induct)
  case start
  then show ?case by (simp add: users_wf_def init_sys_def)
next
  case (step s e)
  then show ?case by (simp add: step_users_wf)
qed

subsection \<open>Property\<close>

text \<open>C21: in every state the provider reaches through its own handlers, the user it
  holds is well formed: a non-empty username, the administrator role exactly for the
  administrator's e-mail, and an update time whenever there is a creation time.\<close>

theorem reachable_user_well_formed:
  "reachable c s \<Longrightarrow> user s = Some u \<Longrightarrow> wf_app_user u"
  using reachable_users_wf [of c s] by (simp add: users_wf_def)

theorem reachable_user_well_formed_witness:
  "reachable True (run (init_sys True) boot_trace) \<and>
   user (run (init_sys True) boot_trace) = Some (to_app_user sample_sb_user) \<and>
   wf_app_user (to_app_user sample_sb_user) \<and>
   role (to_app_user sample_sb_user) = Role_user \<and> username (to_app_user sample_sb_user) = ''reader''"
proof -
  have r: "reachable True (run (init_sys True) boot_trace)"
    by (rule reachable_run) (auto simp: boot_trace_def intro: reachable.start)
  have u: "user (run (init_sys True) boot_trace) = Some (to_app_user sample_sb_user)"
    by (simp add: boot_trace_def init_sys_def mount_def check_session_def op_defs)
  have f: "role (to_app_user sample_sb_user) = Role_user \<and> username (to_app_user sample_sb_user) = ''reader''"
    by (simp add: sample_sb_user_def to_app_user_def infer_role_def admin_email_def)
  show ?thesis using r u f reachable_user_well_formed [OF r u] by blast
qed

end
