(* ===== verification/Announcement.thy ===== *)
theory Announcement
  imports Prelude
begin

text \<open>
  The logic of \<open>src/src/components/AnnouncementForm.tsx\<close>: the form's state (lines
  13--19), its submission \<open>handleSubmit\<close> (lines 21--75) cut at the \<open>fetch\<close> into
  the synchronous part that validates and builds the request and the part that
  interprets the server's answer, the submit button's \<open>disabled\<close> condition (line
  199), and the type-to-style maps \<open>getTypeIcon\<close> and \<open>getTypeColor\<close> (lines
  77--105). The announcement type is a string, as in the source: the editing
  announcement is untyped (\<open>any\<close>) and the radio buttons set it \<open>as any\<close>. The
  messages in Chinese are constructors named after their meaning. Rendering is not
  modelled.
\<close>

record announcement =
  ann_id :: js_string
  ann_title :: "js_string option"
  ann_content :: "js_string option"
  ann_type :: "js_string option"

datatype form_msg =
    Empty_title_or_content
  | Server_message js_string
  | Http_status nat
  | Publish_failed
  | Error_message js_string

record form_state =
  title :: js_string
  content :: js_string
  atype :: js_string
  is_submitting :: bool
  error :: "form_msg option"
  editing :: "announcement option"

definition init_form :: "announcement option \<Rightarrow> form_state" where
  "init_form ed =
     \<lparr> title = js_or (Option.bind ed ann_title) [],
       content = js_or (Option.bind ed ann_content) [],
       atype = js_or (Option.bind ed ann_type) ''info'',
       is_submitting = False, error = None, editing = ed \<rparr>"

subsection \<open>The request\<close>

datatype http_method = POST | PUT

record request_body =
  body_id :: "js_string option"
  body_title :: js_string
  body_content :: js_string
  body_type :: js_string
  body_is_active :: bool

record request =
  req_url :: js_string
  req_method :: http_method
  req_body :: request_body

definition build_request :: "form_state \<Rightarrow> request" where
  "build_request f =
     \<lparr> req_url = ''/api/announcements'',
       req_method = (if editing f \<noteq> None then PUT else POST),
       req_body = \<lparr> body_id = map_option ann_id (editing f),
                    body_title = js_trim (title f), body_content = js_trim (content f),
                    body_type = atype f, body_is_active = True \<rparr> \<rparr>"

text \<open>The synchronous part of \<open>handleSubmit\<close>: the request it sends, if any.\<close>

definition submit_start :: "form_state \<Rightarrow> form_state \<times> request option" where
  "submit_start f =
     (if js_trim (title f) = [] \<or> js_trim (content f) = []
      then (f\<lparr>error := Some Empty_title_or_content\<rparr>, None)
      else (f\<lparr>is_submitting := True, error := None\<rparr>, Some (build_request f)))"

definition submit_disabled :: "form_state \<Rightarrow> bool" where
  "submit_disabled f \<longleftrightarrow> is_submitting f \<or> js_trim (title f) = [] \<or> js_trim (content f) = []"

subsection \<open>The server's answer\<close>

text \<open>
  \<open>fetch\<close> rejects (a \<open>TypeError\<close>, whose message is shown) or answers with the
  \<open>ok\<close> flag, the status and a body that parses as JSON (with a \<open>success\<close> flag
  and a \<open>message\<close>), or that is the JSON \<open>null\<close> (reading \<open>.message\<close>
  or \<open>.success\<close> of it throws a \<open>TypeError\<close>, whose message is shown), or that
  does not parse (the \<open>SyntaxError\<close>'s message). Any other JSON value reads
  \<open>success\<close> and \<open>message\<close> as \<open>undefined\<close>, which is \<open>Body_json False None\<close>.
\<close>

datatype reply_body = Body_invalid js_string | Body_json bool "js_string option" | Body_null js_string

datatype fetch_outcome = Fetch_rejected js_string | Http_response bool nat reply_body

fun submit_error :: "fetch_outcome \<Rightarrow> form_msg option" where
  "submit_error (Fetch_rejected m) = Some (Error_message m)"
| "submit_error (Http_response False status b) =
     Some (case b of
             Body_json _ m \<Rightarrow> if js_truthy m then Server_message (the m) else Http_status status
           | Body_invalid _ \<Rightarrow> Http_status status
           | Body_null te \<Rightarrow> Error_message te)"
| "submit_error (Http_response True status (Body_invalid m)) = Some (Error_message m)"
| "submit_error (Http_response True status (Body_null te)) = Some (Error_message te)"
| "submit_error (Http_response True status (Body_json succ m)) =
     (if succ then None
      else Some (if js_truthy m then Server_message (the m) else Publish_failed))"

text \<open>The rest of \<open>handleSubmit\<close>: the new state and whether \<open>onSuccess\<close> ran.\<close>

definition submit_finish :: "form_state \<Rightarrow> fetch_outcome \<Rightarrow> form_state \<times> bool" where
  "submit_finish f r =
     (case submit_error r of
        None \<Rightarrow> (f\<lparr>is_submitting := False\<rparr>, True)
      | Some m \<Rightarrow> (f\<lparr>error := Some m, is_submitting := False\<rparr>, False))"

subsection \<open>Type styles\<close>

datatype icon = Icon_info | Icon_alert_triangle | Icon_check_circle | Icon_alert_circle

definition get_type_icon :: "js_string \<Rightarrow> icon" where
  "get_type_icon t =
     (if t = ''info'' then Icon_info
      else if t = ''warning'' then Icon_alert_triangle
      else if t = ''success'' then Icon_check_circle
      else if t = ''error'' then Icon_alert_circle
      else Icon_info)"

definition get_type_color :: "js_string \<Rightarrow> js_string" where
  "get_type_color t =
     (if t = ''info'' then ''text-blue-600 bg-blue-50 border-blue-200''
      else if t = ''warning'' then ''text-yellow-600 bg-yellow-50 border-yellow-200''
      else if t = ''success'' then ''text-green-600 bg-green-50 border-green-200''
      else if t = ''error'' then ''text-red-600 bg-red-50 border-red-200''
      else ''text-blue-600 bg-blue-50 border-blue-200'')"

definition announcement_types :: "js_string list" where
  "announcement_types = [''info'', ''warning'', ''success'', ''error'']"

definition sample_form :: form_state where
  "sample_form = init_form (Some \<lparr> ann_id = ''a-7'', ann_title = Some ''  Maintenance '',
     ann_content = Some ''Tonight 22:00'', ann_type = Some ''warning'' \<rparr>)"

subsection \<open>Lemmas\<close>

lemma sample_form_simps [simp]:
  "title sample_form = ''  Maintenance ''" "content sample_form = ''Tonight 22:00''"
  "atype sample_form = ''warning''" "\<not> is_submitting sample_form"
  "editing sample_form \<noteq> None"
  by (simp_all add: sample_form_def init_form_def)

lemma js_trim_sample [simp]:
  "js_trim ''  Maintenance '' = ''Maintenance''" "js_trim ''Tonight 22:00'' = ''Tonight 22:00''"
  "js_trim '' '' = []"
  by (simp_all add: js_trim_def js_is_space_def)

text \<open>C26: a submission whose title or content is empty or only white space once
  trimmed sends no request and only sets the empty-fields message: the fields, the
  submitting flag and the edited announcement are left as they were.\<close>

theorem submit_blank_rejected:
  assumes "js_trim (title f) = [] \<or> js_trim (content f) = []"
  shows "submit_start f = (f\<lparr>error := Some Empty_title_or_content\<rparr>, None)"
  using assms by (simp add: submit_start_def)

theorem submit_blank_rejected_witness:
  "js_trim (title (sample_form\<lparr>title := '' ''\<rparr>)) = [] \<and>
   snd (submit_start (sample_form\<lparr>title := '' ''\<rparr>)) = None \<and>
   error (fst (submit_start (sample_form\<lparr>title := '' ''\<rparr>))) = Some Empty_title_or_content"
proof -
  have h: "js_trim (title (sample_form\<lparr>title := '' ''\<rparr>)) = []" by simp
  show ?thesis using h submit_blank_rejected [of "sample_form\<lparr>title := '' ''\<rparr>"] by simp
qed

text \<open>C25: a submission with a non-blank title and content marks the form submitting,
  clears the error and sends one request whose title and content are the trimmed
  fields, with the method \<open>PUT\<close> and the announcement's id exactly when an
  announcement is being edited, and \<open>POST\<close> without an id otherwise.\<close>

theorem submit_sends_trimmed_request:
  assumes "js_trim (title f) \<noteq> []" and "js_trim (content f) \<noteq> []"
  shows "submit_start f = (f\<lparr>is_submitting := True, error := None\<rparr>, Some (build_request f)) \<and>
         body_title (req_body (build_request f)) = js_trim (title f) \<and>
         body_content (req_body (build_request f)) = js_trim (content f) \<and>
         (req_method (build_request f) = PUT \<longleftrightarrow> editing f \<noteq> None) \<and>
         (body_id (req_body (build_request f)) \<noteq> None \<longleftrightarrow> editing f \<noteq> None)"
  using assms by (simp add: submit_start_def build_request_def)

theorem submit_sends_trimmed_request_witness:
  "js_trim (title sample_form) \<noteq> [] \<and> js_trim (content sample_form) \<noteq> [] \<and>
   body_title (req_body (build_request sample_form)) = ''Maintenance'' \<and>
   req_method (build_request sample_form) = PUT"
proof -
  have h: "js_trim (title sample_form) \<noteq> []" "js_trim (content sample_form) \<noteq> []" by simp_all
  show ?thesis using h submit_sends_trimmed_request [OF h] by simp
qed

text \<open>The submit button is enabled only when a click sends a request: when it is
  not disabled, the synchronous part of \<open>handleSubmit\<close> passes validation.\<close>

theorem enabled_button_submits:
  "\<not> submit_disabled f \<Longrightarrow> snd (submit_start f) = Some (build_request f)"
  by (simp add: submit_disabled_def submit_start_def)

theorem enabled_button_submits_witness:
  "\<not> submit_disabled sample_form \<and> snd (submit_start sample_form) = Some (build_request sample_form)"
proof -
  have h: "\<not> submit_disabled sample_form" by (simp add: submit_disabled_def)
  show ?thesis using h enabled_button_submits [OF h] by blast
qed

text \<open>C27: whatever the server answers, the form stops submitting; \<open>onSuccess\<close> runs
  exactly when the response is \<open>ok\<close> and its JSON body has a true \<open>success\<close>, and
  otherwise an error message is shown.\<close>

theorem submit_finish_outcome:
  "\<not> is_submitting (fst (submit_finish f r)) \<and>
   (snd (submit_finish f r) \<longleftrightarrow> (\<exists>st m. r = Http_response True st (Body_json True m))) \<and>
   error (fst (submit_finish f r)) =
     (case submit_error r of None \<Rightarrow> error f | Some m \<Rightarrow> Some m)"
  by (cases r rule: submit_error.cases) (auto simp: submit_finish_def split: option.splits)

text \<open>The four announcement types get four different colour classes and four
  different icons.\<close>

theorem type_styles_distinct:
  "distinct (map get_type_color announcement_types) \<and>
   distinct (map get_type_icon announcement_types)"
  by (simp add: announcement_types_def get_type_color_def get_type_icon_def)

text \<open>A type that is none of the four falls back to the style of \<open>info\<close>, in
  both maps.\<close>

theorem unknown_type_styled_as_info:
  "t \<notin> set announcement_types \<Longrightarrow>
     get_type_color t = get_type_color ''info'' \<and> get_type_icon t = get_type_icon ''info''"
  by (simp add: announcement_types_def get_type_color_def get_type_icon_def)

theorem unknown_type_styled_as_info_witness:
  "''urgent'' \<notin> set announcement_types \<and>
   get_type_color ''urgent'' = ''text-blue-600 bg-blue-50 border-blue-200'' \<and>
   get_type_icon ''urgent'' = Icon_info"
proof -
  have h: "''urgent'' \<notin> set announcement_types" by (simp add: announcement_types_def)
  show ?thesis using h unknown_type_styled_as_info [OF h]
    by (simp add: get_type_color_def get_type_icon_def)
qed

end
