(* ===== verification/Announcement_UI.thy ===== *)
theory Announcement_UI
  imports Announcement
begin

text \<open>
  The form of \<open>src/src/components/AnnouncementForm.tsx\<close> as the user drives it
  (lines 107--205): typing in the title and content fields, picking a type, clicking
  the submit or the cancel button, and the server answering a submission. The
  rendered attributes that gate these events are part of the model: the submit button
  is disabled by the condition of line 199 (so neither a click nor an implicit
  submission by the Enter key runs \<open>handleSubmit\<close> then), the cancel button while
  submitting (line 193), and the fields carry \<open>maxLength\<close> 100 and 1000 (lines 131
  and 148), which the browser applies to what the user types. Besides the form's
  state the model records the submissions whose \<open>fetch\<close> has not been answered
  yet, and how often \<open>onSuccess\<close> and \<open>onCancel\<close> ran.
\<close>

record form_ui =
  form :: form_state
  in_flight :: "request list"
  success_calls :: nat
  cancel_calls :: nat

definition init_ui :: "announcement option \<Rightarrow> form_ui" where
  "init_ui ed = \<lparr> form = init_form ed, in_flight = [], success_calls = 0, cancel_calls = 0 \<rparr>"

datatype ui_event =
    Edit_title js_string
  | Edit_content js_string
  | Pick_type js_string
  | Click_submit
  | Server_answer fetch_outcome
  | Click_cancel

definition title_max :: nat where "title_max = 100"

definition content_max :: nat where "content_max = 1000"

text \<open>A click on the submit button, or the Enter key in the title field: nothing when
  the button is disabled, \<open>handleSubmit\<close> up to its \<open>fetch\<close> otherwise.\<close>

definition click_submit :: "form_ui \<Rightarrow> form_ui" where
  "click_submit u =
     (if submit_disabled (form u) then u
      else (case submit_start (form u) of
              (f, None) \<Rightarrow> u\<lparr>form := f\<rparr>
            | (f, Some rq) \<Rightarrow> u\<lparr>form := f, in_flight := in_flight u @ [rq]\<rparr>))"

text \<open>The oldest pending \<open>fetch\<close> is answered: the rest of \<open>handleSubmit\<close> runs on
  the current state (its setters do not depend on the captured one).\<close>

definition server_answer :: "fetch_outcome \<Rightarrow> form_ui \<Rightarrow> form_ui" where
  "server_answer r u =
     (case in_flight u of
        [] \<Rightarrow> u
      | rq # rest \<Rightarrow>
          (case submit_finish (form u) r of
             (f, ok) \<Rightarrow> u\<lparr>form := f, in_flight := rest,
                          success_calls := success_calls u + (if ok then 1 else 0)\<rparr>))"

definition click_cancel :: "form_ui \<Rightarrow> form_ui" where
  "click_cancel u = (if is_submitting (form u) then u else u\<lparr>cancel_calls := cancel_calls u + 1\<rparr>)"

fun ui_step :: "form_ui \<Rightarrow> ui_event \<Rightarrow> form_ui" where
  "ui_step u (Edit_title v) = u\<lparr>form := (form u)\<lparr>title := v\<rparr>\<rparr>"
| "ui_step u (Edit_content v) = u\<lparr>form := (form u)\<lparr>content := v\<rparr>\<rparr>"
| "ui_step u (Pick_type t) = u\<lparr>form := (form u)\<lparr>atype := t\<rparr>\<rparr>"
| "ui_step u Click_submit = click_submit u"
| "ui_step u (Server_answer r) = server_answer r u"
| "ui_step u Click_cancel = click_cancel u"

text \<open>What the browser lets the user do: type at most \<open>maxLength\<close> characters and
  pick one of the four radio values.\<close>

fun browser_ok :: "ui_event \<Rightarrow> bool" where
  "browser_ok (Edit_title v) = (length v \<le> title_max)"
| "browser_ok (Edit_content v) = (length v \<le> content_max)"
| "browser_ok (Pick_type t) = (t \<in> set announcement_types)"
| "browser_ok e = True"

inductive ui_reachable :: "announcement option \<Rightarrow> form_ui \<Rightarrow> bool" for ed where
  start: "ui_reachable ed (init_ui ed)"
| step: "ui_reachable ed u \<Longrightarrow> browser_ok e \<Longrightarrow> ui_reachable ed (ui_step u e)"

definition ui_inv :: "form_ui \<Rightarrow> bool" where
  "ui_inv u \<longleftrightarrow> length (in_flight u) \<le> 1 \<and> (is_submitting (form u) \<longleftrightarrow> in_flight u \<noteq> [])"

subsection \<open>What is rendered\<close>

datatype submit_label = Label_updating | Label_publishing | Label_update | Label_publish

text \<open>The submit button's text (line 202).\<close>

definition submit_label :: "form_state \<Rightarrow> submit_label" where
  "submit_label f =
     (if is_submitting f then (if editing f \<noteq> None then Label_updating else Label_publishing)
      else (if editing f \<noteq> None then Label_update else Label_publish))"

datatype type_label = Label_info | Label_warning | Label_success | Label_error | Label_raw js_string

text \<open>The caption of a type's radio button (lines 177--180).\<close>

definition type_label :: "js_string \<Rightarrow> type_label" where
  "type_label t =
     (if t = ''info'' then Label_info
      else if t = ''warning'' then Label_warning
      else if t = ''success'' then Label_success
      else if t = ''error'' then Label_error
      else Label_raw t)"

text \<open>The class of a type's radio button (lines 162--164): the type's colours when it
  is the selected one.\<close>

definition type_option_class :: "form_state \<Rightarrow> js_string \<Rightarrow> js_string" where
  "type_option_class f t = (if atype f = t then get_type_color t else ''border-gray-200'')"

text \<open>The character counters under the fields (lines 134 and 151).\<close>

definition counters :: "form_state \<Rightarrow> nat \<times> nat" where
  "counters f = (length (title f), length (content f))"

subsection \<open>Lemmas\<close>

lemma ui_inv_init: "ui_inv (init_ui ed)"
  by (simp add: ui_inv_def init_ui_def init_form_def)

lemma ui_inv_click_submit: "ui_inv u \<Longrightarrow> ui_inv (click_submit u)"
  by (auto simp: click_submit_def submit_disabled_def submit_start_def ui_inv_def)

lemma ui_inv_server_answer: "ui_inv u \<Longrightarrow> ui_inv (server_answer r u)"
  by (cases "in_flight u")
     (auto simp: server_answer_def submit_finish_def ui_inv_def split: option.splits)

lemma ui_inv_step: "ui_inv u \<Longrightarrow> ui_inv (ui_step u e)"
  by (cases e)
     (simp_all add: ui_inv_click_submit ui_inv_server_answer click_cancel_def, simp_all add: ui_inv_def)

lemma ui_reachable_inv: "ui_reachable ed u \<Longrightarrow> ui_inv u"
  by (induction rule: ui_reachable.induct) (simp_all add: ui_inv_init ui_inv_step)

lemma ui_step_fields [simp]:
  "title (form (click_submit u)) = title (form u)" "content (form (click_submit u)) = content (form u)"
  "title (form (server_answer r u)) = title (form u)"
  "content (form (server_answer r u)) = content (form u)"
  "form (click_cancel u) = form u"
  by (auto simp: click_submit_def submit_start_def server_answer_def submit_finish_def
      click_cancel_def split: list.splits option.splits)

lemma ui_reachable_click_submit: "ui_reachable ed u \<Longrightarrow> ui_reachable ed (click_submit u)"
  using ui_reachable.step [of ed u Click_submit] by simp

definition sample_ui :: form_ui where
  "sample_ui = click_submit (init_ui (editing sample_form))"

lemma sample_ui_simps:
  "ui_reachable (editing sample_form) sample_ui"
  "in_flight sample_ui = [build_request sample_form]" "is_submitting (form sample_ui)"
proof -
  show "ui_reachable (editing sample_form) sample_ui"
    unfolding sample_ui_def by (rule ui_reachable_click_submit) (rule ui_reachable.start)
  have "init_form (editing sample_form) = sample_form"
    by (simp add: sample_form_def init_form_def)
  then show "in_flight sample_ui = [build_request sample_form]" "is_submitting (form sample_ui)"
    by (simp_all add: sample_ui_def init_ui_def click_submit_def submit_disabled_def submit_start_def)
qed

subsection \<open>Properties\<close>

text \<open>C28: in every state the user can drive the form into, at most one submission is
  waiting for the server, and the form shows ``submitting'' exactly when one is.\<close>

theorem form_single_submission:
  "ui_reachable ed u \<Longrightarrow>
     length (in_flight u) \<le> 1 \<and> (is_submitting (form u) \<longleftrightarrow> in_flight u \<noteq> [])"
  using ui_reachable_inv by (simp add: ui_inv_def)

theorem form_single_submission_witness:
  "ui_reachable (editing sample_form) sample_ui \<and> length (in_flight sample_ui) = 1 \<and>
   is_submitting (form sample_ui)"
proof -
  have h: "ui_reachable (editing sample_form) sample_ui" by (rule sample_ui_simps)
  show ?thesis using h form_single_submission [OF h] sample_ui_simps by simp
qed

text \<open>C29: while a submission waits for the server, clicking submit (or pressing Enter)
  sends no second request and clicking cancel does not run \<open>onCancel\<close>: both
  buttons are disabled.\<close>

theorem form_buttons_inert_while_pending:
  "ui_reachable ed u \<Longrightarrow> in_flight u \<noteq> [] \<Longrightarrow>
     ui_step u Click_submit = u \<and> ui_step u Click_cancel = u"
  using ui_reachable_inv [of ed u]
  by (simp add: ui_inv_def click_submit_def submit_disabled_def click_cancel_def)

theorem form_buttons_inert_while_pending_witness:
  "ui_reachable (editing sample_form) sample_ui \<and> in_flight sample_ui \<noteq> [] \<and>
   ui_step sample_ui Click_submit = sample_ui \<and> ui_step sample_ui Click_cancel = sample_ui"
proof -
  have h: "ui_reachable (editing sample_form) sample_ui" "in_flight sample_ui \<noteq> []"
    by (simp_all add: sample_ui_simps)
  show ?thesis using h form_buttons_inert_while_pending [OF h] by blast
qed

text \<open>If the announcement being edited fits the fields' limits, the character
  counters never exceed 100 and 1000, whatever the user does: only typing changes the
  fields, and the browser stops typing at \<open>maxLength\<close>. (An announcement whose
  stored title is longer starts, and may be submitted, beyond the limit: nothing in
  \<open>handleSubmit\<close> checks the length.)\<close>

theorem form_counters_bounded:
  assumes "ui_reachable ed u"
    and "length (title (init_form ed)) \<le> title_max" and "length (content (init_form ed)) \<le> content_max"
  shows "fst (counters (form u)) \<le> title_max \<and> snd (counters (form u)) \<le> content_max"
  using assms
proof (induction rule: ui_reachable.induct)
  case start
  then show ?case by (simp add: init_ui_def counters_def)
next
  case (step u e)
  then show ?case by (cases e) (simp_all add: counters_def)
qed

theorem form_counters_bounded_witness:
  "ui_reachable (editing sample_form) sample_ui \<and>
   length (title (init_form (editing sample_form))) \<le> title_max \<and>
   length (content (init_form (editing sample_form))) \<le> content_max \<and>
   counters (form sample_ui) = (14, 13)"
proof -
  have e: "init_form (editing sample_form) = sample_form"
    by (simp add: sample_form_def init_form_def)
  have h: "ui_reachable (editing sample_form) sample_ui"
    "length (title (init_form (editing sample_form))) \<le> title_max"
    "length (content (init_form (editing sample_form))) \<le> content_max"
    by (simp_all add: sample_ui_simps e title_max_def content_max_def)
  have c: "counters (form sample_ui) = (14, 13)"
    by (simp add: sample_ui_def init_ui_def e counters_def)
  show ?thesis using h c form_counters_bounded [OF h] by blast
qed

end
