(* ===== verification/Demo_Data.thy ===== *)
theory Demo_Data
  imports Auth_Types
begin

text \<open>
  \<open>src/scripts/setup/generate-demo-data.js\<close> builds sample data (lines 12--130) and
  generates a browser script (lines 135--171) that stores each collection of the data
  as JSON under \<open>academic_rating_mock_<collection>\<close> in \<open>localStorage\<close> and
  then stores an object of statistics under \<open>academic_rating_mock_stats\<close>. The model
  keeps the fields of the records that relate them (ids, references, e-mails, roles,
  scores, view counts); titles, abstracts, dates and the like are left out, since
  nothing reads them. \<open>localStorage\<close> is a map from keys to stored values; a stored
  value is the typed content of the JSON text (\<open>JSON.stringify\<close> is not modelled).
  Writing the file and printing are not modelled.
\<close>

record paper =
  paper_id :: js_string
  view_count :: nat
  created_by :: js_string

record demo_user =
  du_id :: js_string
  du_email :: js_string
  du_username :: js_string
  du_role :: role

record rating =
  rating_id :: js_string
  rating_user :: js_string
  rating_paper :: js_string
  innovation_score :: nat
  methodology_score :: nat
  practicality_score :: nat
  overall_score :: nat

record comment =
  comment_id :: js_string
  comment_user :: js_string
  comment_paper :: js_string

record demo_data =
  papers :: "paper list"
  users :: "demo_user list"
  ratings :: "rating list"
  comments :: "comment list"

definition sample_data :: demo_data where
  "sample_data =
     \<lparr> papers =
         [\<lparr> paper_id = ''paper-1'', view_count = 1250, created_by = ''mock-admin-001'' \<rparr>,
          \<lparr> paper_id = ''paper-2'', view_count = 980, created_by = ''mock-admin-001'' \<rparr>,
          \<lparr> paper_id = ''paper-3'', view_count = 2100, created_by = ''mock-admin-001'' \<rparr>],
       users =
         [\<lparr> du_id = ''mock-admin-001'', du_email = ''admin@test.edu.cn'',
            du_username = ''admin'', du_role = Role_admin \<rparr>,
          \<lparr> du_id = ''mock-user-001'', du_email = ''user@test.edu.cn'',
            du_username = ''testuser'', du_role = Role_user \<rparr>],
       ratings =
         [\<lparr> rating_id = ''rating-1'', rating_user = ''mock-admin-001'', rating_paper = ''paper-1'',
            innovation_score = 5, methodology_score = 5, practicality_score = 4,
            overall_score = 5 \<rparr>,
          \<lparr> rating_id = ''rating-2'', rating_user = ''mock-user-001'', rating_paper = ''paper-2'',
            innovation_score = 4, methodology_score = 5, practicality_score = 4,
            overall_score = 4 \<rparr>],
       comments =
         [\<lparr> comment_id = ''comment-1'', comment_user = ''mock-admin-001'',
            comment_paper = ''paper-1'' \<rparr>,
          \<lparr> comment_id = ''comment-2'', comment_user = ''mock-user-001'',
            comment_paper = ''paper-2'' \<rparr>,
          \<lparr> comment_id = ''comment-3'', comment_user = ''mock-admin-001'',
            comment_paper = ''paper-3'' \<rparr>] \<rparr>"

subsection \<open>The generated browser script\<close>

record stats =
  total_papers :: nat
  total_users :: nat
  total_ratings :: nat
  total_comments :: nat
  total_visits :: nat
  today_visits :: nat

datatype stored =
    Stored_papers "paper list"
  | Stored_users "demo_user list"
  | Stored_ratings "rating list"
  | Stored_comments "comment list"
  | Stored_stats stats

text \<open>\<open>Object.entries(demoData)\<close>, in the order the object literal declares its keys.\<close>

definition entries :: "demo_data \<Rightarrow> (js_string \<times> stored) list" where
  "entries d =
     [(''papers'', Stored_papers (papers d)), (''users'', Stored_users (users d)),
      (''ratings'', Stored_ratings (ratings d)), (''comments'', Stored_comments (comments d))]"

definition storage_key :: "js_string \<Rightarrow> js_string" where
  "storage_key k = ''academic_rating_mock_'' @ k"

definition make_stats :: "demo_data \<Rightarrow> stats" where
  "make_stats d =
     \<lparr> total_papers = length (papers d), total_users = length (users d),
       total_ratings = length (ratings d), total_comments = length (comments d),
       total_visits = 1234, today_visits = 56 \<rparr>"

definition set_items :: "(js_string \<rightharpoonup> stored) \<Rightarrow> (js_string \<times> stored) list \<Rightarrow> (js_string \<rightharpoonup> stored)" where
  "set_items m es = fold (\<lambda>(k, v) m. m(storage_key k \<mapsto> v)) es m"

definition init_demo_storage :: "(js_string \<rightharpoonup> stored) \<Rightarrow> demo_data \<Rightarrow> (js_string \<rightharpoonup> stored)" where
  "init_demo_storage m d =
     (set_items m (entries d))(storage_key ''stats'' \<mapsto> Stored_stats (make_stats d))"

definition demo_keys :: "js_string list" where
  "demo_keys = map storage_key [''papers'', ''users'', ''ratings'', ''comments'', ''stats'']"

subsection \<open>Well-formedness of the data\<close>

definition refs_ok :: "demo_data \<Rightarrow> bool" where
  "refs_ok d \<longleftrightarrow>
     list_all (\<lambda>r. rating_user r \<in> set (map du_id (users d)) \<and>
                   rating_paper r \<in> set (map paper_id (papers d))) (ratings d) \<and>
     list_all (\<lambda>c. comment_user c \<in> set (map du_id (users d)) \<and>
                   comment_paper c \<in> set (map paper_id (papers d))) (comments d) \<and>
     list_all (\<lambda>p. created_by p \<in> set (map du_id (users d))) (papers d)"

definition score_ok :: "nat \<Rightarrow> bool" where
  "score_ok n \<longleftrightarrow> 1 \<le> n \<and> n \<le> 5"

definition scores_ok :: "demo_data \<Rightarrow> bool" where
  "scores_ok d \<longleftrightarrow>
     list_all (\<lambda>r. score_ok (innovation_score r) \<and> score_ok (methodology_score r) \<and>
                   score_ok (practicality_score r) \<and> score_ok (overall_score r)) (ratings d)"

definition ids_distinct :: "demo_data \<Rightarrow> bool" where
  "ids_distinct d \<longleftrightarrow>
     distinct (map paper_id (papers d)) \<and> distinct (map du_id (users d)) \<and>
     distinct (map rating_id (ratings d)) \<and> distinct (map comment_id (comments d))"

subsection \<open>What the generated script prints\<close>

text \<open>The console lines of the browser script (lines 141, 149, 163, 165--170); the
  Chinese texts are constructors, the interpolated values their arguments.\<close>

datatype script_line =
    Script_start
  | Initialized js_string nat
  | Stats_initialized
  | Init_done
  | Overview_heading
  | Overview_papers nat
  | Overview_users nat
  | Overview_ratings nat
  | Overview_comments nat

text \<open>\<open>items.length\<close> of a collection (line 149); the statistics object is never an
  entry of \<open>demoData\<close>.\<close>

fun stored_length :: "stored \<Rightarrow> nat" where
  "stored_length (Stored_papers ps) = length ps"
| "stored_length (Stored_users us) = length us"
| "stored_length (Stored_ratings rs) = length rs"
| "stored_length (Stored_comments cs) = length cs"
| "stored_length (Stored_stats st) = 0"

text \<open>Running the browser script on a storage: the storage it leaves and the lines
  it prints.\<close>

definition run_client_script ::
  "(js_string \<rightharpoonup> stored) \<Rightarrow> demo_data \<Rightarrow> (js_string \<rightharpoonup> stored) \<times> script_line list" where
  "run_client_script m d =
     (init_demo_storage m d,
      [Script_start] @ map (\<lambda>(k, v). Initialized k (stored_length v)) (entries d) @
      [Stats_initialized, Init_done, Overview_heading,
       Overview_papers (length (papers d)), Overview_users (length (users d)),
       Overview_ratings (length (ratings d)), Overview_comments (length (comments d))])"

subsection \<open>The generator\<close>

text \<open>
  The generator embeds the data in the script's text with \<open>JSON.stringify\<close> (line
  143); the script's text is modelled by the data it embeds, so running the written
  script is running \<open>run_client_script\<close> on that data. The script is written with
  \<open>path.join(__dirname, 'public', 'init-demo-data.js')\<close> (line 174), where
  \<open>__dirname\<close> is the directory of the generator, \<open>scripts/setup\<close>.
\<close>

datatype client_script = Client_script demo_data

fun script_data :: "client_script \<Rightarrow> demo_data" where
  "script_data (Client_script d) = d"

definition script_dir :: js_string where
  "script_dir = ''scripts/setup''"

text \<open>\<open>path.join\<close> on segments without \<open>.\<close>, \<open>..\<close> or empty parts: the
  segments separated by \<open>/\<close>.\<close>

fun path_join :: "js_string list \<Rightarrow> js_string" where
  "path_join [] = ''.''"
| "path_join [x] = x"
| "path_join (x # xs) = x @ ''/'' @ path_join xs"

text \<open>The generator's console lines (lines 132, 176--192): the fixed texts in Chinese
  are constructors, the usage steps numbered as printed.\<close>

datatype gen_line =
    Gen_start
  | Gen_written js_string
  | Gen_blank
  | Gen_usage_heading
  | Gen_usage_step nat
  | Gen_console_hint
  | Gen_script client_script
  | Gen_done
  | Gen_location js_string
  | Gen_url js_string

text \<open>\<open>fs.writeFileSync\<close> (line 174) creates the file but not its directory: when
  the directory is missing it throws \<open>ENOENT\<close>. The file system is given by the
  list of directories that exist; a written file is its path and its contents.\<close>

datatype gen_error = Enoent js_string

definition write_file ::
  "js_string list \<Rightarrow> js_string list \<Rightarrow> client_script \<Rightarrow> gen_error + (js_string \<times> client_script)" where
  "write_file dirs segs sc =
     (if path_join (butlast segs) \<in> set dirs then Inr (path_join segs, sc)
      else Inl (Enoent (path_join segs)))"

text \<open>The generator as a whole: the start line (132), then the write (174); nothing
  catches its exception, so on \<open>ENOENT\<close> the script stops with the start line as its
  only output (\<open>Inl\<close>); otherwise it prints lines 176--192 (\<open>Inr\<close>, with the
  files written).\<close>

definition generate :: "js_string list \<Rightarrow> demo_data \<Rightarrow>
    (gen_error \<times> gen_line list) + ((js_string \<times> client_script) list \<times> gen_line list)" where
  "generate dirs d =
     (case write_file dirs [script_dir, ''public'', ''init-demo-data.js''] (Client_script d) of
        Inl e \<Rightarrow> Inl (e, [Gen_start])
      | Inr f \<Rightarrow> Inr ([f],
          [Gen_start, Gen_written ''public/init-demo-data.js'', Gen_blank, Gen_usage_heading]
          @ map Gen_usage_step [1, 2, 3, 4, 5, 6] @
          [Gen_blank, Gen_console_hint, Gen_blank, Gen_script (Client_script d), Gen_done,
           Gen_location ''public/init-demo-data.js'', Gen_url ''https://your-domain.com/init-demo-data.js'']))"

text \<open>The files a run of the generator leaves behind.\<close>

fun written_files :: "'e + ('f list \<times> 'l) \<Rightarrow> 'f list" where
  "written_files (Inl _) = []"
| "written_files (Inr (fs, _)) = fs"

text \<open>The directories of the script tree as the sources have it: there is no
  \<open>scripts/setup/public\<close>.\<close>

definition source_dirs :: "js_string list" where
  "source_dirs = [''scripts'', ''scripts/setup'', ''scripts/test'']"

subsection \<open>Lemmas\<close>

lemma storage_key_inj [simp]: "(storage_key a = storage_key b) = (a = b)"
  by (simp add: storage_key_def)

lemma init_demo_storage_eq:
  "init_demo_storage m d =
     m(storage_key ''papers'' \<mapsto> Stored_papers (papers d),
       storage_key ''users'' \<mapsto> Stored_users (users d),
       storage_key ''ratings'' \<mapsto> Stored_ratings (ratings d),
       storage_key ''comments'' \<mapsto> Stored_comments (comments d),
       storage_key ''stats'' \<mapsto> Stored_stats (make_stats d))"
  by (simp add: init_demo_storage_def set_items_def entries_def)

text \<open>After the generated script runs, reading back each collection's key gives
  exactly that collection, and the statistics key gives the counts of the four
  collections, whatever the storage held before.\<close>

theorem demo_storage_roundtrip:
  "init_demo_storage m d (storage_key ''papers'') = Some (Stored_papers (papers d)) \<and>
   init_demo_storage m d (storage_key ''users'') = Some (Stored_users (users d)) \<and>
   init_demo_storage m d (storage_key ''ratings'') = Some (Stored_ratings (ratings d)) \<and>
   init_demo_storage m d (storage_key ''comments'') = Some (Stored_comments (comments d)) \<and>
   init_demo_storage m d (storage_key ''stats'') =
     Some (Stored_stats \<lparr> total_papers = length (papers d), total_users = length (users d),
       total_ratings = length (ratings d), total_comments = length (comments d),
       total_visits = 1234, today_visits = 56 \<rparr>)"
  by (simp add: init_demo_storage_eq make_stats_def)

text \<open>The script writes no key but its five: every other entry of the storage
  is left as it was.\<close>

theorem demo_storage_frame:
  "k \<notin> set demo_keys \<Longrightarrow> init_demo_storage m d k = m k"
  by (simp add: init_demo_storage_eq demo_keys_def)

theorem demo_storage_frame_witness:
  "''theme'' \<notin> set demo_keys \<and>
   init_demo_storage [''theme'' \<mapsto> Stored_users []] sample_data ''theme'' = Some (Stored_users [])"
proof -
  have h: "''theme'' \<notin> set demo_keys" by (simp add: demo_keys_def storage_key_def)
  show ?thesis using h demo_storage_frame [OF h, of "[''theme'' \<mapsto> Stored_users []]" sample_data]
    by simp
qed

text \<open>The five storage keys are pairwise different, so no write of the script
  overwrites another.\<close>

theorem demo_keys_distinct: "distinct demo_keys"
  by (simp add: demo_keys_def storage_key_def)

text \<open>The sample data is well formed: every rating and comment refers to a user
  and a paper of the data, every paper's creator is a user of the data, every score
  is between 1 and 5, and the ids of each collection are distinct.\<close>

theorem sample_data_well_formed:
  "refs_ok sample_data \<and> scores_ok sample_data \<and> ids_distinct sample_data"
  by (simp add: refs_ok_def scores_ok_def score_ok_def ids_distinct_def sample_data_def)

text \<open>C31: the script the generator writes, run in a browser on any storage, stores
  exactly what \<open>init_demo_storage\<close> stores for the sample data, and what it prints
  is true of what it stored: each ``initialized'' line names a key it wrote and the
  number of records stored there, and the overview repeats the counts of the stored
  statistics.\<close>

theorem client_script_reports_storage:
  "list_all (\<lambda>(p, sc). fst (run_client_script m (script_data sc)) = init_demo_storage m d)
     (written_files (generate dirs d)) \<and>
   list_all (\<lambda>l. case l of
       Initialized k n \<Rightarrow> \<exists>v. fst (run_client_script m d) (storage_key k) = Some v \<and> stored_length v = n
     | _ \<Rightarrow> True) (snd (run_client_script m d)) \<and>
   fst (run_client_script m d) (storage_key ''stats'') = Some (Stored_stats (make_stats d)) \<and>
   filter (\<lambda>l. l \<in> {Overview_papers (total_papers (make_stats d)),
                      Overview_users (total_users (make_stats d)),
                      Overview_ratings (total_ratings (make_stats d)),
                      Overview_comments (total_comments (make_stats d))})
     (snd (run_client_script m d)) =
   [Overview_papers (total_papers (make_stats d)), Overview_users (total_users (make_stats d)),
    Overview_ratings (total_ratings (make_stats d)), Overview_comments (total_comments (make_stats d))]"
  by (simp add: generate_def write_file_def run_client_script_def init_demo_storage_eq entries_def
      make_stats_def)

text \<open>C32: the generator never leaves its script where it says it does. When
  \<open>scripts/setup/public\<close> exists, it writes \<open>scripts/setup/public/init-demo-data.js\<close>
  (below its own directory) but reports \<open>public/init-demo-data.js\<close>, served at the
  site's root; when that directory is missing, \<open>writeFileSync\<close> throws
  \<open>ENOENT\<close> and the script stops after its first line, writing nothing.\<close>

theorem generator_reports_wrong_path:
  "(case generate dirs d of
      Inl (e, out) \<Rightarrow> ''scripts/setup/public'' \<notin> set dirs \<and>
        e = Enoent ''scripts/setup/public/init-demo-data.js'' \<and> out = [Gen_start]
    | Inr (fs, out) \<Rightarrow> ''scripts/setup/public'' \<in> set dirs \<and>
        map fst fs = [''scripts/setup/public/init-demo-data.js''] \<and>
        Gen_written ''public/init-demo-data.js'' \<in> set out \<and>
        Gen_location ''public/init-demo-data.js'' \<in> set out) \<and>
   ''public/init-demo-data.js'' \<notin> fst ` set (written_files (generate dirs d))"
  by (simp add: generate_def write_file_def script_dir_def)

text \<open>On the script tree of the sources the generator fails: it throws before it
  writes or reports anything.\<close>

theorem generator_fails_on_source_tree:
  "generate source_dirs d = Inl (Enoent ''scripts/setup/public/init-demo-data.js'', [Gen_start])"
  by (simp add: generate_def write_file_def script_dir_def source_dirs_def)

end
