(* ===== verification/Cookie_Test.thy ===== *)
theory Cookie_Test
  imports Prelude
begin

text \<open>
  \<open>src/test-cookie.js\<close>: \<open>makeRequest\<close> (lines 5--38) sends a \<open>GET\<close> request
  and returns a promise of the answer, and \<open>testCookies\<close> (lines 40--77) sends three
  requests one after the other and prints each answer or error. The network and the
  console are outside the program: a request's answer is the sequence of events its
  response and request objects emit (a chunk of the body, the end of the body, an
  error), and the console is the list of lines printed. \<open>new URL\<close> is the
  platform's parser, not the program's: the URLs are given by the parts the code reads.
  \<open>JSON.parse\<close> is a parameter \<open>parse\<close> of the model (\<open>None\<close> when it throws),
  so the lemmas hold for every parser.
\<close>

record url =
  protocol :: js_string
  hostname :: js_string
  port :: js_string
  pathname :: js_string

datatype client = Http_client | Https_client

record req_options =
  opt_hostname :: js_string
  opt_port :: js_string
  opt_path :: js_string
  opt_method :: js_string
  opt_headers :: "(js_string \<times> js_string) list"

definition pick_client :: "url \<Rightarrow> client" where
  "pick_client u = (if protocol u = ''https:'' then Https_client else Http_client)"

definition request_options :: "url \<Rightarrow> (js_string \<times> js_string) list \<Rightarrow> req_options" where
  "request_options u hs =
     \<lparr> opt_hostname = hostname u, opt_port = port u, opt_path = pathname u,
       opt_method = ''GET'', opt_headers = hs \<rparr>"

subsection \<open>The promise of \<open>makeRequest\<close>\<close>

text \<open>
  The promise resolves with the parsed body, or with the body text when it does not
  parse (lines 24--28), or rejects with the request's error (line 33). A promise
  settles once: a later \<open>resolve\<close> or \<open>reject\<close> is ignored. The body accumulates
  every chunk (line 21), also after the promise has settled.
\<close>

datatype 'j settlement = Resolved_json 'j | Resolved_text js_string | Rejected js_string

record 'j req_state =
  body :: js_string
  outcome :: "'j settlement option"

datatype net_event = Data js_string | End_of_response | Net_error js_string

definition init_req :: "'j req_state" where
  "init_req = \<lparr> body = [], outcome = None \<rparr>"

definition parse_or_text :: "(js_string \<Rightarrow> 'j option) \<Rightarrow> js_string \<Rightarrow> 'j settlement" where
  "parse_or_text parse d = (case parse d of Some j \<Rightarrow> Resolved_json j | None \<Rightarrow> Resolved_text d)"

definition settle :: "'j settlement \<Rightarrow> 'j req_state \<Rightarrow> 'j req_state" where
  "settle v st = (if outcome st = None then st\<lparr>outcome := Some v\<rparr> else st)"

fun req_step :: "(js_string \<Rightarrow> 'j option) \<Rightarrow> 'j req_state \<Rightarrow> net_event \<Rightarrow> 'j req_state" where
  "req_step parse st (Data c) = st\<lparr>body := body st @ c\<rparr>"
| "req_step parse st End_of_response = settle (parse_or_text parse (body st)) st"
| "req_step parse st (Net_error m) = settle (Rejected m) st"

definition req_run :: "(js_string \<Rightarrow> 'j option) \<Rightarrow> 'j req_state \<Rightarrow> net_event list \<Rightarrow> 'j req_state" where
  "req_run parse st evs = fold (\<lambda>e st. req_step parse st e) evs st"

subsection \<open>\<open>testCookies\<close>\<close>

text \<open>
  The three tests: the cookie endpoint without a cookie, the same endpoint with the
  development cookies \<open>rp_dev_auth\<close> and \<open>rp_dev_user\<close>, and the authentication
  status endpoint with the same cookies. Each \<open>await\<close> waits for its request's
  promise, so a request is sent only after the previous one settled; a promise that
  never settles stops the script there.
\<close>

definition dev_cookie :: js_string where
  "dev_cookie = ''rp_dev_auth=1; rp_dev_user=%7B%22username%22%3A%22testuser%22%2C%22id%22%3A%22test-123%22%2C%22email%22%3A%22test%40researchopia.com%22%7D''"

definition local_url :: "js_string \<Rightarrow> url" where
  "local_url p = \<lparr> protocol = ''http:'', hostname = ''localhost'', port = ''3001'', pathname = p \<rparr>"

datatype cookie_test = Cookie_test nat url "(js_string \<times> js_string) list"

definition cookie_tests :: "cookie_test list" where
  "cookie_tests =
     [Cookie_test 1 (local_url ''/api/test-cookie'') [],
      Cookie_test 2 (local_url ''/api/test-cookie'') [(''Cookie'', dev_cookie)],
      Cookie_test 3 (local_url ''/api/auth/status'') [(''Cookie'', dev_cookie)]]"

text \<open>The lines printed: the banners and the numbered headings (in Chinese in the
  source), an answer printed as JSON, a body that did not parse (printed as a JSON
  string), and an error's message.\<close>

datatype 'j log_line =
    Log_start
  | Log_heading nat
  | Log_json 'j
  | Log_body js_string
  | Log_error js_string
  | Log_done

fun test_lines :: "nat \<Rightarrow> 'j settlement \<Rightarrow> 'j log_line list" where
  "test_lines n (Resolved_json j) = [Log_heading n, Log_json j]"
| "test_lines n (Resolved_text t) = [Log_heading n, Log_body t]"
| "test_lines n (Rejected m) = [Log_heading n, Log_error m]"

text \<open>The script, given how each request's promise settles (\<open>None\<close>: never): the
  requests it sends, in order, and the lines it prints after its first banner.\<close>

fun run_tests ::
  "cookie_test list \<Rightarrow> 'j settlement option list \<Rightarrow> req_options list \<times> 'j log_line list" where
  "run_tests [] outs = ([], [Log_done])"
| "run_tests (Cookie_test n u hs # ts) [] = ([request_options u hs], [Log_heading n])"
| "run_tests (Cookie_test n u hs # ts) (None # outs) = ([request_options u hs], [Log_heading n])"
| "run_tests (Cookie_test n u hs # ts) (Some v # outs) =
     (case run_tests ts outs of
        (rqs, ls) \<Rightarrow> (request_options u hs # rqs, test_lines n v @ ls))"

definition test_cookies :: "'j settlement option list \<Rightarrow> req_options list \<times> 'j log_line list" where
  "test_cookies outs = (case run_tests cookie_tests outs of (rqs, ls) \<Rightarrow> (rqs, Log_start # ls))"

subsection \<open>Lemmas\<close>

lemma req_step_settled: "outcome st \<noteq> None \<Longrightarrow> outcome (req_step parse st e) = outcome st"
  by (cases e) (simp_all add: settle_def)

lemma req_run_Nil [simp]: "req_run parse st [] = st"
  by (simp add: req_run_def)

lemma req_run_Cons [simp]: "req_run parse st (e # evs) = req_run parse (req_step parse st e) evs"
  by (simp add: req_run_def)

lemma req_run_data:
  "req_run parse st (map Data cs @ evs) = req_run parse (st\<lparr>body := body st @ concat cs\<rparr>) evs"
  by (induction cs arbitrary: st) simp_all

subsection \<open>Properties\<close>

text \<open>The promise of \<open>makeRequest\<close> settles at most once: once it has
  resolved or rejected, no later event of the request (more data, the end, an error)
  changes how it settled.\<close>

theorem request_settles_once:
  "outcome st \<noteq> None \<Longrightarrow> outcome (req_run parse st evs) = outcome st"
proof (induction evs arbitrary: st)
  case (Cons e evs)
  then show ?case by (simp add: req_step_settled)
qed simp

theorem request_settles_once_witness:
  "outcome (settle (Rejected ''ECONNRESET'') (init_req :: nat req_state)) \<noteq> None \<and>
   outcome (req_run (\<lambda>d. None) (settle (Rejected ''ECONNRESET'') init_req) [Data ''{}'', End_of_response]) =
     Some (Rejected ''ECONNRESET'')"
proof -
  have h: "outcome (settle (Rejected ''ECONNRESET'') (init_req :: nat req_state)) \<noteq> None"
    by (simp add: settle_def init_req_def)
  show ?thesis
    using h request_settles_once [OF h, of "\<lambda>d. None" "[Data ''{}'', End_of_response]"]
    by (simp add: settle_def init_req_def)
qed

text \<open>A response whose body arrives in chunks and then ends resolves the promise
  with the whole body, parsed as JSON if it parses and as text otherwise, whatever
  events follow.\<close>

theorem request_resolves_with_body:
  "outcome (req_run parse init_req (map Data cs @ End_of_response # evs)) =
     Some (parse_or_text parse (concat cs))"
proof -
  let ?st = "settle (parse_or_text parse (concat cs)) (init_req\<lparr>body := concat cs\<rparr>)"
  have "outcome ?st \<noteq> None" by (simp add: settle_def init_req_def)
  then have "outcome (req_run parse ?st evs) = outcome ?st" by (rule request_settles_once)
  then show ?thesis by (simp add: req_run_data init_req_def settle_def)
qed

text \<open>C30: no failure stops the script: whatever the three requests settle with,
  resolved or rejected, it sends the three requests in order (the second and third
  with the development cookie), prints a heading and one answer or error line for
  each, and reaches its final line.\<close>

theorem test_cookies_survives_errors:
  "length vs = 3 \<Longrightarrow>
     fst (test_cookies (map Some vs)) =
       [request_options (local_url ''/api/test-cookie'') [],
        request_options (local_url ''/api/test-cookie'') [(''Cookie'', dev_cookie)],
        request_options (local_url ''/api/auth/status'') [(''Cookie'', dev_cookie)]] \<and>
     length (snd (test_cookies (map Some vs))) = 8 \<and>
     last (snd (test_cookies (map Some vs))) = Log_done"
proof -
  assume "length vs = 3"
  then obtain a b c where "vs = [a, b, c]"
    by (cases vs; cases "tl vs"; cases "tl (tl vs)") auto
  then show ?thesis
    by (cases a; cases b; cases c) (simp_all add: test_cookies_def cookie_tests_def)
qed

theorem test_cookies_survives_errors_witness:
  "length [Rejected ''ECONNREFUSED'', Resolved_text ''<html>'', Resolved_json (1::nat)] = 3 \<and>
   snd (test_cookies (map Some [Rejected ''ECONNREFUSED'', Resolved_text ''<html>'', Resolved_json (1::nat)])) =
     [Log_start, Log_heading 1, Log_error ''ECONNREFUSED'', Log_heading 2, Log_body ''<html>'',
      Log_heading 3, Log_json 1, Log_done]"
proof -
  have h: "length [Rejected ''ECONNREFUSED'', Resolved_text ''<html>'', Resolved_json (1::nat)] = 3"
    by simp
  have "snd (test_cookies (map Some [Rejected ''ECONNREFUSED'', Resolved_text ''<html>'', Resolved_json (1::nat)])) =
     [Log_start, Log_heading 1, Log_error ''ECONNREFUSED'', Log_heading 2, Log_body ''<html>'',
      Log_heading 3, Log_json 1, Log_done]"
    by (simp add: test_cookies_def cookie_tests_def)
  then show ?thesis using h test_cookies_survives_errors [OF h] by simp
qed

end
