(* ===== verification/Spec2Isabelle.thy ===== *)
theory Spec2Isabelle
  imports Auth_Spec Auth_Quiesce Auth_Iff Auth_Typing Announcement_UI Demo_Data Cookie_Test
begin

text \<open>
  \<^bold>\<open>A verification model of researchopia: its authentication context, its
  announcement form, its demo-data generator and its cookie test script.\<close>

  \<^bold>\<open>The program.\<close> The repository is a paper-rating web application. Its one piece
  with non-trivial behaviour is \<open>AuthProvider\<close> in
  \<open>src/src/contexts/AuthContext.tsx\<close>: a React context that bootstraps the session
  from an external auth provider (\<open>checkSession\<close> in the mount effect), reconciles
  the auth events the provider pushes (\<open>onAuthStateChange\<close>), derives the
  application user from the provider's user (\<open>handleAuthUser\<close>), fetches or creates
  the user's profile row after a 100 ms timer (\<open>fetchProfile\<close>,
  \<open>createUserProfile\<close>), and exposes the actions \<open>signIn\<close>, \<open>signUp\<close>,
  \<open>signOut\<close>, \<open>refreshSession\<close>, \<open>fetchProfile\<close> and the raw setters
  \<open>setUser\<close>, \<open>setProfile\<close>. These parts share one state (five React state
  variables and three refs) and interleave at every \<open>await\<close> on the provider.
  The other sources are a form (\<open>src/src/components/AnnouncementForm.tsx\<close>), a
  script that writes demo data (\<open>src/scripts/setup/generate-demo-data.js\<close>), a
  script that sends three test requests and prints their answers
  (\<open>src/test-cookie.js\<close>) and a script that only prints fixed text
  (\<open>src/scripts/test/debug-refresh.js\<close>).

  \<^bold>\<open>Theories.\<close>
  \<^item> \<open>Prelude\<close>: the JavaScript idioms the sources use (\<open>a || b\<close> on optional
    strings as \<open>js_or\<close>, \<open>s.split(c)[0]\<close> as \<open>split_head\<close>,
    \<open>s.trim()\<close> as \<open>js_trim\<close>, proved equal to the standard's index form
    \<open>trim_ref\<close>), \<open>remove_nth\<close>
    for the task a scheduler resumes, the \<open>js_simps\<close> and \<open>frame_simps\<close>
    collections.
  \<^item> \<open>Auth_Types\<close>: the \<open>User\<close> record (\<open>app_user\<close>), the fields of the
    provider's user the code reads (\<open>sb_user\<close>), \<open>to_app_user\<close> (the object
    built in \<open>handleAuthUser\<close>, role by exact match with \<open>admin@test.edu.cn\<close>),
    \<open>profile_insert_row\<close> (the row of \<open>createUserProfile\<close>), the messages the
    actions throw (\<open>err_msg\<close>, \<open>sign_in_error\<close>), and one datatype per kind of
    provider reply. Lemmas: the role inference, the username is never empty, the two
    role inferences agree.
  \<^item> \<open>Auth_State\<close>: the record \<open>auth_sys\<close> of the provider's state (React
    state, refs, whether a client exists, whether the subscription is live, the
    \<open>user\<close> the mount effect's closures captured, pending tasks, rows sent to the
    \<open>users\<close> table, settled action results) and one definition per handler. An
    async function is cut at each \<open>await\<close>: the code before it is a definition that
    appends a \<open>task\<close>, the code after it a \<open>_resume\<close> function of the reply
    (\<open>check_session\<close>/\<open>check_session_resume\<close>,
    \<open>fetch_profile\<close>/\<open>fetch_profile_resume\<close>, \<open>create_user_profile\<close>/
    \<open>create_profile_resume\<close>, \<open>sign_in\<close>/\<open>sign_in_resume\<close>, and so on);
    \<open>finally\<close> blocks are \<open>action_finally\<close>, \<open>fetch_profile_finally\<close>,
    \<open>check_session_finally\<close>. Lemmas: every branch of every handler, on every reply,
    errors included (the frame of the profile work, the silence of an unmounted
    provider, the completion of the bootstrap, the actions' results and their release
    of \<open>loading\<close>).
  \<^item> \<open>Auth_Machine\<close>: the event loop as a deterministic \<open>step\<close> over events
    (mount, unmount, a pushed auth event, a task resumed with a reply, a consumer call)
    and \<open>run\<close> over event lists, so that an event list is one interleaving; the
    states reachable through the context's own handlers as an \<open>inductive\<close>
    predicate. Lemmas: invariants by rule induction or by induction on the run, and
    concrete runs.
  \<^item> \<open>Auth_Spec\<close>: the contract of the design document as an abstract
    \<open>session_state\<close> with the Apply-Identity transition, the reconciler's event
    table (\<open>spec_reconcile\<close>), the bootstrap's outcome (\<open>spec_bootstrap\<close>)
    and the actions' contract (\<open>spec_action\<close>, with \<open>auth_outcome\<close> and
    \<open>signout_outcome\<close>, the code's reading of the provider's answer);
    \<open>abs_state\<close> reads it off \<open>auth_sys\<close>. Lemmas: the code refines the table
    for the three events it names, the bootstrap on an unauthenticated provider, and the
    contract for \<open>signIn\<close>, \<open>signUp\<close>, \<open>signOut\<close> on every answer;
    where the code does more, the lemma says what.
  \<^item> \<open>Auth_Quiesce\<close>: the pending work runs out. \<open>task_weight\<close> weighs a task by
    the chain of tasks it can still start (a session or action answer 4: it may start
    the profile timer, 3, which starts the query, 2, whose ``no row'' answer starts
    the insert, 1); every resume lowers the total \<open>pending_weight\<close>, under any
    schedule. \<open>drain_trace\<close> answers the oldest task first with \<open>answers\<close> of
    the right kind until none is left; it is a \<open>function\<close> whose termination is
    proved with that weight as the measure, so no fuel is needed. Lemmas: the queue
    empties within the weight, after a mount the bootstrap settles whatever the
    provider answers, and the results log and the suspended calls always add up to
    the calls made (\<open>action_call\<close>, \<open>action_task\<close>, \<open>settled_count\<close>; a
    check of the model's bookkeeping, which each resume settles once by
    construction). The profile store converges:
    \<open>converging\<close> (profile work of a mounted provider, a timer with an id, a query
    or an insert among it, or the row already stored) is kept by every resume when the
    table answers one row, so draining loads that row.
  \<^item> \<open>Auth_Iff\<close>: where the design's invariant (\<open>isAuthenticated\<close> exactly
    when there is a user) holds: \<open>polite_reachable\<close> are the states reached when
    consumers call nothing before the initial session check has finished and use no
    raw setter; \<open>polite_inv\<close> describes the phases of a mounted provider (before the
    mount effect, during the check, after it). Lemma: the invariant holds in every such
    state of a mounted provider.
  \<^item> \<open>Auth_Typing\<close>: the identities the provider holds are well formed
    (\<open>wf_app_user\<close> of \<open>Auth_Types\<close>: a non-empty username, the administrator
    role exactly for the administrator's e-mail, an update time whenever there is a
    creation time); \<open>users_wf\<close> extends it to the users captured by closures. Lemma:
    every reachable state holds a well-formed user.
  \<^item> \<open>Announcement\<close>: \<open>handleSubmit\<close> of \<open>AnnouncementForm.tsx\<close> cut at its
    \<open>fetch\<close> (\<open>submit_start\<close>: validation on trimmed fields and the request;
    \<open>submit_error\<close>, \<open>submit_finish\<close>: the server's answer), the button's
    \<open>disabled\<close> condition, \<open>getTypeIcon\<close>, \<open>getTypeColor\<close>; \<open>trim\<close> is
    \<open>js_trim\<close> of the prelude.
  \<^item> \<open>Announcement_UI\<close>: the form driven by its user as a step function
    \<open>ui_step\<close> over \<open>ui_event\<close>s (typing, picking a type, the two buttons with
    their \<open>disabled\<close> conditions, the server answering), with the submissions in
    flight and the calls of \<open>onSuccess\<close> and \<open>onCancel\<close>; \<open>browser_ok\<close> is what
    the browser lets the user do (\<open>maxLength\<close>, the radio values) and
    \<open>ui_reachable\<close> the states so reached. Lemmas: one submission at a time, inert
    buttons while it is pending; the counters stay within the limits only because the
    browser stops typing there, since nothing in the code checks a length.
  \<^item> \<open>Demo_Data\<close>: the sample data of \<open>generate-demo-data.js\<close> and the browser
    script it generates, as writes to a \<open>localStorage\<close> map
    (\<open>init_demo_storage\<close>), the lines that script prints
    (\<open>run_client_script\<close>), and the generator's own effect: the file it writes and
    what it prints (\<open>generate\<close>, with \<open>path_join\<close> for \<open>path.join\<close>), or the
    \<open>ENOENT\<close> that \<open>writeFileSync\<close> throws when the target directory is missing
    (\<open>write_file\<close>; the file system is the list of existing directories, and the
    result is \<open>Inl\<close> with the lines printed before the throw). Lemmas: the frame, the
    keys, the data's referential integrity and score bounds, the written script stores
    the data and reports what it stored, the generator never leaves the file where it
    says; in this theory, the seeded roles agree with the context's role inference.
  \<^item> \<open>Cookie_Test\<close>: \<open>makeRequest\<close> of \<open>test-cookie.js\<close> as the promise its
    response events settle (\<open>req_step\<close>, \<open>req_run\<close>), and \<open>testCookies\<close> as
    the requests it sends and the lines it prints given how each promise settles
    (\<open>test_cookies\<close>). Lemmas: the promise settles once (as every promise does),
    resolves with the whole body, and no failed request stops the script.
  \<^item> this theory: properties that span components.

  \<^bold>\<open>Choices of the model.\<close> The provider and the database are not modelled: their
  replies are inputs of \<open>Resume\<close> events, so every reply and every order of replies
  is covered. Awaiting \<open>handleAuthUser\<close>, which has no suspension point, is atomic.
  A consumer's call reads the latest render's \<open>user\<close>; the closures of the mount
  effect read the \<open>user\<close> of the render that ran it. React's discarding of updates
  after a real unmount is not modelled: the state is the one the code writes, so the
  guards on \<open>mountedRef\<close> are what the lemmas about an unmounted provider test.
  Console logging is not modelled, except the lines \<open>testCookies\<close> prints, which are
  its output. Nothing here needs fuel: every handler is non-recursive, \<open>run\<close>
  recurses on the event list, and the one loop of the model that is not structural,
  draining the pending tasks, terminates by the weight argument above.

  \<^bold>\<open>What the lemmas show.\<close> An authenticated provider always has a user, in every
  reachable state (\<open>reachable_authenticated_has_user\<close>); the converse, which the
  documentation states, fails on a concrete run where a sign-in is answered before the
  initial session check (\<open>bootstrap_race_user_without_auth\<close>), and holds for
  consumers that wait for the bootstrap (\<open>polite_consumers_keep_auth_iff\<close>). Auth events before the
  bootstrap is done change nothing. The answer to a profile query never changes the
  authentication, and nothing the profile work does after an unmount is visible. The
  reconciler implements the design's event table for the events the table names
  (\<open>reconciler_refines_table\<close>) and the bootstrap implements the design's outcome
  on an unauthenticated provider (\<open>bootstrap_refines_spec\<close>); where the code does
  more, a lemma says what. The findings: with no provider client, \<open>loading\<close> stays
  true forever (\<open>unconfigured_stays_loading\<close>); the bootstrap and auth-event paths
  never create a profile row, because their closures hold the first render's
  \<open>null\<close> user (\<open>bootstrap_never_creates_profile\<close>); after an unmount and a
  remount of the same instance, the context never applies a session again
  (\<open>remount_never_authenticates\<close>); an error answer to the session check keeps
  an existing authentication (\<open>bootstrap_error_keeps_authentication\<close>). The form
  rejects blank fields, sends trimmed fields with the right method, and always stops
  submitting; driven by its user it never has two submissions in flight
  (\<open>form_single_submission\<close>). The actions implement the design's contract
  (\<open>actions_refine_contract\<close>), which also shows that a failed sign-out keeps the
  identity the design's testable properties say is always cleared. The pending work of
  the provider always runs out (\<open>resume_lowers_pending_weight\<close>,
  \<open>drain_quiesces\<close>), and the bootstrap then has settled (\<open>bootstrap_settles\<close>);
  when the table holds one row for the user, repeated and overlapping fetches, stale
  timers included, converge to that row (\<open>profile_store_converges\<close>).
  Two more findings are concrete runs: two actions in flight share one \<open>loading\<close>
  flag, which the first to finish releases
  (\<open>loading_released_while_action_pending\<close>), and two concurrent first fetches of a
  profile send two inserts for the same id (\<open>concurrent_fetches_insert_twice\<close>),
  which settles the design's open question. A profile query answered after a
  successful sign-out sets the signed-out user's profile again, because the profile's
  setters are guarded by \<open>mountedRef\<close> only (\<open>late_profile_after_sign_out\<close>);
  \<open>refreshSession\<close>, one of the design's actions, neither sets \<open>loading\<close> nor
  throws on failure (\<open>refresh_session_breaks_contract\<close>). The seeder writes exactly its five keys and
  reads back what it wrote (\<open>JSON.stringify\<close> being the data it embeds, this is a
  fact of the map updates); its users carry the roles the context infers
  (\<open>seeded_roles_match_inference\<close>). The cookie script's promise settles once
  and no failed request stops the script. The user the provider holds is always well
  formed (\<open>reachable_user_well_formed\<close>). The demo-data generator writes its script
  under \<open>scripts/setup/public\<close> while it tells the user the file is
  \<open>public/init-demo-data.js\<close>, served at the site's root, and where that
  directory is missing, as in the sources, \<open>writeFileSync\<close> throws and the
  generator stops after its first line (\<open>generator_reports_wrong_path\<close>,
  \<open>generator_fails_on_source_tree\<close>); the script itself stores the data and prints
  true counts (\<open>client_script_reports_storage\<close>).

  \<^bold>\<open>Not modelled.\<close> \<open>src/scripts/test/debug-refresh.js\<close> prints fixed text and
  computes nothing. The markup rendered by \<open>AuthContext.Provider\<close> and by the form
  is not modelled beyond the values it shows. The external SDK, the network,
  \<open>new URL\<close> and \<open>JSON.parse\<close> are not modelled beyond their answers, which are
  inputs of the model (\<open>parse\<close> is a parameter of the cookie script's lemmas).
  \<open>JSON.stringify\<close> of the embedded demo data is modelled by the data it embeds. The
  sample data keeps the fields that relate its records; \<open>trim\<close> covers the white
  space below code point 256, no-break space included (the model's strings are
  lists of 8-bit \<open>char\<close>), not U+FEFF, U+2028, U+2029 or the other Unicode spaces. An edited announcement is taken to carry its \<open>id\<close>: the
  form's prop is untyped, and one without an \<open>id\<close> would be sent without one.

  \<^bold>\<open>Plan.\<close> Every file under \<open>src/\<close> that computes is modelled. What remains
  open is outside the sources: a profile store whose table answers change between
  queries (the model lets every answer vary, but the convergence lemma fixes one row),
  and the SDK's own event ordering.
\<close>

text \<open>The users the demo-data script seeds carry the role the authentication
  context infers from their e-mail: the seeded administrator is the one address
  \<open>handleAuthUser\<close> maps to \<open>admin\<close>, the other seeded user maps to \<open>user\<close>.\<close>

theorem seeded_roles_match_inference:
  "list_all (\<lambda>u. du_role u = infer_role (Some (du_email u))) (users sample_data)"
  by (simp add: sample_data_def infer_role_def admin_email_def)

end
